theory Spec2Isabelle
  imports Main "HOL-Library.Word" "HOL-Library.Sublist"
begin

section \<open>Virtual XR outputs of the modesetting driver\<close>

text \<open>
  A shallow embedding of \<^verbatim>\<open>hw/xfree86/drivers/video/modesetting/drmmode_xr_virtual.c\<close>
  (the first of the two copies the source file holds, lines 1 to 1739: the one with the
  virtual CRTC and the off-screen framebuffer).

  Pointers are handles (\<open>ptr\<close>), \<open>NULL\<close> is \<open>None\<close>. The linked list
  \<^verbatim>\<open>ms->xr_virtual_outputs\<close> is a list, head first; a pointer to one of its records is
  the record's position in the list. The host objects the file reads back (the
  \<^verbatim>\<open>xf86Output\<close>, the \<^verbatim>\<open>xf86Crtc\<close>, the RandR output) live in stores, and every
  call that acquires, releases or announces something is appended to a trace, in the
  order the C code makes it. Each answer of the host (an allocation that fails, the
  identifier the kernel hands out) is a field of an environment record passed to the
  operation. Log lines (\<^verbatim>\<open>xf86DrvMsg\<close>) are not modelled.
\<close>

subsection \<open>Data\<close>

type_synonym ptr = nat

text \<open>\<^verbatim>\<open>xr_mode_rec\<close> (lines 69 to 74).\<close>

record xr_mode_rec =
  mode_width :: int
  mode_height :: int
  mode_refresh :: int

text \<open>\<^verbatim>\<open>drmmode_bo\<close>: the two backends, and the size as \<^verbatim>\<open>uint32_t\<close>.\<close>

record drmmode_bo =
  dumb :: "ptr option"
  gbm :: "ptr option"
  bo_width :: "32 word"
  bo_height :: "32 word"
  used_modifiers :: bool

text \<open>\<^verbatim>\<open>xr_virtual_output_rec\<close> (lines 77 to 90); \<^verbatim>\<open>next\<close> is the list itself.\<close>

record xr_virtual_output_rec =
  output_ptr :: "ptr option"
  crtc :: "ptr option"
  randr_output :: "ptr option"
  name :: "string option"
  width :: int
  height :: int
  refresh :: int
  modes :: "xr_mode_rec list"
  framebuffer_bo :: drmmode_bo
  framebuffer_id :: "32 word"
  pixmap :: "ptr option"

text \<open>A \<^verbatim>\<open>DisplayModePtr\<close>, as far as the file reads it, and the fields of a CRTC.\<close>

record display_mode =
  HDisplay :: int
  VDisplay :: int
  VRefresh :: int

record xf86_crtc =
  randr_crtc :: "ptr option"
  crtc_private :: bool
  dpms_mode :: int
  crtc_mode :: "display_mode option"
  crtc_x :: int
  crtc_y :: int
  crtc_rotation :: "16 word"

text \<open>
  An \<^verbatim>\<open>xf86Output\<close>: \<open>driver_private\<close> says whether the pointer is set (the block
  holds \<^verbatim>\<open>drmmode\<close>, always \<^verbatim>\<open>&ms->drmmode\<close>).
\<close>

record xf86_output =
  driver_private :: bool
  out_randr_output :: "ptr option"
  out_crtc :: "ptr option"

datatype rr_connection = RR_Connected | RR_Disconnected | RR_UnknownConnection

datatype prop_val = PV_int int | PV_card "32 word" | PV_str string

datatype prop_state = Prop_absent | Prop_configured | Prop_value prop_val

text \<open>
  A RandR output as this file drives it: the connection, the mode list given to
  \<^verbatim>\<open>RROutputSetModes\<close>, and the properties by name.
\<close>

record rr_output =
  connection :: rr_connection
  rr_modes :: "display_mode list"
  props :: "string \<Rightarrow> prop_state"

text \<open>The calls that acquire, release or announce, as they appear in the trace.\<close>

datatype event =
    E_xf86OutputCreate ptr
  | E_xf86OutputDestroy ptr
  | E_calloc_output_private ptr
  | E_free_output_private ptr
  | E_RROutputCreate ptr
  | E_RROutputDestroy ptr
  | E_RROutputSetConnection ptr rr_connection
  | E_RROutputSetModes ptr
  | E_RROutputChanged ptr
  | E_RRTellChanged
  | E_RRPostPendingProperties ptr
  | E_xf86CrtcCreate ptr
  | E_xf86CrtcDestroy ptr
  | E_calloc_crtc_private ptr
  | E_RRCrtcCreate ptr
  | E_RRCrtcDestroy ptr
  | E_RROutputSetCrtcs ptr ptr
  | E_RRCrtcNotify ptr
  | E_calloc_vout
  | E_free_vout
  | E_strdup_name
  | E_free_name
  | E_free_modes
  | E_gbm_bo_create ptr
  | E_dumb_bo_create ptr
  | E_drmModeAddFB "32 word"
  | E_drmModeRmFB "32 word"
  | E_dumb_bo_map ptr
  | E_munmap ptr
  | E_drmmode_bo_destroy
  | E_CreatePixmap ptr
  | E_DestroyPixmap ptr

text \<open>
  \<^verbatim>\<open>modesettingRec\<close> and the host around it. \<open>pScreen\<close> and \<open>pScreen_root\<close> say
  whether \<^verbatim>\<open>xf86ScrnToScreen(pScrn)\<close> and its \<^verbatim>\<open>root\<close> are set; \<open>next_ptr\<close> is the
  next handle an allocation returns.
\<close>

record modesetting =
  xr_virtual_outputs :: "xr_virtual_output_rec list"
  outputs :: "ptr \<Rightarrow> xf86_output option"
  crtcs :: "ptr \<Rightarrow> xf86_crtc option"
  rr_outputs :: "ptr \<Rightarrow> rr_output option"
  pScreen :: bool
  pScreen_root :: bool
  next_ptr :: ptr
  trace :: "event list"

subsection \<open>Small helpers\<close>

definition emit :: "event list \<Rightarrow> modesetting \<Rightarrow> modesetting" where
  "emit es s = s\<lparr>trace := trace s @ es\<rparr>"

definition output_upd :: "ptr \<Rightarrow> (xf86_output \<Rightarrow> xf86_output) \<Rightarrow> modesetting \<Rightarrow> modesetting" where
  "output_upd p f s = s\<lparr>outputs := (outputs s)(p := map_option f (outputs s p))\<rparr>"

definition crtc_upd :: "ptr \<Rightarrow> (xf86_crtc \<Rightarrow> xf86_crtc) \<Rightarrow> modesetting \<Rightarrow> modesetting" where
  "crtc_upd p f s = s\<lparr>crtcs := (crtcs s)(p := map_option f (crtcs s p))\<rparr>"

definition rr_upd :: "ptr \<Rightarrow> (rr_output \<Rightarrow> rr_output) \<Rightarrow> modesetting \<Rightarrow> modesetting" where
  "rr_upd p f s = s\<lparr>rr_outputs := (rr_outputs s)(p := map_option f (rr_outputs s p))\<rparr>"

text \<open>The position of the first element a loop over the list stops at.\<close>

fun first_index :: "('a \<Rightarrow> bool) \<Rightarrow> 'a list \<Rightarrow> nat option" where
  "first_index P [] = None"
| "first_index P (x # xs) = (if P x then Some 0 else map_option Suc (first_index P xs))"

definition remove_nth :: "nat \<Rightarrow> 'a list \<Rightarrow> 'a list" where
  "remove_nth i xs = take i xs @ drop (Suc i) xs"

definition zero_bo :: drmmode_bo where
  "zero_bo = \<lparr>dumb = None, gbm = None, bo_width = 0, bo_height = 0, used_modifiers = False\<rparr>"

subsection \<open>Lookup\<close>

text \<open>\<^verbatim>\<open>drmmode_xr_find_virtual_output\<close> (lines 111 to 121).\<close>

definition drmmode_xr_find_virtual_output :: "modesetting \<Rightarrow> string \<Rightarrow> nat option" where
  "drmmode_xr_find_virtual_output ms n =
     first_index (\<lambda>vout. name vout = Some n) (xr_virtual_outputs ms)"

text \<open>\<^verbatim>\<open>drmmode_xr_find_virtual_output_by_crtc\<close> (lines 124 to 134).\<close>

definition drmmode_xr_find_virtual_output_by_crtc :: "modesetting \<Rightarrow> ptr \<Rightarrow> nat option" where
  "drmmode_xr_find_virtual_output_by_crtc ms c =
     first_index (\<lambda>vout. crtc vout = Some c) (xr_virtual_outputs ms)"

subsection \<open>The host's calls\<close>

text \<open>
  The RandR property calls, \<^verbatim>\<open>xf86OutputDestroy\<close>, \<^verbatim>\<open>xf86CrtcDestroy\<close> and
  \<^verbatim>\<open>RROutputDestroy\<close> belong to the server around this file. Whether a call succeeds
  is the environment's answer; a call that succeeds has the effect its name says.
  \<^verbatim>\<open>MakeAtom\<close> answers \<^verbatim>\<open>BAD_RESOURCE\<close> when \<open>MakeAtom_ok\<close> is false.
\<close>

record prop_env =
  MakeAtom_ok :: bool
  RRConfigureOutputProperty_ok :: bool
  RRChangeOutputProperty_ok :: bool

definition RRQueryOutputProperty :: "modesetting \<Rightarrow> ptr \<Rightarrow> string \<Rightarrow> bool" where
  "RRQueryOutputProperty s rr a =
     (case rr_outputs s rr of None \<Rightarrow> False | Some r \<Rightarrow> props r a \<noteq> Prop_absent)"

definition RRConfigureOutputProperty ::
  "prop_env \<Rightarrow> ptr \<Rightarrow> string \<Rightarrow> modesetting \<Rightarrow> bool \<times> modesetting" where
  "RRConfigureOutputProperty pe rr a s =
     (if RRConfigureOutputProperty_ok pe
      then (True, rr_upd rr (\<lambda>r. r\<lparr>props := (props r)
              (a := (case props r a of Prop_absent \<Rightarrow> Prop_configured | x \<Rightarrow> x))\<rparr>) s)
      else (False, s))"

definition RRChangeOutputProperty ::
  "prop_env \<Rightarrow> ptr \<Rightarrow> string \<Rightarrow> prop_val \<Rightarrow> modesetting \<Rightarrow> bool \<times> modesetting" where
  "RRChangeOutputProperty pe rr a v s =
     (if RRChangeOutputProperty_ok pe
      then (True, rr_upd rr (\<lambda>r. r\<lparr>props := (props r)(a := Prop_value v)\<rparr>) s)
      else (False, s))"

definition RROutputDestroy :: "ptr \<Rightarrow> modesetting \<Rightarrow> modesetting" where
  "RROutputDestroy rr s = emit [E_RROutputDestroy rr] (s\<lparr>rr_outputs := (rr_outputs s)(rr := None)\<rparr>)"

text \<open>
  \<^verbatim>\<open>xf86CrtcDestroy\<close> calls the CRTC's \<^verbatim>\<open>destroy\<close> hook,
  \<^verbatim>\<open>drmmode_xr_virtual_crtc_destroy\<close> (lines 1629 to 1634), which does nothing, and
  frees the CRTC.
\<close>

definition xf86CrtcDestroy :: "ptr \<Rightarrow> modesetting \<Rightarrow> modesetting" where
  "xf86CrtcDestroy c s = emit [E_xf86CrtcDestroy c] (s\<lparr>crtcs := (crtcs s)(c := None)\<rparr>)"

subsection \<open>The framebuffer identifier property\<close>

text \<open>\<^verbatim>\<open>drmmode_xr_virtual_ensure_fb_id_property\<close> (lines 137 to 169).\<close>

definition drmmode_xr_virtual_ensure_fb_id_property ::
  "prop_env \<Rightarrow> ptr \<Rightarrow> 32 word \<Rightarrow> modesetting \<Rightarrow> bool \<times> modesetting" where
  "drmmode_xr_virtual_ensure_fb_id_property pe rr fb_id s =
     (if \<not> MakeAtom_ok pe then (False, s)
      else
        let (ok1, s1) =
              (if \<not> RRQueryOutputProperty s rr ''FRAMEBUFFER_ID''
               then RRConfigureOutputProperty pe rr ''FRAMEBUFFER_ID'' s
               else (True, s))
        in if \<not> ok1 then (False, s1)
           else
             let (ok2, s2) = RRChangeOutputProperty pe rr ''FRAMEBUFFER_ID'' (PV_card fb_id) s1
             in if \<not> ok2 then (False, s2)
                else (True, emit [E_RRPostPendingProperties rr] s2))"

text \<open>The value a client reads from the property, if it has one.\<close>

definition published_fb_id :: "modesetting \<Rightarrow> ptr \<Rightarrow> 32 word option" where
  "published_fb_id s rr =
     (case rr_outputs s rr of
        None \<Rightarrow> None
      | Some r \<Rightarrow> (case props r ''FRAMEBUFFER_ID'' of Prop_value (PV_card w) \<Rightarrow> Some w | _ \<Rightarrow> None))"

subsection \<open>Destroying an output object\<close>

text \<open>
  \<^verbatim>\<open>drmmode_xr_virtual_output_destroy\<close> (lines 195 to 229), the \<^verbatim>\<open>destroy\<close> hook of a
  virtual output: it unlinks and frees the record that points to the output, if the
  list still has one, and frees \<^verbatim>\<open>driver_private\<close>.
\<close>

definition drmmode_xr_virtual_output_destroy :: "ptr \<Rightarrow> modesetting \<Rightarrow> modesetting" where
  "drmmode_xr_virtual_output_destroy out s =
     (let s1 =
            (case first_index (\<lambda>vout. output_ptr vout = Some out) (xr_virtual_outputs s) of
               None \<Rightarrow> s
             | Some i \<Rightarrow>
                 emit ([E_free_modes]
                       @ (if name (xr_virtual_outputs s ! i) \<noteq> None then [E_free_name] else [])
                       @ [E_free_vout])
                   (s\<lparr>xr_virtual_outputs := remove_nth i (xr_virtual_outputs s)\<rparr>))
      in case outputs s1 out of
           None \<Rightarrow> s1
         | Some ob \<Rightarrow>
             output_upd out (\<lambda>x. x\<lparr>driver_private := False\<rparr>)
               (if driver_private ob then emit [E_free_output_private out] s1 else s1))"

text \<open>\<^verbatim>\<open>xf86OutputDestroy\<close> runs the hook and frees the output.\<close>

definition xf86OutputDestroy :: "ptr \<Rightarrow> modesetting \<Rightarrow> modesetting" where
  "xf86OutputDestroy out s =
     (let s1 = drmmode_xr_virtual_output_destroy out s
      in emit [E_xf86OutputDestroy out] (s1\<lparr>outputs := (outputs s1)(out := None)\<rparr>))"

subsection \<open>Destroying the off-screen framebuffer\<close>

text \<open>
  \<^verbatim>\<open>drmmode_xr_destroy_offscreen_framebuffer\<close> (lines 1482 to 1509), on a record that
  is not \<^verbatim>\<open>NULL\<close>: the new record and the calls made.
\<close>

definition drmmode_xr_destroy_offscreen_framebuffer ::
  "modesetting \<Rightarrow> xr_virtual_output_rec \<Rightarrow> xr_virtual_output_rec \<times> event list" where
  "drmmode_xr_destroy_offscreen_framebuffer s vout =
     (let (v1, e1) =
            (case pixmap vout of
               Some p \<Rightarrow> if pScreen s then (vout\<lparr>pixmap := None\<rparr>, [E_DestroyPixmap p])
                         else (vout, [])
             | None \<Rightarrow> (vout, []));
          (v2, e2) =
            (if framebuffer_id v1 \<noteq> 0
             then (v1\<lparr>framebuffer_id := 0\<rparr>, [E_drmModeRmFB (framebuffer_id v1)])
             else (v1, []));
          e3 = (if dumb (framebuffer_bo v2) \<noteq> None \<or> gbm (framebuffer_bo v2) \<noteq> None
                then [E_drmmode_bo_destroy] else [])
      in (v2\<lparr>framebuffer_bo := zero_bo\<rparr>, e1 @ e2 @ e3))"

subsection \<open>Delete\<close>

text \<open>
  \<^verbatim>\<open>drmmode_xr_delete_virtual_output\<close> (lines 653 to 737), block by block. The record
  is out of the list from line 675 on, so the blocks work on the record itself.
  Lines 680 to 690: the framebuffer goes first, if the output still has its private
  block.
\<close>

definition delete_framebuffer ::
  "modesetting \<Rightarrow> xr_virtual_output_rec \<Rightarrow> modesetting \<times> xr_virtual_output_rec" where
  "delete_framebuffer s vout =
     (let drmmode =
            (case output_ptr vout of
               None \<Rightarrow> False
             | Some out \<Rightarrow> (case outputs s out of None \<Rightarrow> False | Some ob \<Rightarrow> driver_private ob))
      in if drmmode
         then (let (v, es) = drmmode_xr_destroy_offscreen_framebuffer s vout in (emit es s, v))
         else (s, vout))"

text \<open>Lines 692 to 706: the RandR CRTC, then the CRTC.\<close>

definition delete_crtc ::
  "modesetting \<Rightarrow> xr_virtual_output_rec \<Rightarrow> modesetting \<times> xr_virtual_output_rec" where
  "delete_crtc s vout =
     (case crtc vout of
        None \<Rightarrow> (s, vout)
      | Some c \<Rightarrow>
          let s1 = (case crtcs s c of
                      None \<Rightarrow> s
                    | Some cr \<Rightarrow>
                        (case randr_crtc cr of
                           None \<Rightarrow> s
                         | Some rc \<Rightarrow>
                             crtc_upd c (\<lambda>x. x\<lparr>randr_crtc := None\<rparr>) (emit [E_RRCrtcDestroy rc] s)));
              s2 = xf86CrtcDestroy c s1;
              s3 = (case output_ptr vout of
                      None \<Rightarrow> s2
                    | Some out \<Rightarrow> output_upd out (\<lambda>x. x\<lparr>out_crtc := None\<rparr>) s2)
          in (s3, vout\<lparr>crtc := None\<rparr>))"

text \<open>Lines 708 to 719: disconnect, announce, destroy the RandR output.\<close>

definition delete_randr_output ::
  "modesetting \<Rightarrow> xr_virtual_output_rec \<Rightarrow> modesetting \<times> xr_virtual_output_rec" where
  "delete_randr_output s vout =
     (case randr_output vout of
        None \<Rightarrow> (s, vout)
      | Some rr \<Rightarrow>
          let s1 = emit [E_RROutputSetConnection rr RR_Disconnected, E_RROutputChanged rr,
                         E_RRTellChanged]
                     (rr_upd rr (\<lambda>r. r\<lparr>connection := RR_Disconnected\<rparr>) s);
              s2 = (case output_ptr vout of
                      None \<Rightarrow> s1
                    | Some out \<Rightarrow> output_upd out (\<lambda>x. x\<lparr>out_randr_output := None\<rparr>) s1);
              s3 = RROutputDestroy rr s2
          in (s3, vout\<lparr>randr_output := None\<rparr>))"

text \<open>Lines 721 to 725: the output, whose hook frees the private block.\<close>

definition delete_xf86_output ::
  "modesetting \<Rightarrow> xr_virtual_output_rec \<Rightarrow> modesetting \<times> xr_virtual_output_rec" where
  "delete_xf86_output s vout =
     (case output_ptr vout of
        None \<Rightarrow> (s, vout)
      | Some out \<Rightarrow> (xf86OutputDestroy out s, vout\<lparr>output_ptr := None\<rparr>))"

text \<open>Lines 727 to 731: the name, the modes, the record.\<close>

definition delete_free_record :: "modesetting \<Rightarrow> xr_virtual_output_rec \<Rightarrow> modesetting" where
  "delete_free_record s vout =
     emit ((if name vout \<noteq> None then [E_free_name] else []) @ [E_free_modes, E_free_vout]) s"

definition drmmode_xr_delete_virtual_output :: "string \<Rightarrow> modesetting \<Rightarrow> bool \<times> modesetting" where
  "drmmode_xr_delete_virtual_output n s =
     (case first_index (\<lambda>vout. name vout = Some n) (xr_virtual_outputs s) of
        None \<Rightarrow> (False, s)
      | Some i \<Rightarrow>
          let vout = xr_virtual_outputs s ! i;
              s0 = s\<lparr>xr_virtual_outputs := remove_nth i (xr_virtual_outputs s)\<rparr>;
              (s1, v1) = delete_framebuffer s0 vout;
              (s2, v2) = delete_crtc s1 v1;
              (s3, v3) = delete_randr_output s2 v2;
              (s4, v4) = delete_xf86_output s3 v3
          in (True, delete_free_record s4 v4))"

subsection \<open>Creating the off-screen framebuffer\<close>

text \<open>
  What the kernel, the GPU and the screen answer while one framebuffer is built.
  \<open>glamor_gbm\<close> is \<^verbatim>\<open>GLAMOR_HAS_GBM\<close> together with \<^verbatim>\<open>drmmode->glamor && drmmode->gbm\<close>;
  \<open>drmmode_bo_import_id\<close> is the identifier \<^verbatim>\<open>drmmode_bo_import\<close> writes, or \<open>None\<close> when
  it fails; \<open>egl_create_available\<close> says whether
  \<^verbatim>\<open>ms->glamor.egl_create_textured_pixmap_from_gbm_bo\<close> is set.
\<close>

record fb_env =
  glamor_gbm :: bool
  gbm_bo_create_ok :: bool
  dumb_bo_create_ok :: bool
  drmmode_bo_import_id :: "32 word option"
  dumb_bo_map_ok :: bool
  egl_create_available :: bool
  CreatePixmap_gbm_ok :: bool
  egl_create_textured_pixmap_ok :: bool
  CreatePixmap_ok :: bool
  ModifyPixmapHeader_ok :: bool
  fb_prop_env :: prop_env

text \<open>
  \<^verbatim>\<open>drmmode_bo_destroy\<close> (the driver's helper in \<^verbatim>\<open>drmmode_display.c\<close>) releases
  whichever backend the buffer has and clears both pointers.
\<close>

definition drmmode_bo_destroy :: "xr_virtual_output_rec \<Rightarrow> xr_virtual_output_rec" where
  "drmmode_bo_destroy vout =
     vout\<lparr>framebuffer_bo := (framebuffer_bo vout)\<lparr>gbm := None, dumb := None\<rparr>\<rparr>"

text \<open>Lines 1259 to 1328: the buffer object, GBM first, a dumb buffer otherwise.\<close>

definition fb_create_bo ::
  "fb_env \<Rightarrow> modesetting \<Rightarrow> xr_virtual_output_rec \<Rightarrow> int \<Rightarrow> int
     \<Rightarrow> bool \<times> xr_virtual_output_rec \<times> modesetting" where
  "fb_create_bo env s vout w h =
     (let v0 = vout\<lparr>framebuffer_bo := zero_bo\<lparr>bo_width := word_of_int w, bo_height := word_of_int h\<rparr>,
                    framebuffer_id := 0, pixmap := None\<rparr>;
          p = next_ptr s
      in if glamor_gbm env \<and> gbm_bo_create_ok env
         then (True, v0\<lparr>framebuffer_bo := (framebuffer_bo v0)\<lparr>gbm := Some p\<rparr>\<rparr>,
               emit [E_gbm_bo_create p] (s\<lparr>next_ptr := Suc p\<rparr>))
         else if dumb_bo_create_ok env
         then (True, v0\<lparr>framebuffer_bo := (framebuffer_bo v0)\<lparr>dumb := Some p\<rparr>\<rparr>,
               emit [E_dumb_bo_create p] (s\<lparr>next_ptr := Suc p\<rparr>))
         else (False, v0, s))"

text \<open>
  The way out of every failure after the import: \<^verbatim>\<open>drmModeRmFB\<close>,
  \<^verbatim>\<open>drmmode_bo_destroy\<close>, \<^verbatim>\<open>return FALSE\<close>, after the calls \<open>pre\<close>. The field
  \<^verbatim>\<open>framebuffer_id\<close> keeps the identifier that was removed.
\<close>

definition fb_fail ::
  "event list \<Rightarrow> modesetting \<Rightarrow> xr_virtual_output_rec
     \<Rightarrow> bool \<times> xr_virtual_output_rec \<times> modesetting" where
  "fb_fail pre s vout =
     (False, drmmode_bo_destroy vout,
      emit (pre @ [E_drmModeRmFB (framebuffer_id vout), E_drmmode_bo_destroy]) s)"

text \<open>
  Lines 1423 to 1465, the CPU path: a pixmap header over the mapped memory.
  \<open>pixmap_ptr\<close> is the mapping, if there is one.
\<close>

definition fb_dumb_pixmap ::
  "fb_env \<Rightarrow> ptr option \<Rightarrow> modesetting \<Rightarrow> xr_virtual_output_rec
     \<Rightarrow> bool \<times> xr_virtual_output_rec \<times> modesetting" where
  "fb_dumb_pixmap env pixmap_ptr s vout =
     (let unmap = (case (pixmap_ptr, dumb (framebuffer_bo vout)) of
                     (Some _, Some d) \<Rightarrow> [E_munmap d]
                   | _ \<Rightarrow> [])
      in if \<not> CreatePixmap_ok env then fb_fail unmap s vout
         else
           let pix = next_ptr s;
               s1 = emit [E_CreatePixmap pix] (s\<lparr>next_ptr := Suc pix\<rparr>)
           in if \<not> ModifyPixmapHeader_ok env
              then fb_fail (E_DestroyPixmap pix # unmap) s1 vout
              else (True, vout\<lparr>pixmap := Some pix\<rparr>, s1))"

text \<open>
  Lines 1343 to 1465: map a dumb buffer; for a GBM buffer try the EGL texture and fall
  back to the CPU path when that fails.
\<close>

definition fb_create_pixmap ::
  "fb_env \<Rightarrow> modesetting \<Rightarrow> xr_virtual_output_rec
     \<Rightarrow> bool \<times> xr_virtual_output_rec \<times> modesetting" where
  "fb_create_pixmap env s vout =
     (case gbm (framebuffer_bo vout) of
        Some g \<Rightarrow>
          if egl_create_available env
          then if \<not> CreatePixmap_gbm_ok env then fb_fail [] s vout
               else
                 let pix = next_ptr s;
                     s1 = emit [E_CreatePixmap pix] (s\<lparr>next_ptr := Suc pix\<rparr>)
                 in if egl_create_textured_pixmap_ok env
                    then (True, vout\<lparr>pixmap := Some pix\<rparr>, s1)
                    else fb_dumb_pixmap env None (emit [E_DestroyPixmap pix] s1) vout
          else fb_dumb_pixmap env None s vout
      | None \<Rightarrow>
          (case dumb (framebuffer_bo vout) of
             Some d \<Rightarrow>
               if dumb_bo_map_ok env
               then fb_dumb_pixmap env (Some d) (emit [E_dumb_bo_map d] s) vout
               else fb_fail [] s vout
           | None \<Rightarrow> fb_fail [] s vout))"

text \<open>
  \<^verbatim>\<open>drmmode_xr_create_offscreen_framebuffer\<close> (lines 1246 to 1477). The last case of
  \<open>fb_create_pixmap\<close> (neither backend) cannot arise after \<open>fb_create_bo\<close> succeeded.
\<close>

definition drmmode_xr_create_offscreen_framebuffer ::
  "fb_env \<Rightarrow> modesetting \<Rightarrow> xr_virtual_output_rec \<Rightarrow> int \<Rightarrow> int
     \<Rightarrow> bool \<times> xr_virtual_output_rec \<times> modesetting" where
  "drmmode_xr_create_offscreen_framebuffer env s vout w h =
     (let (ok1, v1, s1) = fb_create_bo env s vout w h
      in if \<not> ok1 then (False, v1, s1)
         else
           (case drmmode_bo_import_id env of
              None \<Rightarrow> (False, drmmode_bo_destroy v1, emit [E_drmmode_bo_destroy] s1)
            | Some fb \<Rightarrow>
                let (ok2, v2, s2) =
                      fb_create_pixmap env (emit [E_drmModeAddFB fb] s1) (v1\<lparr>framebuffer_id := fb\<rparr>)
                in if \<not> ok2 then (False, v2, s2)
                   else
                     (case randr_output v2 of
                        None \<Rightarrow> (True, v2, s2)
                      | Some rr \<Rightarrow>
                          (True, v2,
                           snd (drmmode_xr_virtual_ensure_fb_id_property (fb_prop_env env) rr
                                  (framebuffer_id v2) s2)))))"

subsection \<open>The virtual CRTC\<close>

text \<open>\<^verbatim>\<open>DPMSModeOn\<close> to \<^verbatim>\<open>DPMSModeOff\<close>, and \<^verbatim>\<open>RR_Rotate_0\<close>.\<close>

definition DPMSModeOn :: int where "DPMSModeOn = 0"
definition DPMSModeStandby :: int where "DPMSModeStandby = 1"
definition RR_Rotate_0 :: "16 word" where "RR_Rotate_0 = 1"

definition new_crtc :: xf86_crtc where
  "new_crtc = \<lparr>randr_crtc = None, crtc_private = False, dpms_mode = 0, crtc_mode = None,
               crtc_x = 0, crtc_y = 0, crtc_rotation = RR_Rotate_0\<rparr>"

text \<open>\<^verbatim>\<open>drmmode_xr_create_virtual_crtc\<close> (lines 1690 to 1739).\<close>

definition drmmode_xr_create_virtual_crtc ::
  "bool \<Rightarrow> bool \<Rightarrow> modesetting \<Rightarrow> ptr option \<times> modesetting" where
  "drmmode_xr_create_virtual_crtc xf86CrtcCreate_ok calloc_ok s =
     (if \<not> xf86CrtcCreate_ok then (None, s)
      else
        let c = next_ptr s;
            s1 = emit [E_xf86CrtcCreate c] (s\<lparr>next_ptr := Suc c, crtcs := (crtcs s)(c \<mapsto> new_crtc)\<rparr>)
        in if \<not> calloc_ok then (None, xf86CrtcDestroy c s1)
           else (Some c,
                 emit [E_calloc_crtc_private c]
                   (crtc_upd c (\<lambda>x. x\<lparr>crtc_private := True, dpms_mode := DPMSModeOn\<rparr>) s1)))"

text \<open>\<^verbatim>\<open>drmmode_xr_virtual_crtc_dpms\<close> (lines 1516 to 1522).\<close>

definition drmmode_xr_virtual_crtc_dpms :: "ptr \<Rightarrow> int \<Rightarrow> modesetting \<Rightarrow> modesetting" where
  "drmmode_xr_virtual_crtc_dpms c m s = crtc_upd c (\<lambda>x. x\<lparr>dpms_mode := m\<rparr>) s"

subsection \<open>The mode list\<close>

text \<open>
  \<^verbatim>\<open>drmmode_xr_virtual_set_modes\<close> (lines 259 to 396). \<open>mode_get w h r\<close> is the RandR
  mode that \<^verbatim>\<open>xf86CVTMode\<close> and \<^verbatim>\<open>RRModeGet\<close> give for a request, or \<open>None\<close> when one
  of them (or the \<^verbatim>\<open>realloc\<close>) fails. The requested width and height only choose the
  \<^verbatim>\<open>M_T_PREFERRED\<close> flag, which the conversion to a RandR mode drops.
\<close>

definition xr_common_modes :: "int \<Rightarrow> (int \<times> int \<times> int) list" where
  "xr_common_modes r =
     concat (map (\<lambda>w. map (\<lambda>h. (w, h, r)) [1080, 1440, 2160]) [1920, 2560, 3840])"

definition drmmode_xr_virtual_set_modes ::
  "(int \<Rightarrow> int \<Rightarrow> int \<Rightarrow> display_mode option) \<Rightarrow> ptr \<Rightarrow> int \<Rightarrow> int \<Rightarrow> int
     \<Rightarrow> modesetting \<Rightarrow> modesetting" where
  "drmmode_xr_virtual_set_modes mode_get out w h r s =
     (case outputs s out of
        None \<Rightarrow> s
      | Some ob \<Rightarrow>
          (case out_randr_output ob of
             None \<Rightarrow> s
           | Some rr \<Rightarrow>
               let custom =
                     (case first_index (\<lambda>vout. output_ptr vout = Some out) (xr_virtual_outputs s) of
                        None \<Rightarrow> []
                      | Some i \<Rightarrow> modes (xr_virtual_outputs s ! i));
                   wanted =
                     (if custom \<noteq> []
                      then map (\<lambda>m. (mode_width m, mode_height m, mode_refresh m)) custom
                      else xr_common_modes r);
                   rrmodes = List.map_filter (\<lambda>(a, b, c). mode_get a b c) wanted
               in if rrmodes \<noteq> []
                  then emit [E_RROutputSetModes rr] (rr_upd rr (\<lambda>x. x\<lparr>rr_modes := rrmodes\<rparr>) s)
                  else s))"

subsection \<open>Create\<close>

text \<open>What the host answers during one \<^verbatim>\<open>drmmode_xr_create_virtual_output\<close>.\<close>

record create_env =
  xf86OutputCreate_ok :: bool
  calloc_output_private_ok :: bool
  RROutputCreate_ok :: bool
  mode_get :: "int \<Rightarrow> int \<Rightarrow> int \<Rightarrow> display_mode option"
  create_prop_env :: prop_env
  xf86CrtcCreate_ok :: bool
  calloc_crtc_private_ok :: bool
  RRCrtcCreate_ok :: bool
  RROutputSetCrtcs_ok :: bool
  RRCrtcNotify_ok :: bool
  calloc_vout_ok :: bool
  strdup_ok :: bool
  create_fb_env :: fb_env

text \<open>
  An integer property is configured and set (lines 489 to 503) or only set (lines 766
  to 777); the results are not looked at.
\<close>

definition configure_and_change ::
  "prop_env \<Rightarrow> ptr \<Rightarrow> string \<Rightarrow> prop_val \<Rightarrow> modesetting \<Rightarrow> modesetting" where
  "configure_and_change pe rr a v s =
     (if MakeAtom_ok pe
      then snd (RRChangeOutputProperty pe rr a v (snd (RRConfigureOutputProperty pe rr a s)))
      else s)"

definition change_only ::
  "prop_env \<Rightarrow> ptr \<Rightarrow> string \<Rightarrow> prop_val \<Rightarrow> modesetting \<Rightarrow> modesetting" where
  "change_only pe rr a v s =
     (if MakeAtom_ok pe then snd (RRChangeOutputProperty pe rr a v s) else s)"

text \<open>
  Lines 474 to 521: the new RandR output is connected, gets its modes and its
  \<^verbatim>\<open>XR_WIDTH\<close>, \<^verbatim>\<open>XR_HEIGHT\<close>, \<^verbatim>\<open>XR_REFRESH\<close> and \<^verbatim>\<open>XR_MODES\<close> properties, and is
  announced.
\<close>

definition create_publish ::
  "create_env \<Rightarrow> ptr \<Rightarrow> ptr \<Rightarrow> int \<Rightarrow> int \<Rightarrow> int \<Rightarrow> modesetting \<Rightarrow> modesetting" where
  "create_publish env out rr w h r s =
     (let pe = create_prop_env env;
          s1 = emit [E_RROutputSetConnection rr RR_Connected]
                 (rr_upd rr (\<lambda>x. x\<lparr>connection := RR_Connected\<rparr>) s);
          s2 = drmmode_xr_virtual_set_modes (mode_get env) out w h r s1;
          s3 = configure_and_change pe rr ''XR_WIDTH'' (PV_int w) s2;
          s4 = configure_and_change pe rr ''XR_HEIGHT'' (PV_int h) s3;
          s5 = configure_and_change pe rr ''XR_REFRESH'' (PV_int r) s4;
          s6 = configure_and_change pe rr ''XR_MODES'' (PV_str []) s5
      in emit [E_RRPostPendingProperties rr, E_RROutputChanged rr, E_RRTellChanged] s6)"

text \<open>
  Lines 532 to 600: with a screen and a root window, the RandR CRTC, the link from the
  output to it, the \<^verbatim>\<open>VIRTUAL_OUTPUT\<close> marker and the automatic enable. A failure
  here is only logged.
\<close>

definition create_randr_crtc ::
  "create_env \<Rightarrow> ptr \<Rightarrow> ptr \<Rightarrow> modesetting \<Rightarrow> modesetting" where
  "create_randr_crtc env rr c s =
     (if pScreen s \<and> pScreen_root s \<and> RRCrtcCreate_ok env
      then
        let pe = create_prop_env env;
            rc = next_ptr s;
            s1 = emit [E_RRCrtcCreate rc]
                   (crtc_upd c (\<lambda>x. x\<lparr>randr_crtc := Some rc\<rparr>) (s\<lparr>next_ptr := Suc rc\<rparr>));
            s2 = (if RROutputSetCrtcs_ok env then emit [E_RROutputSetCrtcs rr rc] s1 else s1);
            s3 = (if MakeAtom_ok pe \<and> \<not> RRQueryOutputProperty s2 rr ''VIRTUAL_OUTPUT''
                  then
                    (case RRConfigureOutputProperty pe rr ''VIRTUAL_OUTPUT'' s2 of
                       (True, s') \<Rightarrow>
                         emit [E_RRPostPendingProperties rr]
                           (snd (RRChangeOutputProperty pe rr ''VIRTUAL_OUTPUT'' (PV_int 1) s'))
                     | (False, s') \<Rightarrow> s')
                  else s2);
            numModes = (case rr_outputs s3 rr of None \<Rightarrow> 0 | Some x \<Rightarrow> length (rr_modes x))
        in if numModes > 0 \<and> RRCrtcNotify_ok env then emit [E_RRCrtcNotify rc] s3 else s3
      else s)"

text \<open>
  Lines 606 to 648: the record, its framebuffer (a failure is logged, ``continuing
  anyway''), and the link into the list. The result is the new head.
\<close>

definition create_record ::
  "create_env \<Rightarrow> string \<Rightarrow> ptr \<Rightarrow> ptr \<Rightarrow> ptr \<Rightarrow> int \<Rightarrow> int \<Rightarrow> int \<Rightarrow> modesetting
     \<Rightarrow> nat option \<times> modesetting" where
  "create_record env n out rr c w h r s =
     (if \<not> calloc_vout_ok env
      then (None,
            xf86OutputDestroy out
              (emit [E_free_output_private out] (RROutputDestroy rr (xf86CrtcDestroy c s))))
      else
        let vout = \<lparr>output_ptr = Some out, crtc = Some c, randr_output = Some rr,
                    name = (if strdup_ok env then Some n else None),
                    width = w, height = h, refresh = r, modes = [],
                    framebuffer_bo = zero_bo, framebuffer_id = 0, pixmap = None\<rparr>;
            s1 = emit (E_calloc_vout # (if strdup_ok env then [E_strdup_name] else [])) s;
            (ok, v, s2) = drmmode_xr_create_offscreen_framebuffer (create_fb_env env) s1 vout w h
        in (Some 0, s2\<lparr>xr_virtual_outputs := v # xr_virtual_outputs s2\<rparr>))"

text \<open>
  \<^verbatim>\<open>drmmode_xr_create_virtual_output\<close> (lines 405 to 648). The function tables
  (lines 423 to 435) are fixed: the output's \<^verbatim>\<open>destroy\<close> hook is
  \<open>drmmode_xr_virtual_output_destroy\<close>, its \<^verbatim>\<open>set_property\<close> hook the resize handler
  below. The freed private block stays in \<^verbatim>\<open>output->driver_private\<close> on the ways out
  at lines 469, 527 and 611, as in the C code.
\<close>

definition drmmode_xr_create_virtual_output ::
  "create_env \<Rightarrow> string \<Rightarrow> int \<Rightarrow> int \<Rightarrow> int \<Rightarrow> modesetting \<Rightarrow> nat option \<times> modesetting" where
  "drmmode_xr_create_virtual_output env n w h r s =
     (if drmmode_xr_find_virtual_output s n \<noteq> None then (None, s)
      else if \<not> xf86OutputCreate_ok env then (None, s)
      else
        let out = next_ptr s;
            s1 = emit [E_xf86OutputCreate out]
                   (s\<lparr>next_ptr := Suc out,
                      outputs := (outputs s)(out \<mapsto>
                        \<lparr>driver_private = False, out_randr_output = None, out_crtc = None\<rparr>)\<rparr>)
        in if \<not> calloc_output_private_ok env then (None, xf86OutputDestroy out s1)
           else
             let s2 = emit [E_calloc_output_private out]
                        (output_upd out (\<lambda>x. x\<lparr>driver_private := True\<rparr>) s1)
             in if \<not> RROutputCreate_ok env
                then (None, xf86OutputDestroy out (emit [E_free_output_private out] s2))
                else
                  let rr = next_ptr s2;
                      s3 = emit [E_RROutputCreate rr]
                             (output_upd out (\<lambda>x. x\<lparr>out_randr_output := Some rr\<rparr>)
                                (s2\<lparr>next_ptr := Suc rr,
                                    rr_outputs := (rr_outputs s2)(rr \<mapsto>
                                      \<lparr>connection = RR_UnknownConnection, rr_modes = [],
                                       props = (\<lambda>a. Prop_absent)\<rparr>)\<rparr>));
                      s4 = create_publish env out rr w h r s3
                  in (case drmmode_xr_create_virtual_crtc (xf86CrtcCreate_ok env)
                              (calloc_crtc_private_ok env) s4 of
                        (None, s5) \<Rightarrow>
                          (None,
                           xf86OutputDestroy out
                             (emit [E_free_output_private out] (RROutputDestroy rr s5)))
                      | (Some c, s5) \<Rightarrow>
                          let s6 = create_randr_crtc env rr c s5;
                              s7 = output_upd out (\<lambda>x. x\<lparr>out_crtc := Some c\<rparr>) s6
                          in create_record env n out rr c w h r s7))"

subsection \<open>Resize\<close>

record resize_env =
  resize_mode_get :: "int \<Rightarrow> int \<Rightarrow> int \<Rightarrow> display_mode option"
  resize_prop_env :: prop_env

text \<open>
  \<^verbatim>\<open>drmmode_xr_resize_virtual_output\<close> (lines 742 to 788). The record is given by its
  position; a position outside the list is not a pointer a caller has.
\<close>

definition drmmode_xr_resize_virtual_output ::
  "resize_env \<Rightarrow> nat option \<Rightarrow> int \<Rightarrow> int \<Rightarrow> int \<Rightarrow> modesetting \<Rightarrow> bool \<times> modesetting" where
  "drmmode_xr_resize_virtual_output env vout w h r s =
     (case vout of
        None \<Rightarrow> (False, s)
      | Some i \<Rightarrow>
          if length (xr_virtual_outputs s) \<le> i then (False, s)
          else
            let v = xr_virtual_outputs s ! i
            in (case (output_ptr v, randr_output v) of
                  (Some out, Some rr) \<Rightarrow>
                    let pe = resize_prop_env env;
                        s1 = s\<lparr>xr_virtual_outputs :=
                                 (xr_virtual_outputs s)[i := v\<lparr>width := w, height := h, refresh := r\<rparr>]\<rparr>;
                        s2 = drmmode_xr_virtual_set_modes (resize_mode_get env) out w h r s1;
                        s3 = change_only pe rr ''XR_WIDTH'' (PV_int w) s2;
                        s4 = change_only pe rr ''XR_HEIGHT'' (PV_int h) s3;
                        s5 = change_only pe rr ''XR_REFRESH'' (PV_int r) s4
                    in (True, emit [E_RROutputChanged rr, E_RRTellChanged] s5)
                | _ \<Rightarrow> (False, s)))"

subsection \<open>C strings and numbers\<close>

text \<open>
  \<^verbatim>\<open>strtol\<close> in base 10: white space, a sign, digits; the value is kept inside
  \<^verbatim>\<open>long\<close> (64 bits), and with no digit the result is 0 and the end pointer the
  start. \<open>strtol_digits\<close> is \<open>None\<close> when there is no digit.
\<close>

definition isspace :: "char \<Rightarrow> bool" where
  "isspace c = (c = CHR '' '' \<or> (9 \<le> (of_char c :: nat) \<and> (of_char c :: nat) \<le> 13))"

definition isdigit :: "char \<Rightarrow> bool" where
  "isdigit c = (48 \<le> (of_char c :: nat) \<and> (of_char c :: nat) \<le> 57)"

definition digit_val :: "char \<Rightarrow> int" where
  "digit_val c = int (of_char c) - 48"

definition LONG_MAX :: int where "LONG_MAX = 9223372036854775807"
definition LONG_MIN :: int where "LONG_MIN = - 9223372036854775808"

definition strtol_digits :: "string \<Rightarrow> (int \<times> string) option" where
  "strtol_digits s =
     (let t = dropWhile isspace s;
          (neg, u) = (case t of
                        [] \<Rightarrow> (False, t)
                      | c # cs \<Rightarrow> if c = CHR ''-'' then (True, cs)
                                  else if c = CHR ''+'' then (False, cs) else (False, t));
          ds = takeWhile isdigit u
      in if ds = [] then None
         else
           let v = foldl (\<lambda>a c. 10 * a + digit_val c) 0 ds
           in Some (max LONG_MIN (min LONG_MAX (if neg then - v else v)), dropWhile isdigit u))"

definition strtol :: "string \<Rightarrow> int \<times> string" where
  "strtol s = (case strtol_digits s of None \<Rightarrow> (0, s) | Some x \<Rightarrow> x)"

text \<open>The cast \<^verbatim>\<open>(int)\<close> of a \<^verbatim>\<open>long\<close>: the low 32 bits, signed.\<close>

definition int_of_long :: "int \<Rightarrow> int" where
  "int_of_long v = sint (word_of_int v :: 32 word)"

text \<open>\<^verbatim>\<open>strndup\<close> of property data: the bytes up to the first NUL.\<close>

definition c_string :: "string \<Rightarrow> string" where
  "c_string bytes = takeWhile (\<lambda>c. c \<noteq> CHR 0x00) bytes"

subsection \<open>The manager's property handler\<close>

datatype atom_type = XA_INTEGER | XA_STRING | XA_OTHER

datatype rr_data = Data8 string | Data16 "16 word list" | Data32 "32 word list"

text \<open>
  An \<^verbatim>\<open>RRPropertyValue\<close>: its type, and its data in units of the format, so that
  \<^verbatim>\<open>format\<close> and \<^verbatim>\<open>size\<close> are read off the data.
\<close>

record rr_property_value =
  ptype :: atom_type
  pdata :: rr_data

definition pformat :: "rr_property_value \<Rightarrow> nat" where
  "pformat v = (case pdata v of Data8 _ \<Rightarrow> 8 | Data16 _ \<Rightarrow> 16 | Data32 _ \<Rightarrow> 32)"

definition psize :: "rr_property_value \<Rightarrow> nat" where
  "psize v = (case pdata v of Data8 xs \<Rightarrow> length xs | Data16 xs \<Rightarrow> length xs | Data32 xs \<Rightarrow> length xs)"

definition pbytes :: "rr_property_value \<Rightarrow> string" where
  "pbytes v = (case pdata v of Data8 xs \<Rightarrow> xs | _ \<Rightarrow> [])"

text \<open>
  Lines 829 to 842: the name up to the first colon, then width, height and refresh as
  far as colons follow; what is missing keeps 1920, 1080 and 60.
\<close>

definition parse_create_command :: "string \<Rightarrow> string \<times> int \<times> int \<times> int" where
  "parse_create_command command =
     (let n = takeWhile (\<lambda>c. c \<noteq> CHR '':'') command
      in case dropWhile (\<lambda>c. c \<noteq> CHR '':'') command of
           [] \<Rightarrow> (n, 1920, 1080, 60)
         | _ # e0 \<Rightarrow>
             let (wl, e1) = strtol e0; w = int_of_long wl
             in (case e1 of
                   [] \<Rightarrow> (n, w, 1080, 60)
                 | c # e1' \<Rightarrow>
                     if c \<noteq> CHR '':'' then (n, w, 1080, 60)
                     else
                       let (hl, e2) = strtol e1'; h = int_of_long hl
                       in (case e2 of
                             [] \<Rightarrow> (n, w, h, 60)
                           | d # e2' \<Rightarrow>
                               if d \<noteq> CHR '':'' then (n, w, h, 60)
                               else (n, w, h, int_of_long (fst (strtol e2'))))))"

record manager_env =
  strndup_ok :: bool
  manager_create_env :: create_env

text \<open>
  \<^verbatim>\<open>drmmode_xr_manager_set_property\<close> (lines 793 to 879). \<open>prop_name\<close> is
  \<^verbatim>\<open>NameForAtom(property)\<close>.
\<close>

definition drmmode_xr_manager_set_property ::
  "manager_env \<Rightarrow> string option \<Rightarrow> rr_property_value \<Rightarrow> modesetting \<Rightarrow> bool \<times> modesetting" where
  "drmmode_xr_manager_set_property env prop_name v s =
     (case prop_name of
        None \<Rightarrow> (False, s)
      | Some pn \<Rightarrow>
          if pn \<noteq> ''CREATE_XR_OUTPUT'' \<and> pn \<noteq> ''DELETE_XR_OUTPUT'' then (False, s)
          else if ptype v \<noteq> XA_STRING \<or> pformat v \<noteq> 8 then (False, s)
          else if \<not> strndup_ok env then (False, s)
          else
            let command = c_string (pbytes v)
            in if pn = ''CREATE_XR_OUTPUT''
               then
                 let (n, w, h, r) = parse_create_command command
                 in if n = [] then (False, s)
                    else
                      (case drmmode_xr_create_virtual_output (manager_create_env env) n w h r s of
                         (Some _, s') \<Rightarrow> (True, s')
                       | (None, s') \<Rightarrow> (False, s'))
               else drmmode_xr_delete_virtual_output command s)"

subsection \<open>An output's property handler\<close>

text \<open>
  \<^verbatim>\<open>strtok_r\<close> with the delimiter \<^verbatim>\<open>|\<close>, all tokens at once, and
  \<^verbatim>\<open>sscanf(token, "%d:%d:%d", &w, &h, &r)\<close> with the count of fields read (lines 935
  to 952). Each mode is linked in front of the list; the \<^verbatim>\<open>calloc\<close> there is taken to
  succeed.
\<close>

function strtok_all :: "string \<Rightarrow> string list" where
  "strtok_all [] = []"
| "strtok_all (c # cs) =
     (if c = CHR ''|'' then strtok_all cs
      else takeWhile (\<lambda>x. x \<noteq> CHR ''|'') (c # cs) # strtok_all (dropWhile (\<lambda>x. x \<noteq> CHR ''|'') cs))"
  by pat_completeness auto
termination
  by (relation "measure length") (auto simp: length_dropWhile_le le_imp_less_Suc)

definition sscanf_mode :: "string \<Rightarrow> nat \<times> int \<times> int \<times> int" where
  "sscanf_mode token =
     (case strtol_digits token of
        None \<Rightarrow> (0, 0, 0, 60)
      | Some (wl, e1) \<Rightarrow>
          let w = int_of_long wl
          in (case e1 of
                [] \<Rightarrow> (1, w, 0, 60)
              | c # e1' \<Rightarrow>
                  if c \<noteq> CHR '':'' then (1, w, 0, 60)
                  else
                    (case strtol_digits e1' of
                       None \<Rightarrow> (1, w, 0, 60)
                     | Some (hl, e2) \<Rightarrow>
                         let h = int_of_long hl
                         in (case e2 of
                               [] \<Rightarrow> (2, w, h, 60)
                             | d # e2' \<Rightarrow>
                                 if d \<noteq> CHR '':'' then (2, w, h, 60)
                                 else
                                   (case strtol_digits e2' of
                                      None \<Rightarrow> (2, w, h, 60)
                                    | Some (rl, _) \<Rightarrow> (3, w, h, int_of_long rl))))))"

definition xr_modes_of_string :: "string \<Rightarrow> xr_mode_rec list" where
  "xr_modes_of_string str =
     foldl (\<lambda>acc token.
              let (k, w, h, r) = sscanf_mode token
              in if 2 \<le> k \<and> 64 \<le> w \<and> w \<le> 16384 \<and> 64 \<le> h \<and> h \<le> 16384 \<and> 1 \<le> r \<and> r \<le> 1000
                 then \<lparr>mode_width = w, mode_height = h, mode_refresh = r\<rparr> # acc
                 else acc)
       [] (strtok_all str)"

definition pint32 :: "rr_property_value \<Rightarrow> int" where
  "pint32 v = (case pdata v of Data32 (x # _) \<Rightarrow> sint x | _ \<Rightarrow> 0)"

text \<open>
  \<^verbatim>\<open>drmmode_xr_virtual_set_property\<close> (lines 884 to 980), for the output \<open>out\<close>. The
  test at line 910 comes before the \<^verbatim>\<open>XR_MODES\<close> branch, as in the C code.
\<close>

definition drmmode_xr_virtual_set_property ::
  "resize_env \<Rightarrow> ptr \<Rightarrow> string option \<Rightarrow> rr_property_value \<Rightarrow> modesetting \<Rightarrow> bool \<times> modesetting" where
  "drmmode_xr_virtual_set_property env out prop_name v s =
     (case prop_name of
        None \<Rightarrow> (False, s)
      | Some pn \<Rightarrow>
          (case first_index (\<lambda>vout. output_ptr vout = Some out) (xr_virtual_outputs s) of
             None \<Rightarrow> (False, s)
           | Some i \<Rightarrow>
               if ptype v \<noteq> XA_INTEGER \<or> pformat v \<noteq> 32 \<or> psize v \<noteq> 1 then (False, s)
               else
                 let vout = xr_virtual_outputs s ! i
                 in if pn = ''XR_MODES''
                    then
                      (if ptype v \<noteq> XA_STRING \<or> pformat v \<noteq> 8 then (False, s)
                       else
                         let s1 = s\<lparr>xr_virtual_outputs := (xr_virtual_outputs s)
                                      [i := vout\<lparr>modes := xr_modes_of_string (c_string (pbytes v))\<rparr>]\<rparr>
                         in (True,
                             drmmode_xr_virtual_set_modes (resize_mode_get env) out
                               (width vout) (height vout) (refresh vout) s1))
                    else if pn \<noteq> ''XR_WIDTH'' \<and> pn \<noteq> ''XR_HEIGHT'' \<and> pn \<noteq> ''XR_REFRESH''
                    then (False, s)
                    else
                      let new_width = (if pn = ''XR_WIDTH'' then pint32 v else width vout);
                          new_height = (if pn = ''XR_HEIGHT'' then pint32 v else height vout);
                          new_refresh = (if pn = ''XR_REFRESH'' then pint32 v else refresh vout)
                      in if new_width < 64 \<or> new_width > 16384 \<or>
                            new_height < 64 \<or> new_height > 16384 \<or>
                            new_refresh < 1 \<or> new_refresh > 1000
                         then (False, s)
                         else drmmode_xr_resize_virtual_output env (Some i)
                                new_width new_height new_refresh s))"

subsection \<open>Mode-set on a virtual CRTC\<close>

text \<open>
  \<^verbatim>\<open>drmmode_xr_virtual_crtc_set_mode_major\<close> (lines 1524 to 1579). The first block is
  lines 1539 to 1569, the work on the record that owns the CRTC.
\<close>

definition set_mode_resize_framebuffer ::
  "fb_env \<Rightarrow> ptr \<Rightarrow> display_mode \<Rightarrow> modesetting \<Rightarrow> modesetting" where
  "set_mode_resize_framebuffer env c m s =
     (case drmmode_xr_find_virtual_output_by_crtc s c of
        None \<Rightarrow> s
      | Some i \<Rightarrow>
          let vout = xr_virtual_outputs s ! i;
              new_width = HDisplay m;
              new_height = VDisplay m
          in if width vout \<noteq> new_width \<or> height vout \<noteq> new_height
             then
               let (v1, es) = drmmode_xr_destroy_offscreen_framebuffer s vout;
                   (ok, v2, s2) =
                     drmmode_xr_create_offscreen_framebuffer env (emit es s) v1 new_width new_height
               in if \<not> ok
                  then s2\<lparr>xr_virtual_outputs := (xr_virtual_outputs s2)[i := v2]\<rparr>
                  else
                    let s3 = (case randr_output v2 of
                                None \<Rightarrow> s2
                              | Some rr \<Rightarrow>
                                  snd (drmmode_xr_virtual_ensure_fb_id_property (fb_prop_env env) rr
                                         (framebuffer_id v2) s2))
                    in s3\<lparr>xr_virtual_outputs := (xr_virtual_outputs s3)
                            [i := v2\<lparr>width := new_width, height := new_height\<rparr>]\<rparr>
             else s)"

definition drmmode_xr_virtual_crtc_set_mode_major ::
  "fb_env \<Rightarrow> ptr \<Rightarrow> display_mode option \<Rightarrow> 16 word \<Rightarrow> int \<Rightarrow> int \<Rightarrow> modesetting
     \<Rightarrow> bool \<times> modesetting" where
  "drmmode_xr_virtual_crtc_set_mode_major env c mode rotation x y s =
     (case mode of
        None \<Rightarrow> (True, s)
      | Some m \<Rightarrow>
          (True,
           crtc_upd c (\<lambda>cr. cr\<lparr>crtc_mode := Some m, crtc_x := x, crtc_y := y,
                                crtc_rotation := rotation\<rparr>)
             (set_mode_resize_framebuffer env c m s)))"

subsection \<open>The states the driver can be in\<close>

text \<open>
  \<^verbatim>\<open>drmmode_xr_virtual_output_init\<close> (line 1044) starts with an empty list. After
  that the server calls the manager's handler, an output's handler, a mode-set or a
  DPMS change, in any order and with any answers of the host.
\<close>

definition initial_state :: "bool \<Rightarrow> bool \<Rightarrow> modesetting" where
  "initial_state scr root =
     \<lparr>xr_virtual_outputs = [], outputs = (\<lambda>p. None), crtcs = (\<lambda>p. None),
      rr_outputs = (\<lambda>p. None), pScreen = scr, pScreen_root = root, next_ptr = 1, trace = []\<rparr>"

inductive reachable :: "modesetting \<Rightarrow> bool" where
  r_init: "reachable (initial_state scr root)"
| r_manager: "reachable s \<Longrightarrow> reachable (snd (drmmode_xr_manager_set_property env pn v s))"
| r_create: "reachable s \<Longrightarrow> reachable (snd (drmmode_xr_create_virtual_output cenv n w h r s))"
| r_delete: "reachable s \<Longrightarrow> reachable (snd (drmmode_xr_delete_virtual_output n s))"
| r_property: "reachable s \<Longrightarrow> reachable (snd (drmmode_xr_virtual_set_property renv out pn v s))"
| r_mode_set:
    "reachable s \<Longrightarrow> reachable (snd (drmmode_xr_virtual_crtc_set_mode_major fenv c mode rot x y s))"
| r_dpms: "reachable s \<Longrightarrow> reachable (drmmode_xr_virtual_crtc_dpms c m s)"

text \<open>The names in the list, in order; a record whose \<^verbatim>\<open>strdup\<close> failed has none.\<close>

definition registered_names :: "modesetting \<Rightarrow> string list" where
  "registered_names s = List.map_filter name (xr_virtual_outputs s)"

subsection \<open>Notions the properties are stated with\<close>

text \<open>
  Whether the host's answers let \<open>drmmode_xr_create_offscreen_framebuffer\<close> reach its
  \<^verbatim>\<open>return TRUE\<close>: a buffer object of one kind, the import, and a pixmap on the path
  that kind takes.
\<close>

definition dumb_pixmap_can_be_built :: "fb_env \<Rightarrow> bool" where
  "dumb_pixmap_can_be_built env = (CreatePixmap_ok env \<and> ModifyPixmapHeader_ok env)"

definition framebuffer_can_be_built :: "fb_env \<Rightarrow> bool" where
  "framebuffer_can_be_built env =
     (if glamor_gbm env \<and> gbm_bo_create_ok env
      then drmmode_bo_import_id env \<noteq> None \<and>
           (if egl_create_available env
            then CreatePixmap_gbm_ok env \<and>
                 (egl_create_textured_pixmap_ok env \<or> dumb_pixmap_can_be_built env)
            else dumb_pixmap_can_be_built env)
      else dumb_bo_create_ok env \<and> drmmode_bo_import_id env \<noteq> None \<and>
           dumb_bo_map_ok env \<and> dumb_pixmap_can_be_built env)"

text \<open>All three property calls of the host succeed.\<close>

definition props_ok :: "prop_env \<Rightarrow> bool" where
  "props_ok pe = (MakeAtom_ok pe \<and> RRConfigureOutputProperty_ok pe \<and> RRChangeOutputProperty_ok pe)"

text \<open>
  The host builds every object a new output needs before its record: the output, its
  private block, the RandR output, the CRTC and its private block, the record.
\<close>

definition objects_can_be_built :: "create_env \<Rightarrow> bool" where
  "objects_can_be_built env =
     (xf86OutputCreate_ok env \<and> calloc_output_private_ok env \<and> RROutputCreate_ok env \<and>
      xf86CrtcCreate_ok env \<and> calloc_crtc_private_ok env \<and> calloc_vout_ok env)"

text \<open>The calls made since the state \<open>s\<close>, given a later state \<open>s'\<close>.\<close>

definition new_events :: "modesetting \<Rightarrow> modesetting \<Rightarrow> event list" where
  "new_events s s' = drop (length (trace s)) (trace s')"

text \<open>
  The stage of a teardown a call belongs to, in the order \<open>drmmode_xr_delete_virtual_output\<close>
  works: buffer and framebuffer (1), CRTC (2), disconnect and announce (3), the RandR and
  the xf86 output with its private block (4), the record (5).
\<close>

definition teardown_stage :: "event \<Rightarrow> nat" where
  "teardown_stage e =
     (case e of
        E_DestroyPixmap _ \<Rightarrow> 1 | E_drmModeRmFB _ \<Rightarrow> 1 | E_drmmode_bo_destroy \<Rightarrow> 1
      | E_RRCrtcDestroy _ \<Rightarrow> 2 | E_xf86CrtcDestroy _ \<Rightarrow> 2
      | E_RROutputSetConnection _ _ \<Rightarrow> 3 | E_RROutputChanged _ \<Rightarrow> 3 | E_RRTellChanged \<Rightarrow> 3
      | E_RROutputDestroy _ \<Rightarrow> 4 | E_free_output_private _ \<Rightarrow> 4 | E_xf86OutputDestroy _ \<Rightarrow> 4
      | E_free_name \<Rightarrow> 5 | E_free_modes \<Rightarrow> 5 | E_free_vout \<Rightarrow> 5
      | _ \<Rightarrow> 0)"

text \<open>
  The same stages in the order the specification gives: disconnect and announce (1),
  buffer and framebuffer (2), CRTC (3), output object (4), record (5).
\<close>

definition specified_teardown_stage :: "event \<Rightarrow> nat" where
  "specified_teardown_stage e =
     (case e of
        E_RROutputSetConnection _ _ \<Rightarrow> 1 | E_RROutputChanged _ \<Rightarrow> 1 | E_RRTellChanged \<Rightarrow> 1
      | E_DestroyPixmap _ \<Rightarrow> 2 | E_drmModeRmFB _ \<Rightarrow> 2 | E_drmmode_bo_destroy \<Rightarrow> 2
      | E_RRCrtcDestroy _ \<Rightarrow> 3 | E_xf86CrtcDestroy _ \<Rightarrow> 3
      | E_RROutputDestroy _ \<Rightarrow> 4 | E_free_output_private _ \<Rightarrow> 4 | E_xf86OutputDestroy _ \<Rightarrow> 4
      | E_free_name \<Rightarrow> 5 | E_free_modes \<Rightarrow> 5 | E_free_vout \<Rightarrow> 5
      | _ \<Rightarrow> 0)"

text \<open>
  What holds of the list in every state the driver reaches: no two records share an
  output, and each record points to an output that was handed out earlier and still
  has its private block, to a RandR output and to a CRTC.
\<close>

definition registry_ok :: "modesetting \<Rightarrow> bool" where
  "registry_ok s =
     (distinct (map output_ptr (xr_virtual_outputs s)) \<and>
      list_all (\<lambda>vout. (case output_ptr vout of
                           None \<Rightarrow> False
                         | Some p \<Rightarrow> p < next_ptr s \<and>
                             (case outputs s p of None \<Rightarrow> False | Some ob \<Rightarrow> driver_private ob)) \<and>
                         randr_output vout \<noteq> None \<and> crtc vout \<noteq> None)
        (xr_virtual_outputs s))"

text \<open>
  The state of the \<^verbatim>\<open>FRAMEBUFFER_ID\<close> property of a RandR output, if the output
  exists; \<open>published_fb_id\<close> is read off it.
\<close>

definition fb_prop :: "modesetting \<Rightarrow> ptr \<Rightarrow> prop_state option" where
  "fb_prop s rr = map_option (\<lambda>r. props r ''FRAMEBUFFER_ID'') (rr_outputs s rr)"

text \<open>Two records that differ in the buffer fields at most.\<close>

definition same_identity :: "xr_virtual_output_rec \<Rightarrow> xr_virtual_output_rec \<Rightarrow> bool" where
  "same_identity v v' =
     (output_ptr v' = output_ptr v \<and> crtc v' = crtc v \<and> randr_output v' = randr_output v \<and>
      name v' = name v \<and> width v' = width v \<and> height v' = height v \<and>
      refresh v' = refresh v \<and> modes v' = modes v)"

text \<open>
  A later state that differs in the RandR store, the handles handed out and the calls
  made at most.
\<close>

definition host_only :: "modesetting \<Rightarrow> modesetting \<Rightarrow> bool" where
  "host_only s s' =
     (xr_virtual_outputs s' = xr_virtual_outputs s \<and> outputs s' = outputs s \<and>
      crtcs s' = crtcs s \<and> pScreen s' = pScreen s \<and> pScreen_root s' = pScreen_root s \<and>
      next_ptr s \<le> next_ptr s' \<and> prefix (trace s) (trace s'))"

text \<open>
  The calls \<open>drmmode_xr_delete_virtual_output\<close> makes for a record \<open>v\<close> that is linked
  in the state \<open>s\<close>, in the order of its blocks.
\<close>

definition delete_events :: "modesetting \<Rightarrow> xr_virtual_output_rec \<Rightarrow> event list" where
  "delete_events s v =
     snd (drmmode_xr_destroy_offscreen_framebuffer s v)
     @ (case crtc v of
          None \<Rightarrow> []
        | Some c \<Rightarrow>
            (case crtcs s c of
               None \<Rightarrow> []
             | Some cr \<Rightarrow> (case randr_crtc cr of None \<Rightarrow> [] | Some rc \<Rightarrow> [E_RRCrtcDestroy rc]))
            @ [E_xf86CrtcDestroy c])
     @ (case randr_output v of
          None \<Rightarrow> []
        | Some rr \<Rightarrow> [E_RROutputSetConnection rr RR_Disconnected, E_RROutputChanged rr,
                      E_RRTellChanged, E_RROutputDestroy rr])
     @ (case output_ptr v of
          None \<Rightarrow> []
        | Some out \<Rightarrow> [E_free_output_private out, E_xf86OutputDestroy out])
     @ (if name v \<noteq> None then [E_free_name] else []) @ [E_free_modes, E_free_vout]"

text \<open>
  A later state whose records have the same name, output, RandR output and CRTC, position by
  position, and whose output objects are the same.
\<close>

definition same_links :: "modesetting \<Rightarrow> modesetting \<Rightarrow> bool" where
  "same_links s s' =
     (map output_ptr (xr_virtual_outputs s') = map output_ptr (xr_virtual_outputs s) \<and>
      map randr_output (xr_virtual_outputs s') = map randr_output (xr_virtual_outputs s) \<and>
      map crtc (xr_virtual_outputs s') = map crtc (xr_virtual_outputs s) \<and>
      map name (xr_virtual_outputs s') = map name (xr_virtual_outputs s) \<and>
      outputs s' = outputs s \<and> next_ptr s \<le> next_ptr s')"

subsection \<open>Example answers of the host and an example state\<close>

definition example_props :: prop_env where
  "example_props =
     \<lparr>MakeAtom_ok = True, RRConfigureOutputProperty_ok = True, RRChangeOutputProperty_ok = True\<rparr>"

text \<open>No GBM: a dumb buffer that the kernel imports as framebuffer 42.\<close>

definition example_fb_env :: fb_env where
  "example_fb_env =
     \<lparr>glamor_gbm = False, gbm_bo_create_ok = False, dumb_bo_create_ok = True,
      drmmode_bo_import_id = Some 42, dumb_bo_map_ok = True, egl_create_available = False,
      CreatePixmap_gbm_ok = False, egl_create_textured_pixmap_ok = False,
      CreatePixmap_ok = True, ModifyPixmapHeader_ok = True, fb_prop_env = example_props\<rparr>"

text \<open>The same host, out of buffer memory: \<^verbatim>\<open>dumb_bo_create\<close> fails.\<close>

definition example_fb_env_no_memory :: fb_env where
  "example_fb_env_no_memory = example_fb_env\<lparr>dumb_bo_create_ok := False\<rparr>"

definition example_mode_get :: "int \<Rightarrow> int \<Rightarrow> int \<Rightarrow> display_mode option" where
  "example_mode_get w h r = Some \<lparr>HDisplay = w, VDisplay = h, VRefresh = r\<rparr>"

definition example_create_env :: create_env where
  "example_create_env =
     \<lparr>xf86OutputCreate_ok = True, calloc_output_private_ok = True, RROutputCreate_ok = True,
      mode_get = example_mode_get, create_prop_env = example_props,
      xf86CrtcCreate_ok = True, calloc_crtc_private_ok = True, RRCrtcCreate_ok = True,
      RROutputSetCrtcs_ok = True, RRCrtcNotify_ok = True, calloc_vout_ok = True,
      strdup_ok = True, create_fb_env = example_fb_env\<rparr>"

definition example_manager_env :: manager_env where
  "example_manager_env = \<lparr>strndup_ok = True, manager_create_env = example_create_env\<rparr>"

definition example_resize_env :: resize_env where
  "example_resize_env = \<lparr>resize_mode_get = example_mode_get, resize_prop_env = example_props\<rparr>"

text \<open>
  The state after \<^verbatim>\<open>XR-0:1920:1080:60\<close> was written to \<^verbatim>\<open>CREATE_XR_OUTPUT\<close> in the
  initial state, with the answers above (lemma \<open>example_state_created\<close> below).
\<close>

definition example_vout :: xr_virtual_output_rec where
  "example_vout =
     \<lparr>output_ptr = Some 1, crtc = Some 3, randr_output = Some 2, name = Some ''XR-0'',
      width = 1920, height = 1080, refresh = 60, modes = [],
      framebuffer_bo = \<lparr>dumb = Some 5, gbm = None, bo_width = 1920, bo_height = 1080,
                        used_modifiers = False\<rparr>,
      framebuffer_id = 42, pixmap = Some 6\<rparr>"

definition example_rr_output :: rr_output where
  "example_rr_output =
     \<lparr>connection = RR_Connected,
      rr_modes = map (\<lambda>(w, h, r). \<lparr>HDisplay = w, VDisplay = h, VRefresh = r\<rparr>) (xr_common_modes 60),
      props = (\<lambda>a. Prop_absent)
        (''XR_WIDTH'' := Prop_value (PV_int 1920), ''XR_HEIGHT'' := Prop_value (PV_int 1080),
         ''XR_REFRESH'' := Prop_value (PV_int 60), ''XR_MODES'' := Prop_value (PV_str []),
         ''VIRTUAL_OUTPUT'' := Prop_value (PV_int 1),
         ''FRAMEBUFFER_ID'' := Prop_value (PV_card 42))\<rparr>"

definition example_state :: modesetting where
  "example_state =
     \<lparr>xr_virtual_outputs = [example_vout],
      outputs = (\<lambda>p. None)(1 \<mapsto> \<lparr>driver_private = True, out_randr_output = Some 2, out_crtc = Some 3\<rparr>),
      crtcs = (\<lambda>p. None)(3 \<mapsto> \<lparr>randr_crtc = Some 4, crtc_private = True, dpms_mode = 0,
                                 crtc_mode = None, crtc_x = 0, crtc_y = 0, crtc_rotation = 1\<rparr>),
      rr_outputs = (\<lambda>p. None)(2 \<mapsto> example_rr_output),
      pScreen = True, pScreen_root = True, next_ptr = 7,
      trace = [E_xf86OutputCreate 1, E_calloc_output_private 1, E_RROutputCreate 2,
               E_RROutputSetConnection 2 RR_Connected, E_RROutputSetModes 2,
               E_RRPostPendingProperties 2, E_RROutputChanged 2, E_RRTellChanged,
               E_xf86CrtcCreate 3, E_calloc_crtc_private 3, E_RRCrtcCreate 4,
               E_RROutputSetCrtcs 2 4, E_RRPostPendingProperties 2, E_RRCrtcNotify 4,
               E_calloc_vout, E_strdup_name, E_dumb_bo_create 5, E_drmModeAddFB 42,
               E_dumb_bo_map 5, E_CreatePixmap 6, E_RRPostPendingProperties 2]\<rparr>"

subsection \<open>The activity controller\<close>

text \<open>
  Modelled from the spec: the activity and power controller of section 4.4. The
  repository's notes name its two hooks in \<^verbatim>\<open>drmmode_xr_virtual.c\<close>, a
  \<^verbatim>\<open>get_property\<close> handler that takes a read of \<^verbatim>\<open>FRAMEBUFFER_ID\<close> as a keep-alive and
  \<^verbatim>\<open>drmmode_xr_inactivity_timer_callback\<close>, with the fields \<^verbatim>\<open>last_access_time\<close> and
  \<^verbatim>\<open>inactivity_timer\<close> of the record; the source at hand has neither the hooks nor the
  fields (lines 77 to 90 and 231 to 240). The definitions follow the specification's
  words: two states, Active after creation; a read sets the time stamp and makes a
  Standby output Active; the timer makes an output Standby when its time stamp is at
  least the threshold of 5 time units old.
\<close>

datatype power_state = Active | Standby

record power_rec =
  power :: power_state
  last_access_time :: nat

definition INACTIVITY_THRESHOLD :: nat where
  "INACTIVITY_THRESHOLD = 5"

definition power_after_create :: "nat \<Rightarrow> power_rec" where
  "power_after_create now = \<lparr>power = Active, last_access_time = now\<rparr>"

definition framebuffer_id_read :: "nat \<Rightarrow> power_rec \<Rightarrow> power_rec" where
  "framebuffer_id_read now p =
     \<lparr>power = (if power p = Standby then Active else power p), last_access_time = now\<rparr>"

definition inactivity_timer_callback :: "nat \<Rightarrow> power_rec \<Rightarrow> power_rec" where
  "inactivity_timer_callback now p =
     (if last_access_time p + INACTIVITY_THRESHOLD \<le> now then p\<lparr>power := Standby\<rparr> else p)"

text \<open>What happens to one output, with the time of each event.\<close>

datatype power_event = Read_fb_id nat | Timer nat

fun power_step :: "power_rec \<Rightarrow> power_event \<Rightarrow> power_rec" where
  "power_step p (Read_fb_id now) = framebuffer_id_read now p"
| "power_step p (Timer now) = inactivity_timer_callback now p"

definition power_run :: "power_rec \<Rightarrow> power_event list \<Rightarrow> power_rec" where
  "power_run p es = foldl power_step p es"

fun is_timer :: "power_event \<Rightarrow> bool" where
  "is_timer (Timer _) = True"
| "is_timer (Read_fb_id _) = False"

section \<open>Properties\<close>

subsection \<open>Searching the list\<close>

lemma first_index_None_iff: "first_index P xs = None \<longleftrightarrow> (\<forall>x \<in> set xs. \<not> P x)"
  by (induction xs) auto

lemma first_index_Some_D:
  "first_index P xs = Some i \<Longrightarrow> i < length xs \<and> P (xs ! i) \<and> (\<forall>j < i. \<not> P (xs ! j))"
proof (induction xs arbitrary: i)
  case Nil
  then show ?case by simp
next
  case (Cons x xs)
  show ?case
  proof (cases "P x")
    case True
    with Cons.prems show ?thesis by simp
  next
    case False
    with Cons.prems obtain k where k: "first_index P xs = Some k" "i = Suc k"
      by auto
    from Cons.IH [OF k(1)] False k(2) show ?thesis
      by (auto simp: less_Suc_eq_0_disj)
  qed
qed

subsection \<open>Selectors of the small helpers\<close>

lemma emit_sel [simp]:
  "xr_virtual_outputs (emit es s) = xr_virtual_outputs s"
  "outputs (emit es s) = outputs s"
  "crtcs (emit es s) = crtcs s"
  "rr_outputs (emit es s) = rr_outputs s"
  "pScreen (emit es s) = pScreen s"
  "pScreen_root (emit es s) = pScreen_root s"
  "next_ptr (emit es s) = next_ptr s"
  "trace (emit es s) = trace s @ es"
  by (simp_all add: emit_def)

lemma output_upd_sel [simp]:
  "xr_virtual_outputs (output_upd p f s) = xr_virtual_outputs s"
  "outputs (output_upd p f s) = (outputs s)(p := map_option f (outputs s p))"
  "crtcs (output_upd p f s) = crtcs s"
  "rr_outputs (output_upd p f s) = rr_outputs s"
  "pScreen (output_upd p f s) = pScreen s"
  "pScreen_root (output_upd p f s) = pScreen_root s"
  "next_ptr (output_upd p f s) = next_ptr s"
  "trace (output_upd p f s) = trace s"
  by (simp_all add: output_upd_def)

lemma crtc_upd_sel [simp]:
  "xr_virtual_outputs (crtc_upd p f s) = xr_virtual_outputs s"
  "outputs (crtc_upd p f s) = outputs s"
  "crtcs (crtc_upd p f s) = (crtcs s)(p := map_option f (crtcs s p))"
  "rr_outputs (crtc_upd p f s) = rr_outputs s"
  "pScreen (crtc_upd p f s) = pScreen s"
  "pScreen_root (crtc_upd p f s) = pScreen_root s"
  "next_ptr (crtc_upd p f s) = next_ptr s"
  "trace (crtc_upd p f s) = trace s"
  by (simp_all add: crtc_upd_def)

lemma rr_upd_sel [simp]:
  "xr_virtual_outputs (rr_upd p f s) = xr_virtual_outputs s"
  "outputs (rr_upd p f s) = outputs s"
  "crtcs (rr_upd p f s) = crtcs s"
  "rr_outputs (rr_upd p f s) = (rr_outputs s)(p := map_option f (rr_outputs s p))"
  "pScreen (rr_upd p f s) = pScreen s"
  "pScreen_root (rr_upd p f s) = pScreen_root s"
  "next_ptr (rr_upd p f s) = next_ptr s"
  "trace (rr_upd p f s) = trace s"
  by (simp_all add: rr_upd_def)

text \<open>The host's property calls touch the RandR store only.\<close>

lemma RRConfigureOutputProperty_sel [simp]:
  "xr_virtual_outputs (snd (RRConfigureOutputProperty pe rr a s)) = xr_virtual_outputs s"
  "outputs (snd (RRConfigureOutputProperty pe rr a s)) = outputs s"
  "crtcs (snd (RRConfigureOutputProperty pe rr a s)) = crtcs s"
  "pScreen (snd (RRConfigureOutputProperty pe rr a s)) = pScreen s"
  "pScreen_root (snd (RRConfigureOutputProperty pe rr a s)) = pScreen_root s"
  "next_ptr (snd (RRConfigureOutputProperty pe rr a s)) = next_ptr s"
  "trace (snd (RRConfigureOutputProperty pe rr a s)) = trace s"
  by (simp_all add: RRConfigureOutputProperty_def)

lemma RRChangeOutputProperty_sel [simp]:
  "xr_virtual_outputs (snd (RRChangeOutputProperty pe rr a v s)) = xr_virtual_outputs s"
  "outputs (snd (RRChangeOutputProperty pe rr a v s)) = outputs s"
  "crtcs (snd (RRChangeOutputProperty pe rr a v s)) = crtcs s"
  "pScreen (snd (RRChangeOutputProperty pe rr a v s)) = pScreen s"
  "pScreen_root (snd (RRChangeOutputProperty pe rr a v s)) = pScreen_root s"
  "next_ptr (snd (RRChangeOutputProperty pe rr a v s)) = next_ptr s"
  "trace (snd (RRChangeOutputProperty pe rr a v s)) = trace s"
  by (simp_all add: RRChangeOutputProperty_def)

lemma published_fb_id_fb_prop:
  "published_fb_id s rr =
     (case fb_prop s rr of Some (Prop_value (PV_card w)) \<Rightarrow> Some w | _ \<Rightarrow> None)"
  by (simp add: published_fb_id_def fb_prop_def split: option.splits)

lemma fb_prop_emit [simp]: "fb_prop (emit es s) = fb_prop s"
  by (simp add: fb_prop_def fun_eq_iff)

lemma fb_prop_output_upd [simp]: "fb_prop (output_upd p f s) = fb_prop s"
  by (simp add: fb_prop_def fun_eq_iff)

lemma fb_prop_crtc_upd [simp]: "fb_prop (crtc_upd p f s) = fb_prop s"
  by (simp add: fb_prop_def fun_eq_iff)

lemma fb_prop_rr_upd:
  "(\<And>r. props (f r) ''FRAMEBUFFER_ID'' = props r ''FRAMEBUFFER_ID'') \<Longrightarrow>
   fb_prop (rr_upd p f s) = fb_prop s"
  by (cases "rr_outputs s p") (auto simp: fb_prop_def fun_eq_iff)

lemma fb_prop_RRConfigure_other [simp]:
  "a \<noteq> ''FRAMEBUFFER_ID'' \<Longrightarrow> fb_prop (snd (RRConfigureOutputProperty pe rr a s)) = fb_prop s"
  by (simp add: RRConfigureOutputProperty_def fb_prop_rr_upd)

lemma fb_prop_RRChange_other [simp]:
  "a \<noteq> ''FRAMEBUFFER_ID'' \<Longrightarrow> fb_prop (snd (RRChangeOutputProperty pe rr a v s)) = fb_prop s"
  by (simp add: RRChangeOutputProperty_def fb_prop_rr_upd)

subsection \<open>Steps that touch the host only\<close>

lemma same_identity_refl [simp]: "same_identity v v"
  by (simp add: same_identity_def)

lemma same_identity_trans: "same_identity a b \<Longrightarrow> same_identity b c \<Longrightarrow> same_identity a c"
  by (simp add: same_identity_def)

lemma host_only_refl [simp]: "host_only s s"
  by (simp add: host_only_def)

lemma host_only_trans: "host_only a b \<Longrightarrow> host_only b c \<Longrightarrow> host_only a c"
  by (auto simp: host_only_def)

lemma host_only_emit: "host_only s (emit es s)"
  by (simp add: host_only_def)

lemma host_only_rr_upd: "host_only s (rr_upd p f s)"
  by (simp add: host_only_def)

lemma host_only_RRConfigure: "host_only s (snd (RRConfigureOutputProperty pe rr a s))"
  by (simp add: host_only_def)

lemma host_only_RRChange: "host_only s (snd (RRChangeOutputProperty pe rr a v s))"
  by (simp add: host_only_def)

lemmas host_only_steps =
  host_only_trans [OF _ host_only_emit] host_only_trans [OF _ host_only_rr_upd]
  host_only_trans [OF _ host_only_RRConfigure] host_only_trans [OF _ host_only_RRChange]

subsection \<open>The framebuffer identifier property\<close>

lemma ensure_fb_id_host_only:
  "host_only s (snd (drmmode_xr_virtual_ensure_fb_id_property pe rr fb s))"
  by (simp add: drmmode_xr_virtual_ensure_fb_id_property_def Let_def host_only_def
      RRConfigureOutputProperty_def RRChangeOutputProperty_def split: prod.splits)

lemma ensure_fb_id_prop_other:
  "p \<noteq> rr \<Longrightarrow> fb_prop (snd (drmmode_xr_virtual_ensure_fb_id_property pe rr fb s)) p = fb_prop s p"
  by (simp add: drmmode_xr_virtual_ensure_fb_id_property_def Let_def fb_prop_def
      RRConfigureOutputProperty_def RRChangeOutputProperty_def split: prod.splits)

lemma ensure_fb_id_prop_set:
  assumes "props_ok pe" and "rr_outputs s rr \<noteq> None"
  shows "fb_prop (snd (drmmode_xr_virtual_ensure_fb_id_property pe rr fb s)) rr
           = Some (Prop_value (PV_card fb))"
  using assms
  by (auto simp: drmmode_xr_virtual_ensure_fb_id_property_def Let_def fb_prop_def props_ok_def
      RRConfigureOutputProperty_def RRChangeOutputProperty_def split: prod.splits)

lemma ensure_fb_id_rr_present [simp]:
  "(rr_outputs (snd (drmmode_xr_virtual_ensure_fb_id_property pe rr fb s)) p = None)
     = (rr_outputs s p = None)"
  by (simp add: drmmode_xr_virtual_ensure_fb_id_property_def Let_def
      RRConfigureOutputProperty_def RRChangeOutputProperty_def split: prod.splits)

subsection \<open>Destroying the framebuffer\<close>

lemma destroy_fb_record:
  "drmmode_xr_destroy_offscreen_framebuffer s v = (v', es) \<Longrightarrow>
     same_identity v v' \<and> framebuffer_id v' = 0 \<and> framebuffer_bo v' = zero_bo \<and>
     (pScreen s \<longrightarrow> pixmap v' = None) \<and> list_all (\<lambda>e. teardown_stage e = 1) es"
  by (auto simp: drmmode_xr_destroy_offscreen_framebuffer_def Let_def same_identity_def
      teardown_stage_def split: option.splits if_splits)

lemma destroy_fb_events:
  "drmmode_xr_destroy_offscreen_framebuffer s v = (v', es) \<Longrightarrow>
     (\<forall>p. pixmap v = Some p \<and> pScreen s \<longrightarrow> E_DestroyPixmap p \<in> set es) \<and>
     (framebuffer_id v \<noteq> 0 \<longrightarrow> E_drmModeRmFB (framebuffer_id v) \<in> set es) \<and>
     (dumb (framebuffer_bo v) \<noteq> None \<or> gbm (framebuffer_bo v) \<noteq> None
        \<longrightarrow> E_drmmode_bo_destroy \<in> set es)"
  by (auto simp: drmmode_xr_destroy_offscreen_framebuffer_def Let_def split: option.splits if_splits)

subsection \<open>Creating the framebuffer\<close>

lemma fb_create_bo_spec:
  "fb_create_bo env s v w h = (ok, v', s') \<Longrightarrow>
     ok = ((glamor_gbm env \<and> gbm_bo_create_ok env) \<or> dumb_bo_create_ok env) \<and>
     same_identity v v' \<and> host_only s s' \<and> rr_outputs s' = rr_outputs s \<and>
     framebuffer_id v' = 0 \<and> pixmap v' = None \<and>
     bo_width (framebuffer_bo v') = word_of_int w \<and> bo_height (framebuffer_bo v') = word_of_int h \<and>
     (ok \<longrightarrow> (gbm (framebuffer_bo v') \<noteq> None) = (glamor_gbm env \<and> gbm_bo_create_ok env) \<and>
             (gbm (framebuffer_bo v') = None \<longrightarrow> dumb (framebuffer_bo v') \<noteq> None)) \<and>
     (\<not> ok \<longrightarrow> dumb (framebuffer_bo v') = None \<and> gbm (framebuffer_bo v') = None)"
  by (auto simp: fb_create_bo_def Let_def same_identity_def host_only_def zero_bo_def
      split: if_splits)

lemma fb_fail_spec:
  "fb_fail pre s v = (ok, v', s') \<Longrightarrow>
     \<not> ok \<and> same_identity v v' \<and> host_only s s' \<and> rr_outputs s' = rr_outputs s \<and>
     pixmap v' = pixmap v \<and> framebuffer_id v' = framebuffer_id v \<and>
     dumb (framebuffer_bo v') = None \<and> gbm (framebuffer_bo v') = None"
  by (auto simp: fb_fail_def drmmode_bo_destroy_def same_identity_def host_only_def)

lemma fb_dumb_pixmap_spec:
  assumes "fb_dumb_pixmap env pp s v = (ok, v', s')"
  shows "ok = dumb_pixmap_can_be_built env \<and>
     same_identity v v' \<and> host_only s s' \<and> rr_outputs s' = rr_outputs s \<and>
     framebuffer_id v' = framebuffer_id v \<and>
     (ok \<longrightarrow> pixmap v' \<noteq> None \<and> framebuffer_bo v' = framebuffer_bo v) \<and>
     (\<not> ok \<longrightarrow> pixmap v' = pixmap v \<and> dumb (framebuffer_bo v') = None \<and> gbm (framebuffer_bo v') = None)"
proof (cases "CreatePixmap_ok env")
  case False
  with assms have "fb_fail (case (pp, dumb (framebuffer_bo v)) of (Some _, Some d) \<Rightarrow> [E_munmap d] | _ \<Rightarrow> []) s v = (ok, v', s')"
    by (simp add: fb_dumb_pixmap_def Let_def)
  from fb_fail_spec [OF this] False show ?thesis
    by (simp add: dumb_pixmap_can_be_built_def)
next
  case True
  note cp = this
  show ?thesis
  proof (cases "ModifyPixmapHeader_ok env")
    case True
    with cp assms show ?thesis
      by (auto simp: fb_dumb_pixmap_def Let_def dumb_pixmap_can_be_built_def same_identity_def
          host_only_def)
  next
    case False
    with cp assms obtain pre s1 where s1: "fb_fail pre s1 v = (ok, v', s')"
      and h: "host_only s s1" "rr_outputs s1 = rr_outputs s"
      by (auto simp: fb_dumb_pixmap_def Let_def host_only_def)
    from fb_fail_spec [OF s1] h False cp show ?thesis
      by (auto simp: dumb_pixmap_can_be_built_def intro: host_only_trans)
  qed
qed

subsection \<open>The off-screen framebuffer\<close>

lemma fb_fail_later:
  assumes "fb_fail pre s1 v = (ok, v', s')" and "host_only s s1" and "rr_outputs s1 = rr_outputs s"
  shows "\<not> ok \<and> same_identity v v' \<and> host_only s s' \<and> rr_outputs s' = rr_outputs s \<and>
     pixmap v' = pixmap v \<and> framebuffer_id v' = framebuffer_id v \<and>
     dumb (framebuffer_bo v') = None \<and> gbm (framebuffer_bo v') = None"
  using fb_fail_spec [OF assms(1)] assms(2,3) by (auto intro: host_only_trans)

lemma fb_dumb_pixmap_later:
  assumes "fb_dumb_pixmap env pp s1 v = (ok, v', s')" and "host_only s s1"
    and "rr_outputs s1 = rr_outputs s"
  shows "ok = dumb_pixmap_can_be_built env \<and>
     same_identity v v' \<and> host_only s s' \<and> rr_outputs s' = rr_outputs s \<and>
     framebuffer_id v' = framebuffer_id v \<and>
     (ok \<longrightarrow> pixmap v' \<noteq> None \<and> framebuffer_bo v' = framebuffer_bo v) \<and>
     (\<not> ok \<longrightarrow> pixmap v' = pixmap v \<and> dumb (framebuffer_bo v') = None \<and> gbm (framebuffer_bo v') = None)"
  using fb_dumb_pixmap_spec [OF assms(1)] assms(2,3) by (auto intro: host_only_trans)

lemma host_only_alloc: "host_only s (emit es (s\<lparr>next_ptr := Suc (next_ptr s)\<rparr>))"
  by (simp add: host_only_def)

lemma fb_create_pixmap_spec:
  assumes run: "fb_create_pixmap env s v = (ok, v', s')"
  shows "ok = (if gbm (framebuffer_bo v) \<noteq> None
               then (if egl_create_available env
                     then CreatePixmap_gbm_ok env \<and>
                          (egl_create_textured_pixmap_ok env \<or> dumb_pixmap_can_be_built env)
                     else dumb_pixmap_can_be_built env)
               else dumb (framebuffer_bo v) \<noteq> None \<and> dumb_bo_map_ok env \<and>
                    dumb_pixmap_can_be_built env) \<and>
     same_identity v v' \<and> host_only s s' \<and> rr_outputs s' = rr_outputs s \<and>
     framebuffer_id v' = framebuffer_id v \<and>
     (ok \<longrightarrow> pixmap v' \<noteq> None \<and> framebuffer_bo v' = framebuffer_bo v) \<and>
     (\<not> ok \<longrightarrow> pixmap v' = pixmap v \<and> dumb (framebuffer_bo v') = None \<and> gbm (framebuffer_bo v') = None)"
proof (cases "gbm (framebuffer_bo v)")
  case (Some g)
  note g = this
  show ?thesis
  proof (cases "egl_create_available env")
    case False
    with run g have "fb_dumb_pixmap env None s v = (ok, v', s')"
      by (simp add: fb_create_pixmap_def)
    from fb_dumb_pixmap_spec [OF this] g False show ?thesis by simp
  next
    case True
    note egl = this
    show ?thesis
    proof (cases "CreatePixmap_gbm_ok env")
      case False
      with run g egl have "fb_fail [] s v = (ok, v', s')"
        by (simp add: fb_create_pixmap_def)
      from fb_fail_spec [OF this] g egl False show ?thesis by simp
    next
      case True
      note cp = this
      show ?thesis
      proof (cases "egl_create_textured_pixmap_ok env")
        case True
        with run g egl cp have "ok" "v' = v\<lparr>pixmap := Some (next_ptr s)\<rparr>"
          "s' = emit [E_CreatePixmap (next_ptr s)] (s\<lparr>next_ptr := Suc (next_ptr s)\<rparr>)"
          by (simp_all add: fb_create_pixmap_def Let_def)
        with g egl cp True show ?thesis
          by (simp add: same_identity_def host_only_def)
      next
        case False
        with run g egl cp have
          "fb_dumb_pixmap env None
             (emit [E_DestroyPixmap (next_ptr s)]
                (emit [E_CreatePixmap (next_ptr s)] (s\<lparr>next_ptr := Suc (next_ptr s)\<rparr>))) v
           = (ok, v', s')"
          by (simp add: fb_create_pixmap_def Let_def)
        from fb_dumb_pixmap_later [OF this, of s] g egl cp False show ?thesis
          by (simp add: host_only_def)
      qed
    qed
  qed
next
  case None
  note g = this
  show ?thesis
  proof (cases "dumb (framebuffer_bo v)")
    case None
    with run g have "fb_fail [] s v = (ok, v', s')"
      by (simp add: fb_create_pixmap_def)
    from fb_fail_spec [OF this] g None show ?thesis by simp
  next
    case (Some d)
    show ?thesis
    proof (cases "dumb_bo_map_ok env")
      case False
      with run g Some have "fb_fail [] s v = (ok, v', s')"
        by (simp add: fb_create_pixmap_def)
      from fb_fail_spec [OF this] g Some False show ?thesis by simp
    next
      case True
      with run g Some have "fb_dumb_pixmap env (Some d) (emit [E_dumb_bo_map d] s) v = (ok, v', s')"
        by (simp add: fb_create_pixmap_def)
      from fb_dumb_pixmap_later [OF this, of s] g Some True show ?thesis
        by (simp add: host_only_def)
    qed
  qed
qed

lemma create_fb_spec:
  assumes run: "drmmode_xr_create_offscreen_framebuffer env s v w h = (ok, v', s')"
  shows "ok = framebuffer_can_be_built env \<and> same_identity v v' \<and> host_only s s' \<and>
     (\<forall>p. (rr_outputs s' p = None) = (rr_outputs s p = None)) \<and>
     (\<forall>p. Some p \<noteq> randr_output v \<longrightarrow> fb_prop s' p = fb_prop s p) \<and>
     (ok \<longrightarrow> pixmap v' \<noteq> None \<and> drmmode_bo_import_id env = Some (framebuffer_id v') \<and>
             bo_width (framebuffer_bo v') = word_of_int w \<and>
             bo_height (framebuffer_bo v') = word_of_int h \<and>
             (dumb (framebuffer_bo v') \<noteq> None \<or> gbm (framebuffer_bo v') \<noteq> None) \<and>
             (\<forall>rr. randr_output v = Some rr \<and> props_ok (fb_prop_env env) \<and> rr_outputs s rr \<noteq> None
                \<longrightarrow> fb_prop s' rr = Some (Prop_value (PV_card (framebuffer_id v'))))) \<and>
     (\<not> ok \<longrightarrow> pixmap v' = None \<and> dumb (framebuffer_bo v') = None \<and>
               gbm (framebuffer_bo v') = None \<and> fb_prop s' = fb_prop s)"
proof -
  obtain ok1 v1 s1 where bo: "fb_create_bo env s v w h = (ok1, v1, s1)"
    by (cases "fb_create_bo env s v w h") auto
  note b = fb_create_bo_spec [OF bo]
  from b have b_ok: "ok1 = ((glamor_gbm env \<and> gbm_bo_create_ok env) \<or> dumb_bo_create_ok env)"
    and b_id: "same_identity v v1" and b_host: "host_only s s1"
    and b_rr: "rr_outputs s1 = rr_outputs s" and b_px: "pixmap v1 = None"
    and b_w: "bo_width (framebuffer_bo v1) = word_of_int w"
    and b_h: "bo_height (framebuffer_bo v1) = word_of_int h"
    by blast+
  from b have b_fail: "\<not> ok1 \<Longrightarrow> dumb (framebuffer_bo v1) = None \<and> gbm (framebuffer_bo v1) = None"
    by blast
  from b have b_kind: "ok1 \<Longrightarrow> (gbm (framebuffer_bo v1) \<noteq> None) = (glamor_gbm env \<and> gbm_bo_create_ok env)"
    and b_some: "ok1 \<Longrightarrow> gbm (framebuffer_bo v1) = None \<Longrightarrow> dumb (framebuffer_bo v1) \<noteq> None"
    by blast+
  have fbp1: "fb_prop s1 = fb_prop s"
    by (simp add: fb_prop_def b_rr fun_eq_iff)
  show ?thesis
  proof (cases ok1)
    case False
    with run bo have r: "ok = False" "v' = v1" "s' = s1"
      by (simp_all add: drmmode_xr_create_offscreen_framebuffer_def)
    from False b_ok have "\<not> framebuffer_can_be_built env"
      by (auto simp: framebuffer_can_be_built_def)
    with r b_id b_host b_rr b_px b_fail [OF False] fbp1 show ?thesis
      by simp
  next
    case True
    note ok1 = this
    show ?thesis
    proof (cases "drmmode_bo_import_id env")
      case None
      with run bo ok1 have r: "ok = False" "v' = drmmode_bo_destroy v1"
        "s' = emit [E_drmmode_bo_destroy] s1"
        by (simp_all add: drmmode_xr_create_offscreen_framebuffer_def)
      from None have nb: "\<not> framebuffer_can_be_built env"
        by (simp add: framebuffer_can_be_built_def)
      have h: "host_only s s'"
        unfolding r using b_host host_only_emit by (rule host_only_trans)
      from b_id have i: "same_identity v v'"
        unfolding r by (simp add: same_identity_def drmmode_bo_destroy_def)
      from r nb h i b_rr b_px fbp1 show ?thesis
        by (simp add: drmmode_bo_destroy_def)
    next
      case (Some fb)
      obtain ok2 v2 s2 where px:
        "fb_create_pixmap env (emit [E_drmModeAddFB fb] s1) (v1\<lparr>framebuffer_id := fb\<rparr>) = (ok2, v2, s2)"
        by (cases "fb_create_pixmap env (emit [E_drmModeAddFB fb] s1) (v1\<lparr>framebuffer_id := fb\<rparr>)") auto
      note p = fb_create_pixmap_spec [OF px]
      from p have p_id: "same_identity (v1\<lparr>framebuffer_id := fb\<rparr>) v2"
        and p_host: "host_only (emit [E_drmModeAddFB fb] s1) s2"
        and p_rr: "rr_outputs s2 = rr_outputs (emit [E_drmModeAddFB fb] s1)"
        and p_fb: "framebuffer_id v2 = framebuffer_id (v1\<lparr>framebuffer_id := fb\<rparr>)"
        by blast+
      from p have p_ok: "ok2 \<Longrightarrow> pixmap v2 \<noteq> None \<and> framebuffer_bo v2 = framebuffer_bo (v1\<lparr>framebuffer_id := fb\<rparr>)"
        and p_fail: "\<not> ok2 \<Longrightarrow> pixmap v2 = pixmap (v1\<lparr>framebuffer_id := fb\<rparr>) \<and>
            dumb (framebuffer_bo v2) = None \<and> gbm (framebuffer_bo v2) = None"
        by blast+
      from p have p_iff: "ok2 =
          (if gbm (framebuffer_bo (v1\<lparr>framebuffer_id := fb\<rparr>)) \<noteq> None
               then (if egl_create_available env
                     then CreatePixmap_gbm_ok env \<and>
                          (egl_create_textured_pixmap_ok env \<or> dumb_pixmap_can_be_built env)
                     else dumb_pixmap_can_be_built env)
               else dumb (framebuffer_bo (v1\<lparr>framebuffer_id := fb\<rparr>)) \<noteq> None \<and> dumb_bo_map_ok env \<and>
                    dumb_pixmap_can_be_built env)"
        by blast
      from b_id p_id have id2: "same_identity v v2"
        by (simp add: same_identity_def)
      have h2: "host_only s s2"
        using host_only_trans [OF b_host host_only_emit] p_host by (rule host_only_trans)
      from b_rr p_rr have rr2: "rr_outputs s2 = rr_outputs s"
        by simp
      have fbp2: "fb_prop s2 = fb_prop s"
        by (simp add: fb_prop_def rr2 fun_eq_iff)
      have ok2: "ok2 = framebuffer_can_be_built env"
      proof (cases "glamor_gbm env \<and> gbm_bo_create_ok env")
        case True
        with b_kind [OF ok1] p_iff Some show ?thesis
          by (simp add: framebuffer_can_be_built_def)
      next
        case False
        with b_kind [OF ok1] have g: "gbm (framebuffer_bo v1) = None" by simp
        from False b_ok ok1 have d: "dumb_bo_create_ok env" by auto
        from b_some [OF ok1 g] have "dumb (framebuffer_bo v1) \<noteq> None" .
        with g p_iff have "ok2 = (dumb_bo_map_ok env \<and> dumb_pixmap_can_be_built env)"
          by simp
        with False d Some show ?thesis
          by (auto simp: framebuffer_can_be_built_def)
      qed
      show ?thesis
      proof (cases ok2)
        case False
        with run bo ok1 Some px have r: "ok = False" "v' = v2" "s' = s2"
          by (simp_all add: drmmode_xr_create_offscreen_framebuffer_def)
        from False ok2 have nb: "\<not> framebuffer_can_be_built env" by simp
        from p_fail [OF False] b_px have "pixmap v2 = None" "dumb (framebuffer_bo v2) = None"
          "gbm (framebuffer_bo v2) = None" by simp_all
        with r nb id2 h2 rr2 fbp2 show ?thesis
          by simp
      next
        case True
        note t2 = this
        from t2 ok2 have cb: "framebuffer_can_be_built env" by simp
        from p_ok [OF t2] p_fb b_w b_h have fields: "pixmap v2 \<noteq> None" "framebuffer_id v2 = fb"
          "bo_width (framebuffer_bo v2) = word_of_int w"
          "bo_height (framebuffer_bo v2) = word_of_int h"
          by simp_all
        from p_ok [OF t2] b_kind [OF ok1] b_some [OF ok1]
        have kind: "dumb (framebuffer_bo v2) \<noteq> None \<or> gbm (framebuffer_bo v2) \<noteq> None"
          by auto
        show ?thesis
        proof (cases "randr_output v2")
          case None
          with run bo ok1 Some px t2 have r: "ok = True" "v' = v2" "s' = s2"
            by (simp_all add: drmmode_xr_create_offscreen_framebuffer_def)
          from None id2 have nv: "randr_output v = None"
            by (simp add: same_identity_def)
          from r cb id2 h2 rr2 fbp2 fields kind nv Some show ?thesis
            by simp
        next
          case (Some rr)
          with run bo ok1 \<open>drmmode_bo_import_id env = Some fb\<close> px t2
          have r: "ok = True" "v' = v2"
            "s' = snd (drmmode_xr_virtual_ensure_fb_id_property (fb_prop_env env) rr (framebuffer_id v2) s2)"
            by (auto simp add: drmmode_xr_create_offscreen_framebuffer_def)
          from Some id2 have rv: "randr_output v = Some rr"
            by (simp add: same_identity_def)
          have h: "host_only s s'"
            unfolding r using h2 ensure_fb_id_host_only by (rule host_only_trans)
          have pres: "\<forall>p. (rr_outputs s' p = None) = (rr_outputs s p = None)"
            unfolding r by (simp add: rr2)
          have other: "\<forall>p. Some p \<noteq> randr_output v \<longrightarrow> fb_prop s' p = fb_prop s p"
          proof (intro allI impI)
            fix p assume "Some p \<noteq> randr_output v"
            with rv have "p \<noteq> rr" by auto
            then have "fb_prop s' p = fb_prop s2 p"
              unfolding r by (rule ensure_fb_id_prop_other)
            then show "fb_prop s' p = fb_prop s p"
              by (simp add: fbp2)
          qed
          have publ: "\<forall>q. randr_output v = Some q \<and> props_ok (fb_prop_env env) \<and> rr_outputs s q \<noteq> None
                \<longrightarrow> fb_prop s' q = Some (Prop_value (PV_card (framebuffer_id v')))"
          proof (intro allI impI)
            fix q assume a: "randr_output v = Some q \<and> props_ok (fb_prop_env env) \<and> rr_outputs s q \<noteq> None"
            with rv have "q = rr" by simp
            with a rr2 show "fb_prop s' q = Some (Prop_value (PV_card (framebuffer_id v')))"
              unfolding r by (simp add: ensure_fb_id_prop_set)
          qed
          from r(1,2) cb id2 h pres other publ fields kind \<open>drmmode_bo_import_id env = Some fb\<close>
          show ?thesis by simp
        qed
      qed
    qed
  qed
qed

subsection \<open>The mode list and the integer properties\<close>

lemma set_modes_sel [simp]:
  "xr_virtual_outputs (drmmode_xr_virtual_set_modes g out w h r s) = xr_virtual_outputs s"
  "outputs (drmmode_xr_virtual_set_modes g out w h r s) = outputs s"
  "crtcs (drmmode_xr_virtual_set_modes g out w h r s) = crtcs s"
  "pScreen (drmmode_xr_virtual_set_modes g out w h r s) = pScreen s"
  "pScreen_root (drmmode_xr_virtual_set_modes g out w h r s) = pScreen_root s"
  "next_ptr (drmmode_xr_virtual_set_modes g out w h r s) = next_ptr s"
  by (simp_all add: drmmode_xr_virtual_set_modes_def Let_def split: option.splits)

lemma set_modes_fb_prop [simp]:
  "fb_prop (drmmode_xr_virtual_set_modes g out w h r s) = fb_prop s"
  by (simp add: drmmode_xr_virtual_set_modes_def Let_def fb_prop_rr_upd split: option.splits)

lemma set_modes_present [simp]:
  "(rr_outputs (drmmode_xr_virtual_set_modes g out w h r s) p = None) = (rr_outputs s p = None)"
  by (simp add: drmmode_xr_virtual_set_modes_def Let_def split: option.splits)

lemma set_modes_trace:
  "\<exists>es. trace (drmmode_xr_virtual_set_modes g out w h r s) = trace s @ es \<and>
        set es \<subseteq> range E_RROutputSetModes"
  by (simp add: drmmode_xr_virtual_set_modes_def Let_def split: option.splits)

lemma change_only_sel [simp]:
  "xr_virtual_outputs (change_only pe rr a v s) = xr_virtual_outputs s"
  "outputs (change_only pe rr a v s) = outputs s"
  "crtcs (change_only pe rr a v s) = crtcs s"
  "pScreen (change_only pe rr a v s) = pScreen s"
  "pScreen_root (change_only pe rr a v s) = pScreen_root s"
  "next_ptr (change_only pe rr a v s) = next_ptr s"
  "trace (change_only pe rr a v s) = trace s"
  by (simp_all add: change_only_def)

lemma change_only_fb_prop [simp]:
  "a \<noteq> ''FRAMEBUFFER_ID'' \<Longrightarrow> fb_prop (change_only pe rr a v s) = fb_prop s"
  by (simp add: change_only_def)

lemma change_only_present [simp]:
  "(rr_outputs (change_only pe rr a v s) p = None) = (rr_outputs s p = None)"
  by (simp add: change_only_def RRChangeOutputProperty_def)

lemma configure_and_change_sel [simp]:
  "xr_virtual_outputs (configure_and_change pe rr a v s) = xr_virtual_outputs s"
  "outputs (configure_and_change pe rr a v s) = outputs s"
  "crtcs (configure_and_change pe rr a v s) = crtcs s"
  "pScreen (configure_and_change pe rr a v s) = pScreen s"
  "pScreen_root (configure_and_change pe rr a v s) = pScreen_root s"
  "next_ptr (configure_and_change pe rr a v s) = next_ptr s"
  "trace (configure_and_change pe rr a v s) = trace s"
  by (simp_all add: configure_and_change_def)

lemma configure_and_change_fb_prop [simp]:
  "a \<noteq> ''FRAMEBUFFER_ID'' \<Longrightarrow> fb_prop (configure_and_change pe rr a v s) = fb_prop s"
  by (simp add: configure_and_change_def)

lemma configure_and_change_present [simp]:
  "(rr_outputs (configure_and_change pe rr a v s) p = None) = (rr_outputs s p = None)"
  by (simp add: configure_and_change_def RRChangeOutputProperty_def RRConfigureOutputProperty_def)

lemma fb_prop_registry_update [simp]:
  "fb_prop (s\<lparr>xr_virtual_outputs := R\<rparr>) = fb_prop s"
  by (simp add: fb_prop_def fun_eq_iff)

subsection \<open>Resize\<close>

lemma resize_spec:
  assumes i: "i < length (xr_virtual_outputs s)"
    and out: "output_ptr (xr_virtual_outputs s ! i) = Some out"
    and rr: "randr_output (xr_virtual_outputs s ! i) = Some rr"
  shows "\<exists>s'. drmmode_xr_resize_virtual_output env (Some i) w h r s = (True, s') \<and>
     xr_virtual_outputs s' =
       (xr_virtual_outputs s)[i := (xr_virtual_outputs s ! i)\<lparr>width := w, height := h, refresh := r\<rparr>] \<and>
     outputs s' = outputs s \<and> crtcs s' = crtcs s \<and> next_ptr s' = next_ptr s \<and>
     fb_prop s' = fb_prop s \<and>
     (\<exists>es. trace s' = trace s @ es \<and>
        set es \<subseteq> range E_RROutputSetModes \<union> {E_RROutputChanged rr, E_RRTellChanged})"
proof -
  define s1 where "s1 = s\<lparr>xr_virtual_outputs :=
      (xr_virtual_outputs s)[i := (xr_virtual_outputs s ! i)\<lparr>width := w, height := h, refresh := r\<rparr>]\<rparr>"
  define s2 where "s2 = drmmode_xr_virtual_set_modes (resize_mode_get env) out w h r s1"
  define s5 where "s5 = change_only (resize_prop_env env) rr ''XR_REFRESH'' (PV_int r)
      (change_only (resize_prop_env env) rr ''XR_HEIGHT'' (PV_int h)
        (change_only (resize_prop_env env) rr ''XR_WIDTH'' (PV_int w) s2))"
  have run: "drmmode_xr_resize_virtual_output env (Some i) w h r s
      = (True, emit [E_RROutputChanged rr, E_RRTellChanged] s5)"
    using i out rr
    by (simp add: drmmode_xr_resize_virtual_output_def Let_def s1_def s2_def s5_def)
  obtain es where es: "trace s2 = trace s1 @ es" "set es \<subseteq> range E_RROutputSetModes"
    unfolding s2_def using set_modes_trace by blast
  have t: "trace (emit [E_RROutputChanged rr, E_RRTellChanged] s5)
      = trace s @ (es @ [E_RROutputChanged rr, E_RRTellChanged])"
    by (simp add: s5_def es s1_def)
  have sub: "set (es @ [E_RROutputChanged rr, E_RRTellChanged])
      \<subseteq> range E_RROutputSetModes \<union> {E_RROutputChanged rr, E_RRTellChanged}"
    using es(2) by auto
  show ?thesis
  proof (intro exI conjI)
    show "drmmode_xr_resize_virtual_output env (Some i) w h r s
      = (True, emit [E_RROutputChanged rr, E_RRTellChanged] s5)"
      by (rule run)
    show "xr_virtual_outputs (emit [E_RROutputChanged rr, E_RRTellChanged] s5) =
       (xr_virtual_outputs s)[i := (xr_virtual_outputs s ! i)\<lparr>width := w, height := h, refresh := r\<rparr>]"
      by (simp add: s5_def s2_def s1_def)
    show "outputs (emit [E_RROutputChanged rr, E_RRTellChanged] s5) = outputs s"
      by (simp add: s5_def s2_def s1_def)
    show "crtcs (emit [E_RROutputChanged rr, E_RRTellChanged] s5) = crtcs s"
      by (simp add: s5_def s2_def s1_def)
    show "next_ptr (emit [E_RROutputChanged rr, E_RRTellChanged] s5) = next_ptr s"
      by (simp add: s5_def s2_def s1_def)
    show "fb_prop (emit [E_RROutputChanged rr, E_RRTellChanged] s5) = fb_prop s"
      by (simp add: s5_def s2_def s1_def)
    show "trace (emit [E_RROutputChanged rr, E_RRTellChanged] s5)
      = trace s @ (es @ [E_RROutputChanged rr, E_RRTellChanged])"
      by (rule t)
    show "set (es @ [E_RROutputChanged rr, E_RRTellChanged])
      \<subseteq> range E_RROutputSetModes \<union> {E_RROutputChanged rr, E_RRTellChanged}"
      by (rule sub)
  qed
qed

subsection \<open>Mode-set\<close>

lemma host_only_D:
  assumes "host_only s s'"
  shows "xr_virtual_outputs s' = xr_virtual_outputs s" "outputs s' = outputs s"
    "crtcs s' = crtcs s" "pScreen s' = pScreen s" "pScreen_root s' = pScreen_root s"
    "next_ptr s \<le> next_ptr s'" "prefix (trace s) (trace s')"
  using assms by (simp_all add: host_only_def)

lemma new_events_append: "trace s' = trace s @ es \<Longrightarrow> new_events s s' = es"
  by (simp add: new_events_def)

lemma prefix_new_events:
  "prefix (trace s) (trace s') \<Longrightarrow> trace s' = trace s @ new_events s s'"
  by (auto simp: new_events_def prefix_def)

text \<open>The work of a mode-set on the record that owns the CRTC, when the size differs.\<close>

lemma set_mode_resize_spec:
  assumes own: "drmmode_xr_find_virtual_output_by_crtc s c = Some i"
    and diff: "width (xr_virtual_outputs s ! i) \<noteq> HDisplay m \<or>
               height (xr_virtual_outputs s ! i) \<noteq> VDisplay m"
  shows "\<exists>v' es2.
     xr_virtual_outputs (set_mode_resize_framebuffer env c m s) = (xr_virtual_outputs s)[i := v'] \<and>
     outputs (set_mode_resize_framebuffer env c m s) = outputs s \<and>
     crtcs (set_mode_resize_framebuffer env c m s) = crtcs s \<and>
     next_ptr s \<le> next_ptr (set_mode_resize_framebuffer env c m s) \<and>
     trace (set_mode_resize_framebuffer env c m s)
       = trace s @ snd (drmmode_xr_destroy_offscreen_framebuffer s (xr_virtual_outputs s ! i)) @ es2 \<and>
     output_ptr v' = output_ptr (xr_virtual_outputs s ! i) \<and>
     crtc v' = crtc (xr_virtual_outputs s ! i) \<and>
     randr_output v' = randr_output (xr_virtual_outputs s ! i) \<and>
     name v' = name (xr_virtual_outputs s ! i) \<and>
     refresh v' = refresh (xr_virtual_outputs s ! i) \<and>
     modes v' = modes (xr_virtual_outputs s ! i) \<and>
     (framebuffer_can_be_built env \<longrightarrow>
        width v' = HDisplay m \<and> height v' = VDisplay m \<and> pixmap v' \<noteq> None \<and>
        drmmode_bo_import_id env = Some (framebuffer_id v') \<and>
        bo_width (framebuffer_bo v') = word_of_int (HDisplay m) \<and>
        bo_height (framebuffer_bo v') = word_of_int (VDisplay m)) \<and>
     (\<not> framebuffer_can_be_built env \<longrightarrow>
        width v' = width (xr_virtual_outputs s ! i) \<and>
        height v' = height (xr_virtual_outputs s ! i) \<and> pixmap v' = None \<and>
        dumb (framebuffer_bo v') = None \<and> gbm (framebuffer_bo v') = None)"
proof -
  define v where "v = xr_virtual_outputs s ! i"
  obtain v1 es where d: "drmmode_xr_destroy_offscreen_framebuffer s v = (v1, es)"
    by (cases "drmmode_xr_destroy_offscreen_framebuffer s v") auto
  obtain ok v2 s2 where c:
    "drmmode_xr_create_offscreen_framebuffer env (emit es s) v1 (HDisplay m) (VDisplay m) = (ok, v2, s2)"
    by (cases "drmmode_xr_create_offscreen_framebuffer env (emit es s) v1 (HDisplay m) (VDisplay m)") auto
  from destroy_fb_record [OF d] have id1: "same_identity v v1" by blast
  note cs = create_fb_spec [OF c]
  from cs have ok: "ok = framebuffer_can_be_built env" and id2: "same_identity v1 v2"
    and h2: "host_only (emit es s) s2"
    by blast+
  from cs have good: "ok \<Longrightarrow> pixmap v2 \<noteq> None \<and> drmmode_bo_import_id env = Some (framebuffer_id v2) \<and>
             bo_width (framebuffer_bo v2) = word_of_int (HDisplay m) \<and>
             bo_height (framebuffer_bo v2) = word_of_int (VDisplay m)"
    and bad: "\<not> ok \<Longrightarrow> pixmap v2 = None \<and> dumb (framebuffer_bo v2) = None \<and>
               gbm (framebuffer_bo v2) = None"
    by blast+
  from id1 id2 have id: "same_identity v v2" by (rule same_identity_trans)
  have hs: "host_only s s2"
    using host_only_emit h2 by (rule host_only_trans)
  define s3 where "s3 = (case randr_output v2 of None \<Rightarrow> s2
      | Some rr \<Rightarrow> snd (drmmode_xr_virtual_ensure_fb_id_property (fb_prop_env env) rr
                         (framebuffer_id v2) s2))"
  have h23: "host_only s2 s3"
    by (simp add: s3_def ensure_fb_id_host_only split: option.splits)
  have hs3: "host_only s s3"
    using hs h23 by (rule host_only_trans)
  define sf where "sf = (if ok then s3 else s2)"
  define vf where "vf = (if ok then v2\<lparr>width := HDisplay m, height := VDisplay m\<rparr> else v2)"
  have run: "set_mode_resize_framebuffer env c m s = sf\<lparr>xr_virtual_outputs := (xr_virtual_outputs sf)[i := vf]\<rparr>"
    using own diff d c
    by (simp add: set_mode_resize_framebuffer_def Let_def v_def [symmetric] sf_def vf_def s3_def)
  have hf: "host_only s sf"
    using hs hs3 by (simp add: sf_def)
  have pre: "prefix (trace (emit es s)) (trace sf)"
    using h2 host_only_trans [OF h2 h23] by (simp add: sf_def host_only_def)
  then obtain es2 where es2: "trace sf = trace s @ es @ es2"
    by (auto simp: prefix_def)
  note f = host_only_D [OF hf]
  show ?thesis
  proof (intro exI conjI)
    show "xr_virtual_outputs (set_mode_resize_framebuffer env c m s) = (xr_virtual_outputs s)[i := vf]"
      by (simp add: run f)
    show "trace (set_mode_resize_framebuffer env c m s)
       = trace s @ snd (drmmode_xr_destroy_offscreen_framebuffer s (xr_virtual_outputs s ! i)) @ es2"
      using d by (simp add: run es2 v_def)
  qed (use id ok good bad f in \<open>auto simp: run vf_def same_identity_def v_def\<close>)
qed

lemma set_mode_resize_skip:
  assumes "drmmode_xr_find_virtual_output_by_crtc s c = None \<or>
     (\<exists>i. drmmode_xr_find_virtual_output_by_crtc s c = Some i \<and>
          width (xr_virtual_outputs s ! i) = HDisplay m \<and>
          height (xr_virtual_outputs s ! i) = VDisplay m)"
  shows "set_mode_resize_framebuffer env c m s = s"
  using assms by (auto simp: set_mode_resize_framebuffer_def Let_def)

subsection \<open>Destroying host objects\<close>

lemma output_destroy_sel [simp]:
  "crtcs (drmmode_xr_virtual_output_destroy out s) = crtcs s"
  "rr_outputs (drmmode_xr_virtual_output_destroy out s) = rr_outputs s"
  "pScreen (drmmode_xr_virtual_output_destroy out s) = pScreen s"
  "pScreen_root (drmmode_xr_virtual_output_destroy out s) = pScreen_root s"
  "next_ptr (drmmode_xr_virtual_output_destroy out s) = next_ptr s"
  by (simp_all add: drmmode_xr_virtual_output_destroy_def Let_def split: option.splits)

lemma output_destroy_registry:
  "xr_virtual_outputs (drmmode_xr_virtual_output_destroy out s) =
     (case first_index (\<lambda>vout. output_ptr vout = Some out) (xr_virtual_outputs s) of
        None \<Rightarrow> xr_virtual_outputs s
      | Some i \<Rightarrow> remove_nth i (xr_virtual_outputs s))"
  by (simp add: drmmode_xr_virtual_output_destroy_def Let_def split: option.splits)

lemma output_destroy_trace_unlinked:
  "first_index (\<lambda>vout. output_ptr vout = Some out) (xr_virtual_outputs s) = None \<Longrightarrow>
   trace (drmmode_xr_virtual_output_destroy out s) =
     trace s @ (case outputs s out of
                  None \<Rightarrow> []
                | Some ob \<Rightarrow> if driver_private ob then [E_free_output_private out] else [])"
  by (simp add: drmmode_xr_virtual_output_destroy_def Let_def split: option.splits)

lemma output_destroy_prefix:
  "prefix (trace s) (trace (drmmode_xr_virtual_output_destroy out s))"
  by (simp add: drmmode_xr_virtual_output_destroy_def Let_def split: option.splits)

lemma xf86OutputDestroy_sel [simp]:
  "crtcs (xf86OutputDestroy out s) = crtcs s"
  "rr_outputs (xf86OutputDestroy out s) = rr_outputs s"
  "pScreen (xf86OutputDestroy out s) = pScreen s"
  "pScreen_root (xf86OutputDestroy out s) = pScreen_root s"
  "next_ptr (xf86OutputDestroy out s) = next_ptr s"
  "xr_virtual_outputs (xf86OutputDestroy out s) =
     xr_virtual_outputs (drmmode_xr_virtual_output_destroy out s)"
  "trace (xf86OutputDestroy out s) =
     trace (drmmode_xr_virtual_output_destroy out s) @ [E_xf86OutputDestroy out]"
  by (simp_all add: xf86OutputDestroy_def Let_def)

lemma xf86OutputDestroy_prefix: "prefix (trace s) (trace (xf86OutputDestroy out s))"
  using output_destroy_prefix [of s out] by (auto simp: prefix_def)

lemma xf86CrtcDestroy_sel [simp]:
  "xr_virtual_outputs (xf86CrtcDestroy c s) = xr_virtual_outputs s"
  "outputs (xf86CrtcDestroy c s) = outputs s"
  "crtcs (xf86CrtcDestroy c s) = (crtcs s)(c := None)"
  "rr_outputs (xf86CrtcDestroy c s) = rr_outputs s"
  "pScreen (xf86CrtcDestroy c s) = pScreen s"
  "pScreen_root (xf86CrtcDestroy c s) = pScreen_root s"
  "next_ptr (xf86CrtcDestroy c s) = next_ptr s"
  "trace (xf86CrtcDestroy c s) = trace s @ [E_xf86CrtcDestroy c]"
  by (simp_all add: xf86CrtcDestroy_def)

lemma RROutputDestroy_sel [simp]:
  "xr_virtual_outputs (RROutputDestroy rr s) = xr_virtual_outputs s"
  "outputs (RROutputDestroy rr s) = outputs s"
  "crtcs (RROutputDestroy rr s) = crtcs s"
  "rr_outputs (RROutputDestroy rr s) = (rr_outputs s)(rr := None)"
  "pScreen (RROutputDestroy rr s) = pScreen s"
  "pScreen_root (RROutputDestroy rr s) = pScreen_root s"
  "next_ptr (RROutputDestroy rr s) = next_ptr s"
  "trace (RROutputDestroy rr s) = trace s @ [E_RROutputDestroy rr]"
  by (simp_all add: RROutputDestroy_def)

subsection \<open>The blocks of create\<close>

lemma fb_prop_updates [simp]:
  "fb_prop (s\<lparr>next_ptr := n\<rparr>) = fb_prop s"
  "fb_prop (s\<lparr>outputs := os\<rparr>) = fb_prop s"
  "fb_prop (s\<lparr>crtcs := cs\<rparr>) = fb_prop s"
  "fb_prop (s\<lparr>trace := tr\<rparr>) = fb_prop s"
  by (simp_all add: fb_prop_def fun_eq_iff)

lemma create_publish_sel [simp]:
  "xr_virtual_outputs (create_publish env out rr w h r s) = xr_virtual_outputs s"
  "outputs (create_publish env out rr w h r s) = outputs s"
  "crtcs (create_publish env out rr w h r s) = crtcs s"
  "pScreen (create_publish env out rr w h r s) = pScreen s"
  "pScreen_root (create_publish env out rr w h r s) = pScreen_root s"
  "next_ptr (create_publish env out rr w h r s) = next_ptr s"
  by (simp_all add: create_publish_def Let_def)

lemma create_publish_fb_prop [simp]:
  "fb_prop (create_publish env out rr w h r s) = fb_prop s"
  by (simp add: create_publish_def Let_def fb_prop_rr_upd)

lemma create_publish_present [simp]:
  "(rr_outputs (create_publish env out rr w h r s) p = None) = (rr_outputs s p = None)"
  by (simp add: create_publish_def Let_def)

lemma create_publish_prefix: "prefix (trace s) (trace (create_publish env out rr w h r s))"
proof -
  obtain es where "trace (drmmode_xr_virtual_set_modes (mode_get env) out w h r
      (emit [E_RROutputSetConnection rr RR_Connected]
         (rr_upd rr (\<lambda>x. x\<lparr>connection := RR_Connected\<rparr>) s)))
     = trace (emit [E_RROutputSetConnection rr RR_Connected]
         (rr_upd rr (\<lambda>x. x\<lparr>connection := RR_Connected\<rparr>) s)) @ es"
    using set_modes_trace by blast
  then show ?thesis
    by (simp add: create_publish_def Let_def prefix_def)
qed

lemma create_virtual_crtc_spec:
  "drmmode_xr_create_virtual_crtc a b s = (res, s') \<Longrightarrow>
     res = (if a \<and> b then Some (next_ptr s) else None) \<and>
     xr_virtual_outputs s' = xr_virtual_outputs s \<and> outputs s' = outputs s \<and>
     rr_outputs s' = rr_outputs s \<and> pScreen s' = pScreen s \<and> pScreen_root s' = pScreen_root s \<and>
     next_ptr s \<le> next_ptr s' \<and> (a \<and> b \<longrightarrow> next_ptr s' = Suc (next_ptr s)) \<and>
     prefix (trace s) (trace s')"
  by (auto simp: drmmode_xr_create_virtual_crtc_def Let_def prefix_def split: if_splits)

lemma create_randr_crtc_sel [simp]:
  "xr_virtual_outputs (create_randr_crtc env rr c s) = xr_virtual_outputs s"
  "outputs (create_randr_crtc env rr c s) = outputs s"
  "pScreen (create_randr_crtc env rr c s) = pScreen s"
  "pScreen_root (create_randr_crtc env rr c s) = pScreen_root s"
  by (simp_all add: create_randr_crtc_def Let_def case_prod_beta split: bool.splits)

lemma create_randr_crtc_next_ptr:
  "next_ptr s \<le> next_ptr (create_randr_crtc env rr c s)"
  by (simp add: create_randr_crtc_def Let_def case_prod_beta split: bool.splits)

lemma create_randr_crtc_fb_prop [simp]:
  "fb_prop (create_randr_crtc env rr c s) = fb_prop s"
  by (simp add: create_randr_crtc_def Let_def case_prod_beta split: bool.splits)

lemma RRConfigure_present [simp]:
  "(rr_outputs (snd (RRConfigureOutputProperty pe rr a s)) p = None) = (rr_outputs s p = None)"
  by (simp add: RRConfigureOutputProperty_def)

lemma RRChange_present [simp]:
  "(rr_outputs (snd (RRChangeOutputProperty pe rr a v s)) p = None) = (rr_outputs s p = None)"
  by (simp add: RRChangeOutputProperty_def)

lemma create_randr_crtc_present [simp]:
  "(rr_outputs (create_randr_crtc env rr c s) p = None) = (rr_outputs s p = None)"
  by (simp add: create_randr_crtc_def Let_def case_prod_beta split: bool.splits)

lemma create_randr_crtc_prefix: "prefix (trace s) (trace (create_randr_crtc env rr c s))"
  by (simp add: create_randr_crtc_def Let_def prefix_def case_prod_beta split: bool.splits)

subsection \<open>The record of a new output\<close>

lemma create_record_ok:
  assumes ok: "calloc_vout_ok env"
  shows "\<exists>v s'. create_record env n out rr c w h r s = (Some 0, s') \<and>
     xr_virtual_outputs s' = v # xr_virtual_outputs s \<and>
     output_ptr v = Some out \<and> crtc v = Some c \<and> randr_output v = Some rr \<and>
     name v = (if strdup_ok env then Some n else None) \<and>
     width v = w \<and> height v = h \<and> refresh v = r \<and> modes v = [] \<and>
     outputs s' = outputs s \<and> crtcs s' = crtcs s \<and>
     pScreen s' = pScreen s \<and> pScreen_root s' = pScreen_root s \<and>
     next_ptr s \<le> next_ptr s' \<and> prefix (trace s) (trace s') \<and>
     (\<forall>p. (rr_outputs s' p = None) = (rr_outputs s p = None)) \<and>
     (\<forall>p. p \<noteq> rr \<longrightarrow> fb_prop s' p = fb_prop s p) \<and>
     (framebuffer_can_be_built (create_fb_env env) \<longrightarrow>
        pixmap v \<noteq> None \<and> drmmode_bo_import_id (create_fb_env env) = Some (framebuffer_id v) \<and>
        bo_width (framebuffer_bo v) = word_of_int w \<and> bo_height (framebuffer_bo v) = word_of_int h \<and>
        (props_ok (fb_prop_env (create_fb_env env)) \<and> rr_outputs s rr \<noteq> None
           \<longrightarrow> fb_prop s' rr = Some (Prop_value (PV_card (framebuffer_id v))))) \<and>
     (\<not> framebuffer_can_be_built (create_fb_env env) \<longrightarrow>
        pixmap v = None \<and> dumb (framebuffer_bo v) = None \<and> gbm (framebuffer_bo v) = None \<and>
        fb_prop s' = fb_prop s)"
proof -
  define vout where "vout = \<lparr>output_ptr = Some out, crtc = Some c, randr_output = Some rr,
                    name = (if strdup_ok env then Some n else None),
                    width = w, height = h, refresh = r, modes = [],
                    framebuffer_bo = zero_bo, framebuffer_id = 0, pixmap = None\<rparr>"
  define s1 where "s1 = emit (E_calloc_vout # (if strdup_ok env then [E_strdup_name] else [])) s"
  obtain okf v s2 where c:
    "drmmode_xr_create_offscreen_framebuffer (create_fb_env env) s1 vout w h = (okf, v, s2)"
    by (cases "drmmode_xr_create_offscreen_framebuffer (create_fb_env env) s1 vout w h") auto
  note cs = create_fb_spec [OF c]
  from cs have okf: "okf = framebuffer_can_be_built (create_fb_env env)"
    and id: "same_identity vout v" and h: "host_only s1 s2"
    and pres: "\<forall>p. (rr_outputs s2 p = None) = (rr_outputs s1 p = None)"
    and other: "\<forall>p. Some p \<noteq> randr_output vout \<longrightarrow> fb_prop s2 p = fb_prop s1 p"
    by blast+
  from cs have good: "okf \<Longrightarrow> pixmap v \<noteq> None \<and>
       drmmode_bo_import_id (create_fb_env env) = Some (framebuffer_id v) \<and>
       bo_width (framebuffer_bo v) = word_of_int w \<and> bo_height (framebuffer_bo v) = word_of_int h \<and>
       (\<forall>q. randr_output vout = Some q \<and> props_ok (fb_prop_env (create_fb_env env)) \<and>
            rr_outputs s1 q \<noteq> None \<longrightarrow> fb_prop s2 q = Some (Prop_value (PV_card (framebuffer_id v))))"
    and bad: "\<not> okf \<Longrightarrow> pixmap v = None \<and> dumb (framebuffer_bo v) = None \<and>
       gbm (framebuffer_bo v) = None \<and> fb_prop s2 = fb_prop s1"
    by blast+
  have run: "create_record env n out rr c w h r s
      = (Some 0, s2\<lparr>xr_virtual_outputs := v # xr_virtual_outputs s2\<rparr>)"
    using ok c by (simp add: create_record_def Let_def vout_def s1_def)
  have hs: "host_only s s2"
    using host_only_emit h unfolding s1_def by (rule host_only_trans)
  note f = host_only_D [OF hs]
  show ?thesis
  proof (intro exI conjI)
    show "create_record env n out rr c w h r s
      = (Some 0, s2\<lparr>xr_virtual_outputs := v # xr_virtual_outputs s2\<rparr>)"
      by (rule run)
  qed (use id f pres other okf good bad in \<open>auto simp: same_identity_def vout_def s1_def\<close>)
qed

lemma create_record_fail:
  assumes "\<not> calloc_vout_ok env"
  shows "create_record env n out rr c w h r s =
     (None, xf86OutputDestroy out
              (emit [E_free_output_private out] (RROutputDestroy rr (xf86CrtcDestroy c s))))"
  using assms by (simp add: create_record_def)

subsection \<open>Create\<close>

lemma create_success:
  assumes free: "drmmode_xr_find_virtual_output s n = None"
    and built: "objects_can_be_built env"
  shows "\<exists>v s'. drmmode_xr_create_virtual_output env n w h r s = (Some 0, s') \<and>
     xr_virtual_outputs s' = v # xr_virtual_outputs s \<and>
     output_ptr v = Some (next_ptr s) \<and> crtc v = Some (Suc (Suc (next_ptr s))) \<and>
     randr_output v = Some (Suc (next_ptr s)) \<and>
     name v = (if strdup_ok env then Some n else None) \<and>
     width v = w \<and> height v = h \<and> refresh v = r \<and> modes v = [] \<and>
     pScreen s' = pScreen s \<and> pScreen_root s' = pScreen_root s \<and>
     next_ptr s < next_ptr s' \<and> prefix (trace s) (trace s') \<and>
     (\<forall>p. p \<noteq> next_ptr s \<longrightarrow> outputs s' p = outputs s p) \<and>
     outputs s' (next_ptr s) =
       Some \<lparr>driver_private = True, out_randr_output = Some (Suc (next_ptr s)),
             out_crtc = Some (Suc (Suc (next_ptr s)))\<rparr> \<and>
     (framebuffer_can_be_built (create_fb_env env) \<longrightarrow>
        pixmap v \<noteq> None \<and> drmmode_bo_import_id (create_fb_env env) = Some (framebuffer_id v) \<and>
        bo_width (framebuffer_bo v) = word_of_int w \<and> bo_height (framebuffer_bo v) = word_of_int h \<and>
        (props_ok (fb_prop_env (create_fb_env env))
           \<longrightarrow> published_fb_id s' (Suc (next_ptr s)) = Some (framebuffer_id v))) \<and>
     (\<not> framebuffer_can_be_built (create_fb_env env) \<longrightarrow>
        pixmap v = None \<and> dumb (framebuffer_bo v) = None \<and> gbm (framebuffer_bo v) = None \<and>
        published_fb_id s' (Suc (next_ptr s)) = None)"
proof -
  from built have b: "xf86OutputCreate_ok env" "calloc_output_private_ok env"
    "RROutputCreate_ok env" "xf86CrtcCreate_ok env" "calloc_crtc_private_ok env"
    "calloc_vout_ok env"
    by (simp_all add: objects_can_be_built_def)
  define out where "out = next_ptr s"
  define rr where "rr = Suc out"
  define s1 where "s1 = emit [E_xf86OutputCreate out]
                   (s\<lparr>next_ptr := Suc out,
                      outputs := (outputs s)(out \<mapsto>
                        \<lparr>driver_private = False, out_randr_output = None, out_crtc = None\<rparr>)\<rparr>)"
  define s2 where "s2 = emit [E_calloc_output_private out]
                        (output_upd out (\<lambda>x. x\<lparr>driver_private := True\<rparr>) s1)"
  define s3 where "s3 = emit [E_RROutputCreate rr]
                             (output_upd out (\<lambda>x. x\<lparr>out_randr_output := Some rr\<rparr>)
                                (s2\<lparr>next_ptr := Suc rr,
                                    rr_outputs := (rr_outputs s2)(rr \<mapsto>
                                      \<lparr>connection = RR_UnknownConnection, rr_modes = [],
                                       props = (\<lambda>a. Prop_absent)\<rparr>)\<rparr>))"
  define s4 where "s4 = create_publish env out rr w h r s3"
  obtain res s5 where cr: "drmmode_xr_create_virtual_crtc (xf86CrtcCreate_ok env)
      (calloc_crtc_private_ok env) s4 = (res, s5)"
    by (cases "drmmode_xr_create_virtual_crtc (xf86CrtcCreate_ok env)
      (calloc_crtc_private_ok env) s4") auto
  note crs = create_virtual_crtc_spec [OF cr]
  have n2: "next_ptr s2 = Suc out" by (simp add: s2_def s1_def)
  have n4: "next_ptr s4 = Suc rr" by (simp add: s4_def s3_def)
  from crs b n4 have res: "res = Some (Suc rr)" by simp
  define c where "c = Suc rr"
  define s7 where "s7 = output_upd out (\<lambda>x. x\<lparr>out_crtc := Some c\<rparr>) (create_randr_crtc env rr c s5)"
  have run: "drmmode_xr_create_virtual_output env n w h r s = create_record env n out rr c w h r s7"
    using free b cr [unfolded res s4_def s3_def s2_def s1_def rr_def] n2
    by (simp add: drmmode_xr_create_virtual_output_def Let_def out_def [symmetric]
        s7_def s4_def s3_def s2_def s1_def rr_def c_def)
  from crs have f5: "xr_virtual_outputs s5 = xr_virtual_outputs s4" "rr_outputs s5 = rr_outputs s4"
    "pScreen s5 = pScreen s4" "pScreen_root s5 = pScreen_root s4" "next_ptr s4 \<le> next_ptr s5"
    "prefix (trace s4) (trace s5)" "outputs s5 = outputs s4"
    by blast+
  have out7: "\<forall>p. p \<noteq> out \<longrightarrow> outputs s7 p = outputs s p"
    by (simp add: s7_def f5 s4_def s3_def s2_def s1_def)
  have new7: "outputs s7 out =
      Some \<lparr>driver_private = True, out_randr_output = Some rr, out_crtc = Some c\<rparr>"
    by (simp add: s7_def f5 s4_def s3_def s2_def s1_def)
  have reg7: "xr_virtual_outputs s7 = xr_virtual_outputs s"
    by (simp add: s7_def f5 s4_def s3_def s2_def s1_def)
  have scr7: "pScreen s7 = pScreen s" "pScreen_root s7 = pScreen_root s"
    by (simp_all add: s7_def f5 s4_def s3_def s2_def s1_def)
  have np7: "next_ptr s < next_ptr s7"
    using f5(5) create_randr_crtc_next_ptr [of s5 env rr c]
    by (simp add: s7_def n4 rr_def out_def)
  have p3: "prefix (trace s) (trace s3)"
    by (simp add: s3_def s2_def s1_def prefix_def)
  have p4: "prefix (trace s3) (trace s4)"
    unfolding s4_def by (rule create_publish_prefix)
  have p7: "prefix (trace s5) (trace s7)"
    using create_randr_crtc_prefix [of s5 env rr c] by (simp add: s7_def)
  have tr7: "prefix (trace s) (trace s7)"
    using p3 p4 f5(6) p7 by (meson prefix_order.trans)
  have rr3: "rr_outputs s3 rr \<noteq> None" "fb_prop s3 rr = Some Prop_absent"
    by (simp_all add: s3_def fb_prop_def)
  have fbp5: "fb_prop s5 = fb_prop s4"
    by (simp add: fb_prop_def f5 fun_eq_iff)
  have rr7: "rr_outputs s7 rr \<noteq> None"
    using rr3(1) by (simp add: s7_def f5 s4_def)
  have fb7: "fb_prop s7 rr = Some Prop_absent"
    using rr3(2) by (simp add: s7_def fbp5 s4_def)
  from create_record_ok [OF b(6), of n out rr c w h r s7]
  obtain v s' where rec: "create_record env n out rr c w h r s7 = (Some 0, s')"
    and reg: "xr_virtual_outputs s' = v # xr_virtual_outputs s7"
    and links: "output_ptr v = Some out" "crtc v = Some c" "randr_output v = Some rr"
      "name v = (if strdup_ok env then Some n else None)"
      "width v = w" "height v = h" "refresh v = r" "modes v = []"
    and scr: "pScreen s' = pScreen s7" "pScreen_root s' = pScreen_root s7"
    and outs: "outputs s' = outputs s7"
    and np: "next_ptr s7 \<le> next_ptr s'" and tr: "prefix (trace s7) (trace s')"
    and good: "framebuffer_can_be_built (create_fb_env env) \<longrightarrow>
        pixmap v \<noteq> None \<and> drmmode_bo_import_id (create_fb_env env) = Some (framebuffer_id v) \<and>
        bo_width (framebuffer_bo v) = word_of_int w \<and> bo_height (framebuffer_bo v) = word_of_int h \<and>
        (props_ok (fb_prop_env (create_fb_env env)) \<and> rr_outputs s7 rr \<noteq> None
           \<longrightarrow> fb_prop s' rr = Some (Prop_value (PV_card (framebuffer_id v))))"
    and bad: "\<not> framebuffer_can_be_built (create_fb_env env) \<longrightarrow>
        pixmap v = None \<and> dumb (framebuffer_bo v) = None \<and> gbm (framebuffer_bo v) = None \<and>
        fb_prop s' = fb_prop s7"
    by blast
  have tr': "prefix (trace s) (trace s')"
    using tr7 tr by (meson prefix_order.trans)
  show ?thesis
  proof (intro exI conjI)
    show "drmmode_xr_create_virtual_output env n w h r s = (Some 0, s')"
      by (simp add: run rec)
    show "xr_virtual_outputs s' = v # xr_virtual_outputs s"
      by (simp add: reg reg7)
    show "next_ptr s < next_ptr s'"
      using np7 np by simp
    show "prefix (trace s) (trace s')"
      by (rule tr')
  qed (use links scr scr7 good bad rr7 fb7 outs out7 new7 in
        \<open>auto simp: out_def rr_def c_def published_fb_id_fb_prop\<close>)
qed

lemma output_destroy_fresh:
  assumes "\<forall>v \<in> set (xr_virtual_outputs s). output_ptr v \<noteq> Some out"
  shows "xr_virtual_outputs (xf86OutputDestroy out s) = xr_virtual_outputs s"
proof -
  from assms have "first_index (\<lambda>vout. output_ptr vout = Some out) (xr_virtual_outputs s) = None"
    by (simp add: first_index_None_iff)
  then show ?thesis
    by (simp add: output_destroy_registry)
qed

lemma xf86OutputDestroy_outputs:
  "p \<noteq> out \<Longrightarrow> outputs (xf86OutputDestroy out s) p = outputs s p"
  by (simp add: xf86OutputDestroy_def drmmode_xr_virtual_output_destroy_def Let_def
      split: option.splits)

lemma create_failure:
  assumes fail: "drmmode_xr_find_virtual_output s n \<noteq> None \<or> \<not> objects_can_be_built env"
    and fresh: "\<forall>v \<in> set (xr_virtual_outputs s). output_ptr v \<noteq> Some (next_ptr s)"
  shows "\<exists>s'. drmmode_xr_create_virtual_output env n w h r s = (None, s') \<and>
     xr_virtual_outputs s' = xr_virtual_outputs s \<and>
     pScreen s' = pScreen s \<and> pScreen_root s' = pScreen_root s \<and>
     next_ptr s \<le> next_ptr s' \<and> prefix (trace s) (trace s') \<and>
     (\<forall>p. p \<noteq> next_ptr s \<longrightarrow> outputs s' p = outputs s p)"
proof -
  define out where "out = next_ptr s"
  define rr where "rr = Suc out"
  define s1 where "s1 = emit [E_xf86OutputCreate out]
                   (s\<lparr>next_ptr := Suc out,
                      outputs := (outputs s)(out \<mapsto>
                        \<lparr>driver_private = False, out_randr_output = None, out_crtc = None\<rparr>)\<rparr>)"
  define s2 where "s2 = emit [E_calloc_output_private out]
                        (output_upd out (\<lambda>x. x\<lparr>driver_private := True\<rparr>) s1)"
  define s3 where "s3 = emit [E_RROutputCreate rr]
                             (output_upd out (\<lambda>x. x\<lparr>out_randr_output := Some rr\<rparr>)
                                (s2\<lparr>next_ptr := Suc rr,
                                    rr_outputs := (rr_outputs s2)(rr \<mapsto>
                                      \<lparr>connection = RR_UnknownConnection, rr_modes = [],
                                       props = (\<lambda>a. Prop_absent)\<rparr>)\<rparr>))"
  define s4 where "s4 = create_publish env out rr w h r s3"
  obtain res s5 where cr: "drmmode_xr_create_virtual_crtc (xf86CrtcCreate_ok env)
      (calloc_crtc_private_ok env) s4 = (res, s5)"
    by (cases "drmmode_xr_create_virtual_crtc (xf86CrtcCreate_ok env)
      (calloc_crtc_private_ok env) s4") auto
  note crs = create_virtual_crtc_spec [OF cr]
  from crs have f5: "xr_virtual_outputs s5 = xr_virtual_outputs s4" "rr_outputs s5 = rr_outputs s4"
    "pScreen s5 = pScreen s4" "pScreen_root s5 = pScreen_root s4" "next_ptr s4 \<le> next_ptr s5"
    "prefix (trace s4) (trace s5)" "outputs s5 = outputs s4"
    and res: "res = (if xf86CrtcCreate_ok env \<and> calloc_crtc_private_ok env
                     then Some (next_ptr s4) else None)"
    by blast+
  have n2: "next_ptr s2 = Suc out" by (simp add: s2_def s1_def)
  have n4: "next_ptr s4 = Suc rr" by (simp add: s4_def s3_def)
  define c where "c = Suc rr"
  define s7 where "s7 = output_upd out (\<lambda>x. x\<lparr>out_crtc := Some c\<rparr>) (create_randr_crtc env rr c s5)"
  have p3: "prefix (trace s) (trace s1)" "prefix (trace s) (trace s2)" "prefix (trace s) (trace s3)"
    by (simp_all add: s3_def s2_def s1_def prefix_def)
  have p4: "prefix (trace s3) (trace s4)"
    unfolding s4_def by (rule create_publish_prefix)
  have p5: "prefix (trace s) (trace s5)"
    using p3(3) p4 f5(6) by (meson prefix_order.trans)
  have p7: "prefix (trace s) (trace s7)"
    using p5 create_randr_crtc_prefix [of s5 env rr c]
    by (simp add: s7_def)
  have fr: "\<forall>v \<in> set (xr_virtual_outputs s). output_ptr v \<noteq> Some out"
    using fresh by (simp add: out_def)
  text \<open>Every way out runs \<open>xf86OutputDestroy\<close> on a state whose list is still the old one.\<close>
  have way_out: "\<exists>s'. X = (None, s') \<and>
     xr_virtual_outputs s' = xr_virtual_outputs s \<and>
     pScreen s' = pScreen s \<and> pScreen_root s' = pScreen_root s \<and>
     next_ptr s \<le> next_ptr s' \<and> prefix (trace s) (trace s') \<and>
     (\<forall>p. p \<noteq> out \<longrightarrow> outputs s' p = outputs s p)"
    if x: "X = (None, xf86OutputDestroy out t)"
      and t: "xr_virtual_outputs t = xr_virtual_outputs s" "pScreen t = pScreen s"
        "pScreen_root t = pScreen_root s" "next_ptr s \<le> next_ptr t" "prefix (trace s) (trace t)"
        "\<forall>p. p \<noteq> out \<longrightarrow> outputs t p = outputs s p"
    for X t
  proof (intro exI conjI)
    show "X = (None, xf86OutputDestroy out t)" by (rule x)
    show "xr_virtual_outputs (xf86OutputDestroy out t) = xr_virtual_outputs s"
      using output_destroy_fresh [of t out] fr t(1) by simp
    show "prefix (trace s) (trace (xf86OutputDestroy out t))"
      using t(5) xf86OutputDestroy_prefix [of t out] by (meson prefix_order.trans)
    show "\<forall>p. p \<noteq> out \<longrightarrow> outputs (xf86OutputDestroy out t) p = outputs s p"
      using t(6) by (simp add: xf86OutputDestroy_outputs)
  qed (use t in simp_all)
  consider (dup) "drmmode_xr_find_virtual_output s n \<noteq> None"
    | (a) "drmmode_xr_find_virtual_output s n = None" "\<not> xf86OutputCreate_ok env"
    | (b) "drmmode_xr_find_virtual_output s n = None" "xf86OutputCreate_ok env"
          "\<not> calloc_output_private_ok env"
    | (c) "drmmode_xr_find_virtual_output s n = None" "xf86OutputCreate_ok env"
          "calloc_output_private_ok env" "\<not> RROutputCreate_ok env"
    | (d) "drmmode_xr_find_virtual_output s n = None" "xf86OutputCreate_ok env"
          "calloc_output_private_ok env" "RROutputCreate_ok env"
          "\<not> (xf86CrtcCreate_ok env \<and> calloc_crtc_private_ok env)"
    | (e) "drmmode_xr_find_virtual_output s n = None" "xf86OutputCreate_ok env"
          "calloc_output_private_ok env" "RROutputCreate_ok env"
          "xf86CrtcCreate_ok env" "calloc_crtc_private_ok env" "\<not> calloc_vout_ok env"
    using fail by (auto simp: objects_can_be_built_def)
  then have "\<exists>s'. drmmode_xr_create_virtual_output env n w h r s = (None, s') \<and>
     xr_virtual_outputs s' = xr_virtual_outputs s \<and>
     pScreen s' = pScreen s \<and> pScreen_root s' = pScreen_root s \<and>
     next_ptr s \<le> next_ptr s' \<and> prefix (trace s) (trace s') \<and>
     (\<forall>p. p \<noteq> out \<longrightarrow> outputs s' p = outputs s p)"
  proof cases
    case dup
    then show ?thesis by (simp add: drmmode_xr_create_virtual_output_def)
  next
    case a
    then show ?thesis by (simp add: drmmode_xr_create_virtual_output_def)
  next
    case b
    then have "drmmode_xr_create_virtual_output env n w h r s = (None, xf86OutputDestroy out s1)"
      by (simp add: drmmode_xr_create_virtual_output_def Let_def out_def [symmetric] s1_def)
    then show ?thesis
    proof (rule way_out)
      show "prefix (trace s) (trace s1)" by (rule p3(1))
    qed (simp_all add: s1_def out_def)
  next
    case c
    then have "drmmode_xr_create_virtual_output env n w h r s
        = (None, xf86OutputDestroy out (emit [E_free_output_private out] s2))"
      by (simp add: drmmode_xr_create_virtual_output_def Let_def out_def [symmetric] s1_def s2_def)
    then show ?thesis
    proof (rule way_out)
      show "prefix (trace s) (trace (emit [E_free_output_private out] s2))"
        using p3(2) by (auto simp: prefix_def)
    qed (simp_all add: s2_def s1_def out_def)
  next
    case d
    with res have rn: "res = None" by auto
    from d cr [unfolded rn s4_def s3_def s2_def s1_def rr_def] n2
    have "drmmode_xr_create_virtual_output env n w h r s
        = (None, xf86OutputDestroy out (emit [E_free_output_private out] (RROutputDestroy rr s5)))"
      by (simp add: drmmode_xr_create_virtual_output_def Let_def out_def [symmetric]
          s4_def s3_def s2_def s1_def rr_def)
    then show ?thesis
    proof (rule way_out)
      show "prefix (trace s) (trace (emit [E_free_output_private out] (RROutputDestroy rr s5)))"
        using p5 by (auto simp: prefix_def)
      show "next_ptr s \<le> next_ptr (emit [E_free_output_private out] (RROutputDestroy rr s5))"
        using f5(5) by (simp add: n4 rr_def out_def)
    qed (simp_all add: f5 s4_def s3_def s2_def s1_def out_def)
  next
    case e
    with res n4 have rn: "res = Some (Suc rr)" by simp
    from e cr [unfolded rn s4_def s3_def s2_def s1_def rr_def] n2
    have "drmmode_xr_create_virtual_output env n w h r s = create_record env n out rr c w h r s7"
      by (simp add: drmmode_xr_create_virtual_output_def Let_def out_def [symmetric]
        s7_def s4_def s3_def s2_def s1_def rr_def c_def)
    with e(7) have "drmmode_xr_create_virtual_output env n w h r s
        = (None, xf86OutputDestroy out
              (emit [E_free_output_private out] (RROutputDestroy rr (xf86CrtcDestroy c s7))))"
      by (simp add: create_record_fail)
    then show ?thesis
    proof (rule way_out)
      show "prefix (trace s)
          (trace (emit [E_free_output_private out] (RROutputDestroy rr (xf86CrtcDestroy c s7))))"
        using p7 by (auto simp: prefix_def)
      show "next_ptr s
          \<le> next_ptr (emit [E_free_output_private out] (RROutputDestroy rr (xf86CrtcDestroy c s7)))"
        using f5(5) create_randr_crtc_next_ptr [of s5 env rr c]
        by (simp add: s7_def n4 rr_def out_def)
    qed (simp_all add: s7_def f5 s4_def s3_def s2_def s1_def out_def)
  qed
  then show ?thesis
    by (simp add: out_def)
qed

subsection \<open>Delete\<close>

lemma remove_nth_set_distinct:
  assumes "distinct (map f xs)" and "i < length xs"
  shows "\<forall>v \<in> set (remove_nth i xs). f v \<noteq> f (xs ! i)"
proof -
  have xs: "xs = take i xs @ (xs ! i) # drop (Suc i) xs"
    using assms(2) by (simp add: id_take_nth_drop)
  have "distinct (map f (take i xs @ (xs ! i) # drop (Suc i) xs))"
    using assms(1) xs by simp
  then show ?thesis
    by (auto simp: remove_nth_def image_iff)
qed

lemma destroy_fb_state:
  "pScreen s' = pScreen s \<Longrightarrow>
   drmmode_xr_destroy_offscreen_framebuffer s' v = drmmode_xr_destroy_offscreen_framebuffer s v"
  by (simp add: drmmode_xr_destroy_offscreen_framebuffer_def split: option.splits)

lemma delete_spec:
  assumes found: "first_index (\<lambda>v. name v = Some n) (xr_virtual_outputs s) = Some i"
    and uniq: "distinct (map output_ptr (xr_virtual_outputs s))"
    and out: "output_ptr (xr_virtual_outputs s ! i) = Some out"
    and ob: "outputs s out = Some ob" "driver_private ob"
  shows "\<exists>s'. drmmode_xr_delete_virtual_output n s = (True, s') \<and>
     xr_virtual_outputs s' = remove_nth i (xr_virtual_outputs s) \<and>
     next_ptr s' = next_ptr s \<and> pScreen s' = pScreen s \<and> pScreen_root s' = pScreen_root s \<and>
     (\<forall>p. p \<noteq> out \<longrightarrow> outputs s' p = outputs s p) \<and>
     trace s' = trace s @ delete_events s (xr_virtual_outputs s ! i)"
proof -
  define v where "v = xr_virtual_outputs s ! i"
  define s0 where "s0 = s\<lparr>xr_virtual_outputs := remove_nth i (xr_virtual_outputs s)\<rparr>"
  from first_index_Some_D [OF found] have i: "i < length (xr_virtual_outputs s)" by simp
  obtain v1 es where d: "drmmode_xr_destroy_offscreen_framebuffer s v = (v1, es)"
    by (cases "drmmode_xr_destroy_offscreen_framebuffer s v") auto
  from destroy_fb_record [OF d] have id1: "same_identity v v1" by blast
  then have l1: "output_ptr v1 = Some out" "crtc v1 = crtc v" "randr_output v1 = randr_output v"
    "name v1 = name v"
    using out by (simp_all add: same_identity_def v_def)
  have b1: "delete_framebuffer s0 v = (emit es s0, v1)"
    using out ob d destroy_fb_state [of s0 s v]
    by (simp add: delete_framebuffer_def v_def [symmetric] s0_def)
  obtain s2 v2 where b2: "delete_crtc (emit es s0) v1 = (s2, v2)"
    by (cases "delete_crtc (emit es s0) v1") auto
  have f2: "xr_virtual_outputs s2 = xr_virtual_outputs s0" "next_ptr s2 = next_ptr s"
    "pScreen s2 = pScreen s" "pScreen_root s2 = pScreen_root s"
    "\<forall>p. p \<noteq> out \<longrightarrow> outputs s2 p = outputs s p"
    "outputs s2 out = Some (if crtc v = None then ob else ob\<lparr>out_crtc := None\<rparr>)"
    "trace s2 = trace s @ es @ (case crtc v of
          None \<Rightarrow> []
        | Some c \<Rightarrow>
            (case crtcs s c of
               None \<Rightarrow> []
             | Some cr \<Rightarrow> (case randr_crtc cr of None \<Rightarrow> [] | Some rc \<Rightarrow> [E_RRCrtcDestroy rc]))
            @ [E_xf86CrtcDestroy c])"
    "output_ptr v2 = Some out" "randr_output v2 = randr_output v" "name v2 = name v"
    using b2 l1 ob
    by (auto simp: delete_crtc_def Let_def s0_def split: option.splits)
  obtain s3 v3 where b3: "delete_randr_output s2 v2 = (s3, v3)"
    by (cases "delete_randr_output s2 v2") auto
  have f3: "xr_virtual_outputs s3 = xr_virtual_outputs s0" "next_ptr s3 = next_ptr s"
    "pScreen s3 = pScreen s" "pScreen_root s3 = pScreen_root s"
    "\<forall>p. p \<noteq> out \<longrightarrow> outputs s3 p = outputs s p"
    "\<exists>ob'. outputs s3 out = Some ob' \<and> driver_private ob'"
    "trace s3 = trace s2 @ (case randr_output v of
          None \<Rightarrow> []
        | Some rr \<Rightarrow> [E_RROutputSetConnection rr RR_Disconnected, E_RROutputChanged rr,
                      E_RRTellChanged, E_RROutputDestroy rr])"
    "output_ptr v3 = Some out" "name v3 = name v"
    using b3 f2(1-6,8-10) ob(2)
    by (auto simp: delete_randr_output_def Let_def split: option.splits)
  have unl: "first_index (\<lambda>vout. output_ptr vout = Some out) (xr_virtual_outputs s3) = None"
    using remove_nth_set_distinct [OF uniq i] out
    by (simp add: first_index_None_iff f3 s0_def)
  obtain s4 v4 where b4: "delete_xf86_output s3 v3 = (s4, v4)"
    by (cases "delete_xf86_output s3 v3") auto
  from f3(6) obtain ob' where ob': "outputs s3 out = Some ob'" "driver_private ob'" by blast
  have f4: "xr_virtual_outputs s4 = xr_virtual_outputs s0" "next_ptr s4 = next_ptr s"
    "pScreen s4 = pScreen s" "pScreen_root s4 = pScreen_root s"
    "\<forall>p. p \<noteq> out \<longrightarrow> outputs s4 p = outputs s p"
    "trace s4 = trace s3 @ [E_free_output_private out, E_xf86OutputDestroy out]"
    "name v4 = name v"
    using b4 f3(1-5,8,9) unl ob'
    by (auto simp: delete_xf86_output_def output_destroy_registry output_destroy_trace_unlinked
        xf86OutputDestroy_outputs)
  have run: "drmmode_xr_delete_virtual_output n s = (True, delete_free_record s4 v4)"
    using found b1 b2 b3 b4
    by (simp add: drmmode_xr_delete_virtual_output_def Let_def v_def [symmetric] s0_def [symmetric])
  show ?thesis
  proof (intro exI conjI)
    show "drmmode_xr_delete_virtual_output n s = (True, delete_free_record s4 v4)"
      by (rule run)
    show "trace (delete_free_record s4 v4) = trace s @ delete_events s (xr_virtual_outputs s ! i)"
      using d out
      by (simp add: delete_free_record_def f4 f3 f2 delete_events_def v_def [symmetric])
  qed (simp_all add: delete_free_record_def f4 s0_def)
qed

subsection \<open>What the handlers leave alone\<close>

lemma same_links_refl [simp]: "same_links s s"
  by (simp add: same_links_def)

lemma map_update_same: "f v' = f (xs ! i) \<Longrightarrow> map f (xs[i := v']) = map f xs"
  by (cases "i < length xs") (simp_all add: map_update list_update_same_conv list_update_beyond)

lemma same_links_update:
  assumes "xr_virtual_outputs s' = (xr_virtual_outputs s)[i := v']"
    and "output_ptr v' = output_ptr (xr_virtual_outputs s ! i)"
    and "randr_output v' = randr_output (xr_virtual_outputs s ! i)"
    and "crtc v' = crtc (xr_virtual_outputs s ! i)"
    and "name v' = name (xr_virtual_outputs s ! i)"
    and "outputs s' = outputs s" and "next_ptr s \<le> next_ptr s'"
  shows "same_links s s'"
  using assms by (simp add: same_links_def map_update_same)

lemma resize_same_links:
  "same_links s (snd (drmmode_xr_resize_virtual_output env vo w h r s))"
proof (cases vo)
  case None
  then show ?thesis by (simp add: drmmode_xr_resize_virtual_output_def)
next
  case (Some i)
  show ?thesis
  proof (cases "i < length (xr_virtual_outputs s) \<and>
      output_ptr (xr_virtual_outputs s ! i) \<noteq> None \<and> randr_output (xr_virtual_outputs s ! i) \<noteq> None")
    case False
    then have "drmmode_xr_resize_virtual_output env vo w h r s = (False, s)"
      using Some by (auto simp: drmmode_xr_resize_virtual_output_def Let_def split: option.splits)
    then show ?thesis by simp
  next
    case True
    then obtain out rr where o: "output_ptr (xr_virtual_outputs s ! i) = Some out"
      "randr_output (xr_virtual_outputs s ! i) = Some rr" and i: "i < length (xr_virtual_outputs s)"
      by auto
    from resize_spec [OF i o, of env w h r] obtain s' where
      r: "drmmode_xr_resize_virtual_output env (Some i) w h r s = (True, s')"
      and f: "xr_virtual_outputs s' = (xr_virtual_outputs s)
          [i := (xr_virtual_outputs s ! i)\<lparr>width := w, height := h, refresh := r\<rparr>]"
        "outputs s' = outputs s" "next_ptr s' = next_ptr s"
      by blast
    from f have "same_links s s'"
      by (simp add: same_links_def map_update_same)
    with r Some show ?thesis by simp
  qed
qed

lemma set_property_cases:
  "drmmode_xr_virtual_set_property env out pn v s = (False, s) \<or>
   (\<exists>i w h r. drmmode_xr_virtual_set_property env out pn v s
       = drmmode_xr_resize_virtual_output env (Some i) w h r s)"
  by (auto simp: drmmode_xr_virtual_set_property_def Let_def split: option.splits)

lemma set_property_same_links:
  "same_links s (snd (drmmode_xr_virtual_set_property env out pn v s))"
  using set_property_cases [of env out pn v s] resize_same_links by auto

lemma set_mode_resize_same_links:
  "same_links s (set_mode_resize_framebuffer env c m s)"
proof (cases "\<exists>i. drmmode_xr_find_virtual_output_by_crtc s c = Some i \<and>
    (width (xr_virtual_outputs s ! i) \<noteq> HDisplay m \<or> height (xr_virtual_outputs s ! i) \<noteq> VDisplay m)")
  case False
  then have "set_mode_resize_framebuffer env c m s = s"
    by (intro set_mode_resize_skip) (cases "drmmode_xr_find_virtual_output_by_crtc s c", auto)
  then show ?thesis by simp
next
  case True
  then obtain i where i: "drmmode_xr_find_virtual_output_by_crtc s c = Some i"
    "width (xr_virtual_outputs s ! i) \<noteq> HDisplay m \<or> height (xr_virtual_outputs s ! i) \<noteq> VDisplay m"
    by blast
  from set_mode_resize_spec [OF i, of env] obtain v' where
    "xr_virtual_outputs (set_mode_resize_framebuffer env c m s) = (xr_virtual_outputs s)[i := v']"
    "outputs (set_mode_resize_framebuffer env c m s) = outputs s"
    "next_ptr s \<le> next_ptr (set_mode_resize_framebuffer env c m s)"
    "output_ptr v' = output_ptr (xr_virtual_outputs s ! i)"
    "crtc v' = crtc (xr_virtual_outputs s ! i)"
    "randr_output v' = randr_output (xr_virtual_outputs s ! i)"
    "name v' = name (xr_virtual_outputs s ! i)"
    by blast
  then show ?thesis
    by (simp add: same_links_def map_update_same)
qed

lemma set_mode_major_same_links:
  "same_links s (snd (drmmode_xr_virtual_crtc_set_mode_major env c mode rot x y s))"
  using set_mode_resize_same_links [of s env c]
  by (cases mode) (simp_all add: drmmode_xr_virtual_crtc_set_mode_major_def same_links_def)

lemma dpms_same_links: "same_links s (drmmode_xr_virtual_crtc_dpms c m s)"
  by (simp add: drmmode_xr_virtual_crtc_dpms_def same_links_def)

subsection \<open>The invariant\<close>

lemma registry_ok_same_links:
  assumes "registry_ok s" and "same_links s s'"
  shows "registry_ok s'"
proof -
  let ?R = "xr_virtual_outputs s" and ?R' = "xr_virtual_outputs s'"
  from assms(2) have m: "map output_ptr ?R' = map output_ptr ?R"
    "map randr_output ?R' = map randr_output ?R" "map crtc ?R' = map crtc ?R"
    "outputs s' = outputs s" "next_ptr s \<le> next_ptr s'"
    by (simp_all add: same_links_def)
  from m(1) have len: "length ?R' = length ?R"
    by (metis length_map)
  have nth: "output_ptr (?R' ! j) = output_ptr (?R ! j) \<and> randr_output (?R' ! j) = randr_output (?R ! j)
      \<and> crtc (?R' ! j) = crtc (?R ! j)" if "j < length ?R" for j
    using m(1-3) that len by (metis nth_map)
  from assms(1) have d: "distinct (map output_ptr ?R)"
    and a: "\<And>j. j < length ?R \<Longrightarrow>
      (case output_ptr (?R ! j) of None \<Rightarrow> False
       | Some p \<Rightarrow> p < next_ptr s \<and> (case outputs s p of None \<Rightarrow> False | Some ob \<Rightarrow> driver_private ob)) \<and>
      randr_output (?R ! j) \<noteq> None \<and> crtc (?R ! j) \<noteq> None"
    by (simp_all add: registry_ok_def list_all_length)
  have "(case output_ptr (?R' ! j) of None \<Rightarrow> False
       | Some p \<Rightarrow> p < next_ptr s' \<and> (case outputs s' p of None \<Rightarrow> False | Some ob \<Rightarrow> driver_private ob)) \<and>
      randr_output (?R' ! j) \<noteq> None \<and> crtc (?R' ! j) \<noteq> None" if "j < length ?R'" for j
    using a [of j] nth [of j] that len m(4,5) by (auto split: option.splits)
  with d m(1) show ?thesis
    by (simp add: registry_ok_def list_all_length)
qed

lemma map_filter_map: "List.map_filter f xs = List.map_filter id (map f xs)"
  by (induction xs) (simp_all add: List.map_filter_def)

lemma registered_names_same_links:
  "same_links s s' \<Longrightarrow> registered_names s' = registered_names s"
  unfolding registered_names_def same_links_def
  by (subst (1 2) map_filter_map) simp

subsection \<open>What holds in every state the driver reaches\<close>

lemma set_registered_names:
  "set (registered_names s) = {n. \<exists>v \<in> set (xr_virtual_outputs s). name v = Some n}"
  by (force simp: registered_names_def List.map_filter_def image_iff)

lemma find_None_not_registered:
  "drmmode_xr_find_virtual_output s n = None \<longleftrightarrow> n \<notin> set (registered_names s)"
  by (auto simp: drmmode_xr_find_virtual_output_def first_index_None_iff set_registered_names)

lemma registered_names_Cons:
  "xr_virtual_outputs s' = v # xr_virtual_outputs s \<Longrightarrow>
   registered_names s' = (case name v of None \<Rightarrow> registered_names s | Some n \<Rightarrow> n # registered_names s)"
  by (simp add: registered_names_def List.map_filter_def split: option.splits)

lemma registry_ok_D:
  assumes "registry_ok s" and "v \<in> set (xr_virtual_outputs s)"
  shows "\<exists>p ob. output_ptr v = Some p \<and> p < next_ptr s \<and> outputs s p = Some ob \<and> driver_private ob"
    and "randr_output v \<noteq> None" and "crtc v \<noteq> None"
proof -
  from assms have c: "case output_ptr v of None \<Rightarrow> False
      | Some p \<Rightarrow> p < next_ptr s \<and> (case outputs s p of None \<Rightarrow> False | Some ob \<Rightarrow> driver_private ob)"
    and r: "randr_output v \<noteq> None" "crtc v \<noteq> None"
    by (simp_all add: registry_ok_def list_all_iff)
  from r show "randr_output v \<noteq> None" "crtc v \<noteq> None" .
  from c obtain p where p: "output_ptr v = Some p" by (cases "output_ptr v") auto
  with c have q: "p < next_ptr s"
    "case outputs s p of None \<Rightarrow> False | Some ob \<Rightarrow> driver_private ob" by simp_all
  from q(2) obtain ob where "outputs s p = Some ob" "driver_private ob"
    by (cases "outputs s p") auto
  with p q(1) show "\<exists>p ob. output_ptr v = Some p \<and> p < next_ptr s \<and> outputs s p = Some ob \<and> driver_private ob"
    by blast
qed

lemma registry_ok_fresh:
  assumes "registry_ok s" and "v \<in> set (xr_virtual_outputs s)"
  shows "output_ptr v \<noteq> Some (next_ptr s)"
  using registry_ok_D(1) [OF assms] by auto

lemma registry_ok_I:
  assumes "distinct (map output_ptr (xr_virtual_outputs s))"
    and "\<And>v. v \<in> set (xr_virtual_outputs s) \<Longrightarrow>
      \<exists>p ob. output_ptr v = Some p \<and> p < next_ptr s \<and> outputs s p = Some ob \<and> driver_private ob"
    and "\<And>v. v \<in> set (xr_virtual_outputs s) \<Longrightarrow> randr_output v \<noteq> None \<and> crtc v \<noteq> None"
  shows "registry_ok s"
  unfolding registry_ok_def list_all_iff
proof (intro conjI ballI)
  fix v assume v: "v \<in> set (xr_virtual_outputs s)"
  from assms(2) [OF v] show "case output_ptr v of None \<Rightarrow> False
         | Some p \<Rightarrow> p < next_ptr s \<and> (case outputs s p of None \<Rightarrow> False | Some ob \<Rightarrow> driver_private ob)"
    by auto
  from assms(3) [OF v] show "randr_output v \<noteq> None" "crtc v \<noteq> None" by simp_all
qed (rule assms(1))

lemma create_keeps_registry:
  assumes ok: "registry_ok s" and names: "distinct (registered_names s)"
  shows "registry_ok (snd (drmmode_xr_create_virtual_output env n w h r s)) \<and>
         distinct (registered_names (snd (drmmode_xr_create_virtual_output env n w h r s)))"
proof (cases "drmmode_xr_find_virtual_output s n = None \<and> objects_can_be_built env")
  case True
  then have a: "drmmode_xr_find_virtual_output s n = None" and b: "objects_can_be_built env"
    by simp_all
  from create_success [OF a b, of w h r] obtain v s' where
    c: "drmmode_xr_create_virtual_output env n w h r s = (Some 0, s')"
    and R: "xr_virtual_outputs s' = v # xr_virtual_outputs s"
    and v: "output_ptr v = Some (next_ptr s)" "crtc v = Some (Suc (Suc (next_ptr s)))"
      "randr_output v = Some (Suc (next_ptr s))" "name v = (if strdup_ok env then Some n else None)"
    and np: "next_ptr s < next_ptr s'"
    and o: "\<forall>p. p \<noteq> next_ptr s \<longrightarrow> outputs s' p = outputs s p"
    and o': "outputs s' (next_ptr s) =
       Some \<lparr>driver_private = True, out_randr_output = Some (Suc (next_ptr s)),
             out_crtc = Some (Suc (Suc (next_ptr s)))\<rparr>"
    by blast
  have "registry_ok s'"
  proof (rule registry_ok_I)
    from ok have "distinct (map output_ptr (xr_virtual_outputs s))"
      by (simp add: registry_ok_def)
    moreover have "output_ptr v \<notin> output_ptr ` set (xr_virtual_outputs s)"
    proof
      assume "output_ptr v \<in> output_ptr ` set (xr_virtual_outputs s)"
      then obtain u where "u \<in> set (xr_virtual_outputs s)" "output_ptr u = output_ptr v"
        by (auto simp: image_iff)
      with registry_ok_fresh [OF ok] v(1) show False by simp
    qed
    ultimately show "distinct (map output_ptr (xr_virtual_outputs s'))"
      using R by simp
  next
    fix u assume "u \<in> set (xr_virtual_outputs s')"
    then consider "u = v" | "u \<in> set (xr_virtual_outputs s)" using R by auto
    then show "\<exists>p ob. output_ptr u = Some p \<and> p < next_ptr s' \<and> outputs s' p = Some ob \<and> driver_private ob"
    proof cases
      case 1
      with v(1) np o' show ?thesis by simp
    next
      case 2
      from registry_ok_D(1) [OF ok 2] obtain p ob where
        "output_ptr u = Some p" "p < next_ptr s" "outputs s p = Some ob" "driver_private ob"
        by blast
      with np o show ?thesis by auto
    qed
  next
    fix u assume "u \<in> set (xr_virtual_outputs s')"
    then consider "u = v" | "u \<in> set (xr_virtual_outputs s)" using R by auto
    then show "randr_output u \<noteq> None \<and> crtc u \<noteq> None"
      using v registry_ok_D(2,3) [OF ok] by cases auto
  qed
  moreover have "distinct (registered_names s')"
    using registered_names_Cons [OF R] v(4) names True
    by (auto simp: find_None_not_registered)
  ultimately show ?thesis using c by simp
next
  case False
  then have a: "drmmode_xr_find_virtual_output s n \<noteq> None \<or> \<not> objects_can_be_built env"
    by simp
  have b: "\<forall>v \<in> set (xr_virtual_outputs s). output_ptr v \<noteq> Some (next_ptr s)"
    using registry_ok_fresh [OF ok] by blast
  from create_failure [OF a b, of w h r] obtain s' where
    c: "drmmode_xr_create_virtual_output env n w h r s = (None, s')"
    and R: "xr_virtual_outputs s' = xr_virtual_outputs s"
    and np: "next_ptr s \<le> next_ptr s'"
    and o: "\<forall>p. p \<noteq> next_ptr s \<longrightarrow> outputs s' p = outputs s p"
    by blast
  have "registry_ok s'"
  proof (rule registry_ok_I)
    from ok R show "distinct (map output_ptr (xr_virtual_outputs s'))"
      by (simp add: registry_ok_def)
  next
    fix u assume "u \<in> set (xr_virtual_outputs s')"
    with R have u: "u \<in> set (xr_virtual_outputs s)" by simp
    from registry_ok_D(1) [OF ok u] obtain p ob where
      "output_ptr u = Some p" "p < next_ptr s" "outputs s p = Some ob" "driver_private ob"
      by blast
    with np o show "\<exists>p ob. output_ptr u = Some p \<and> p < next_ptr s' \<and> outputs s' p = Some ob \<and> driver_private ob"
      by auto
  next
    fix u assume "u \<in> set (xr_virtual_outputs s')"
    with R registry_ok_D(2,3) [OF ok] show "randr_output u \<noteq> None \<and> crtc u \<noteq> None" by auto
  qed
  moreover have "registered_names s' = registered_names s"
    using R by (simp add: registered_names_def)
  ultimately show ?thesis using c names by simp
qed

lemma remove_nth_subset: "set (remove_nth i xs) \<subseteq> set xs"
  by (auto simp: remove_nth_def dest: in_set_takeD in_set_dropD)

lemma distinct_map_remove_nth: "distinct (map f xs) \<Longrightarrow> distinct (map f (remove_nth i xs))"
proof -
  assume d: "distinct (map f xs)"
  have "map f xs = map f (take i xs) @ map f (drop i xs)"
    by (metis append_take_drop_id map_append)
  with d have d': "distinct (map f (take i xs) @ map f (drop i xs))" by simp
  have "set (drop (Suc i) xs) \<subseteq> set (drop i xs)"
    by (metis drop_Suc set_drop_subset tl_drop drop_drop Suc_eq_plus1 add.commute set_drop_subset_set_drop le_add2)
  moreover have "distinct (map f (drop (Suc i) xs))"
    using d by (metis distinct_drop drop_map)
  ultimately show ?thesis
    using d' unfolding remove_nth_def by (auto simp: distinct_map image_iff subset_iff)
qed

lemma distinct_map_filter_remove_nth:
  "distinct (List.map_filter f xs) \<Longrightarrow> distinct (List.map_filter f (remove_nth i xs))"
proof -
  assume d: "distinct (List.map_filter f xs)"
  have e: "List.map_filter f (ys @ zs) = List.map_filter f ys @ List.map_filter f zs" for ys zs
    by (simp add: List.map_filter_def)
  have s: "set (List.map_filter f (drop (Suc i) xs)) \<subseteq> set (List.map_filter f (drop i xs))"
    by (cases "i < length xs") (auto simp: List.map_filter_def Cons_nth_drop_Suc [symmetric])
  have d2: "distinct (List.map_filter f (drop (Suc i) xs))"
  proof (cases "i < length xs")
    case True
    have "xs = take (Suc i) xs @ drop (Suc i) xs" by simp
    then have "List.map_filter f xs = List.map_filter f (take (Suc i) xs) @ List.map_filter f (drop (Suc i) xs)"
      by (metis e)
    with d show ?thesis by simp
  next
    case False
    then show ?thesis by (simp add: List.map_filter_def)
  qed
  have "xs = take i xs @ drop i xs" by simp
  then have "List.map_filter f xs = List.map_filter f (take i xs) @ List.map_filter f (drop i xs)"
    by (metis e)
  with d have "distinct (List.map_filter f (take i xs) @ List.map_filter f (drop i xs))" by simp
  with s d2 show ?thesis
    unfolding remove_nth_def e by auto
qed

lemma delete_keeps_registry:
  assumes ok: "registry_ok s" and names: "distinct (registered_names s)"
  shows "registry_ok (snd (drmmode_xr_delete_virtual_output n s)) \<and>
         distinct (registered_names (snd (drmmode_xr_delete_virtual_output n s)))"
proof (cases "drmmode_xr_find_virtual_output s n")
  case None
  then have "drmmode_xr_delete_virtual_output n s = (False, s)"
    by (simp add: drmmode_xr_find_virtual_output_def drmmode_xr_delete_virtual_output_def)
  with assms show ?thesis by simp
next
  case (Some i)
  then have f: "first_index (\<lambda>v. name v = Some n) (xr_virtual_outputs s) = Some i"
    by (simp add: drmmode_xr_find_virtual_output_def)
  from first_index_Some_D [OF f] have i: "i < length (xr_virtual_outputs s)" by simp
  then have mem: "xr_virtual_outputs s ! i \<in> set (xr_virtual_outputs s)" by simp
  from registry_ok_D(1) [OF ok mem] obtain out ob where
    out: "output_ptr (xr_virtual_outputs s ! i) = Some out" "outputs s out = Some ob" "driver_private ob"
    by blast
  from ok have d: "distinct (map output_ptr (xr_virtual_outputs s))"
    by (simp add: registry_ok_def)
  from delete_spec [OF f d out] obtain s' where
    c: "drmmode_xr_delete_virtual_output n s = (True, s')"
    and R: "xr_virtual_outputs s' = remove_nth i (xr_virtual_outputs s)"
    and np: "next_ptr s' = next_ptr s"
    and o: "\<forall>p. p \<noteq> out \<longrightarrow> outputs s' p = outputs s p"
    by blast
  have "registry_ok s'"
  proof (rule registry_ok_I)
    show "distinct (map output_ptr (xr_virtual_outputs s'))"
      using d R by (simp add: distinct_map_remove_nth)
  next
    fix u assume u': "u \<in> set (xr_virtual_outputs s')"
    with R remove_nth_subset have u: "u \<in> set (xr_virtual_outputs s)" by fastforce
    from remove_nth_set_distinct [OF d i] u' R out(1) have ne: "output_ptr u \<noteq> Some out" by auto
    from registry_ok_D(1) [OF ok u] obtain p ob' where
      "output_ptr u = Some p" "p < next_ptr s" "outputs s p = Some ob'" "driver_private ob'"
      by blast
    with np o ne show "\<exists>p ob. output_ptr u = Some p \<and> p < next_ptr s' \<and> outputs s' p = Some ob \<and> driver_private ob"
      by auto
  next
    fix u assume "u \<in> set (xr_virtual_outputs s')"
    with R remove_nth_subset have u: "u \<in> set (xr_virtual_outputs s)" by fastforce
    with registry_ok_D(2,3) [OF ok] show "randr_output u \<noteq> None \<and> crtc u \<noteq> None" by auto
  qed
  moreover have "distinct (registered_names s')"
    using names R by (simp add: registered_names_def distinct_map_filter_remove_nth)
  ultimately show ?thesis using c by simp
qed

lemma manager_cases:
  "drmmode_xr_manager_set_property env pn v s = (False, s) \<or>
   (\<exists>cenv n w h r. snd (drmmode_xr_manager_set_property env pn v s)
        = snd (drmmode_xr_create_virtual_output cenv n w h r s)) \<or>
   (\<exists>n. drmmode_xr_manager_set_property env pn v s = drmmode_xr_delete_virtual_output n s)"
proof (cases "\<exists>p. pn = Some p \<and> (p = ''CREATE_XR_OUTPUT'' \<or> p = ''DELETE_XR_OUTPUT'') \<and>
    ptype v = XA_STRING \<and> pformat v = 8 \<and> strndup_ok env")
  case False
  then have "drmmode_xr_manager_set_property env pn v s = (False, s)"
    by (auto simp: drmmode_xr_manager_set_property_def split: option.splits)
  then show ?thesis by simp
next
  case True
  then obtain p where p: "pn = Some p" "p = ''CREATE_XR_OUTPUT'' \<or> p = ''DELETE_XR_OUTPUT''"
    "ptype v = XA_STRING" "pformat v = 8" "strndup_ok env"
    by blast
  show ?thesis
  proof (cases "p = ''CREATE_XR_OUTPUT''")
    case False
    with p have "drmmode_xr_manager_set_property env pn v s
        = drmmode_xr_delete_virtual_output (c_string (pbytes v)) s"
      by (simp add: drmmode_xr_manager_set_property_def)
    then show ?thesis by blast
  next
    case True
    obtain n w h r where pc: "parse_create_command (c_string (pbytes v)) = (n, w, h, r)"
      by (metis prod_cases4)
    show ?thesis
    proof (cases "n = []")
      case True
      with p pc \<open>p = ''CREATE_XR_OUTPUT''\<close>
      have "drmmode_xr_manager_set_property env pn v s = (False, s)"
        by (simp add: drmmode_xr_manager_set_property_def)
      then show ?thesis by simp
    next
      case False
      with p pc \<open>p = ''CREATE_XR_OUTPUT''\<close>
      have "snd (drmmode_xr_manager_set_property env pn v s)
          = snd (drmmode_xr_create_virtual_output (manager_create_env env) n w h r s)"
        by (simp add: drmmode_xr_manager_set_property_def split: prod.splits option.splits)
      then show ?thesis by blast
    qed
  qed
qed

lemma reachable_registry:
  "reachable s \<Longrightarrow> registry_ok s \<and> distinct (registered_names s)"
proof (induction rule: reachable.induct)
  case (r_init scr root)
  show ?case
    by (simp add: initial_state_def registry_ok_def registered_names_def List.map_filter_def)
next
  case (r_manager s env pn v)
  from manager_cases [of env pn v s] show ?case
    using r_manager.IH create_keeps_registry delete_keeps_registry
    by (elim disjE exE) (simp_all; metis)+
next
  case (r_create s cenv n w h r)
  then show ?case using create_keeps_registry by blast
next
  case (r_delete s n)
  then show ?case using delete_keeps_registry by blast
next
  case (r_property s renv out pn v)
  then show ?case
    using registry_ok_same_links [OF _ set_property_same_links]
      registered_names_same_links [OF set_property_same_links] by metis
next
  case (r_mode_set s fenv c mode rot x y)
  then show ?case
    using registry_ok_same_links [OF _ set_mode_major_same_links]
      registered_names_same_links [OF set_mode_major_same_links] by metis
next
  case (r_dpms s c m)
  then show ?case
    using registry_ok_same_links [OF _ dpms_same_links]
      registered_names_same_links [OF dpms_same_links] by metis
qed

subsection \<open>The example state\<close>

text \<open>
  The example state is the state after the first create.
\<close>

lemma example_state_created:
  "drmmode_xr_create_virtual_output example_create_env ''XR-0'' 1920 1080 60 (initial_state True True)
     = (Some 0, example_state)"
  by (simp add:
      emit_def output_upd_def crtc_upd_def rr_upd_def remove_nth_def zero_bo_def
      drmmode_xr_find_virtual_output_def drmmode_xr_find_virtual_output_by_crtc_def
      RRQueryOutputProperty_def RRConfigureOutputProperty_def RRChangeOutputProperty_def
      RROutputDestroy_def xf86CrtcDestroy_def drmmode_xr_virtual_ensure_fb_id_property_def
      published_fb_id_def drmmode_xr_virtual_output_destroy_def xf86OutputDestroy_def
      drmmode_xr_destroy_offscreen_framebuffer_def delete_framebuffer_def delete_crtc_def
      delete_randr_output_def delete_xf86_output_def delete_free_record_def
      drmmode_xr_delete_virtual_output_def drmmode_bo_destroy_def fb_create_bo_def fb_fail_def
      fb_dumb_pixmap_def fb_create_pixmap_def drmmode_xr_create_offscreen_framebuffer_def
      DPMSModeOn_def DPMSModeStandby_def RR_Rotate_0_def new_crtc_def
      drmmode_xr_create_virtual_crtc_def drmmode_xr_virtual_crtc_dpms_def xr_common_modes_def
      drmmode_xr_virtual_set_modes_def configure_and_change_def change_only_def
      create_publish_def create_randr_crtc_def create_record_def
      drmmode_xr_create_virtual_output_def initial_state_def
      example_create_env_def example_fb_env_def example_props_def
      example_mode_get_def example_state_def example_vout_def example_rr_output_def
      Let_def List.map_filter_def fun_eq_iff
      cong: let_weak_cong prod.case_cong_weak)

lemma reachable_example_state: "reachable example_state"
proof -
  have "reachable (snd (drmmode_xr_create_virtual_output example_create_env ''XR-0'' 1920 1080 60
      (initial_state True True)))"
    by (rule r_create [OF r_init])
  then show ?thesis by (simp add: example_state_created)
qed

lemma example_state_sel:
  "xr_virtual_outputs example_state = [example_vout]"
  "next_ptr example_state = 7"
  "pScreen example_state" "pScreen_root example_state"
  by (simp_all add: example_state_def)

lemma example_vout_sel:
  "output_ptr example_vout = Some 1" "crtc example_vout = Some 3"
  "randr_output example_vout = Some 2" "name example_vout = Some ''XR-0''"
  "width example_vout = 1920" "height example_vout = 1080" "refresh example_vout = 60"
  "modes example_vout = []" "framebuffer_id example_vout = 42" "pixmap example_vout = Some 6"
  by (simp_all add: example_vout_def)

lemma example_published: "published_fb_id example_state 2 = Some 42"
  by (simp add: published_fb_id_def example_state_def example_rr_output_def)

lemma example_registered: "registered_names example_state = [''XR-0'']"
  by (simp add: registered_names_def List.map_filter_def example_state_sel example_vout_sel)

lemma published_fb_id_cong:
  "fb_prop s' = fb_prop s \<Longrightarrow> published_fb_id s' q = published_fb_id s q"
  by (simp add: published_fb_id_fb_prop)

lemma example_no_memory: "\<not> framebuffer_can_be_built example_fb_env_no_memory"
  by (simp add: framebuffer_can_be_built_def example_fb_env_no_memory_def example_fb_env_def)

lemma example_destroy_events:
  "snd (drmmode_xr_destroy_offscreen_framebuffer example_state example_vout)
     = [E_DestroyPixmap 6, E_drmModeRmFB 42, E_drmmode_bo_destroy]"
  by (simp add: drmmode_xr_destroy_offscreen_framebuffer_def example_state_def example_vout_def
      Let_def drmmode_bo_destroy_def split: option.splits)

lemma initial_state_sel:
  "xr_virtual_outputs (initial_state a b) = []" "next_ptr (initial_state a b) = 1"
  "trace (initial_state a b) = []"
  by (simp_all add: initial_state_def)

lemma initial_find: "drmmode_xr_find_virtual_output (initial_state a b) n = None"
  by (simp add: drmmode_xr_find_virtual_output_def initial_state_sel)

lemma example_objects: "objects_can_be_built example_create_env"
  "objects_can_be_built (example_create_env\<lparr>create_fb_env := example_fb_env_no_memory\<rparr>)"
  by (simp_all add: objects_can_be_built_def example_create_env_def)

lemma example_framebuffer: "framebuffer_can_be_built example_fb_env"
  by (simp add: framebuffer_can_be_built_def example_fb_env_def dumb_pixmap_can_be_built_def)

subsection \<open>Create and the framebuffer\<close>

text \<open>
  Against claim C1 as it is worded: with a host that builds every object but has no
  memory for the buffer (\<^verbatim>\<open>dumb_bo_create\<close> fails), the first create still returns
  the record and links it. The record in the list has no pixmap and no buffer object,
  and its RandR output publishes no framebuffer identifier. The code says so at lines
  631 to 637: the failure is logged and create goes on.
\<close>

theorem create_keeps_record_without_framebuffer:
  "\<exists>v s'. drmmode_xr_create_virtual_output
             (example_create_env\<lparr>create_fb_env := example_fb_env_no_memory\<rparr>)
             ''XR-0'' 1920 1080 60 (initial_state True True) = (Some 0, s') \<and>
          \<not> framebuffer_can_be_built example_fb_env_no_memory \<and>
          xr_virtual_outputs s' = [v] \<and> name v = Some ''XR-0'' \<and> randr_output v = Some 2 \<and>
          pixmap v = None \<and> dumb (framebuffer_bo v) = None \<and> gbm (framebuffer_bo v) = None \<and>
          published_fb_id s' 2 = None"
proof -
  let ?env = "example_create_env\<lparr>create_fb_env := example_fb_env_no_memory\<rparr>"
  from create_success [OF initial_find [of True True "''XR-0''"] example_objects(2), of 1920 1080 60]
  obtain v s' where
    "drmmode_xr_create_virtual_output ?env ''XR-0'' 1920 1080 60 (initial_state True True) = (Some 0, s')"
    "xr_virtual_outputs s' = v # xr_virtual_outputs (initial_state True True)"
    "randr_output v = Some (Suc (next_ptr (initial_state True True)))"
    "name v = (if strdup_ok ?env then Some ''XR-0'' else None)"
    "\<not> framebuffer_can_be_built (create_fb_env ?env) \<longrightarrow>
        pixmap v = None \<and> dumb (framebuffer_bo v) = None \<and> gbm (framebuffer_bo v) = None \<and>
        published_fb_id s' (Suc (next_ptr (initial_state True True))) = None"
    by blast
  then show ?thesis
    using example_no_memory
    by (intro exI [of _ v] exI [of _ s'])
      (simp add: initial_state_sel example_create_env_def numeral_2_eq_2)
qed

text \<open>
  Claim C1, amended. In a state the driver reaches and for a name that is not
  registered, create adds a record exactly when the host builds the objects that come
  before the record (the output, its private block, the RandR output, the CRTC, its
  private block, the record itself). When one of them fails, create returns
  \<^verbatim>\<open>NULL\<close> and the list is the list before. When they are built, the record is
  the new head of the list, whether or not the framebuffer can be built: with a
  framebuffer the record has a pixmap, a buffer of the requested size and the
  identifier the kernel gave, which its RandR output publishes when the property calls
  succeed; without one the record has no pixmap and no buffer object, and nothing is
  published.
\<close>

theorem create_adds_record_once_objects_built:
  assumes reach: "reachable s" and free: "drmmode_xr_find_virtual_output s n = None"
  shows "\<exists>res s'. drmmode_xr_create_virtual_output env n w h r s = (res, s') \<and>
     (\<not> objects_can_be_built env \<longrightarrow> res = None \<and> xr_virtual_outputs s' = xr_virtual_outputs s) \<and>
     (objects_can_be_built env \<longrightarrow>
        res = Some 0 \<and>
        (\<exists>v rr. xr_virtual_outputs s' = v # xr_virtual_outputs s \<and>
           width v = w \<and> height v = h \<and> refresh v = r \<and> randr_output v = Some rr \<and>
           (framebuffer_can_be_built (create_fb_env env) \<longrightarrow>
              pixmap v \<noteq> None \<and>
              drmmode_bo_import_id (create_fb_env env) = Some (framebuffer_id v) \<and>
              bo_width (framebuffer_bo v) = word_of_int w \<and>
              bo_height (framebuffer_bo v) = word_of_int h \<and>
              (props_ok (fb_prop_env (create_fb_env env))
                 \<longrightarrow> published_fb_id s' rr = Some (framebuffer_id v))) \<and>
           (\<not> framebuffer_can_be_built (create_fb_env env) \<longrightarrow>
              pixmap v = None \<and> dumb (framebuffer_bo v) = None \<and> gbm (framebuffer_bo v) = None \<and>
              published_fb_id s' rr = None)))"
proof (cases "objects_can_be_built env")
  case True
  from create_success [OF free True, of w h r] obtain v s' where
    run: "drmmode_xr_create_virtual_output env n w h r s = (Some 0, s')"
    and R: "xr_virtual_outputs s' = v # xr_virtual_outputs s"
    and v: "randr_output v = Some (Suc (next_ptr s))" "width v = w" "height v = h" "refresh v = r"
    and good: "framebuffer_can_be_built (create_fb_env env) \<longrightarrow>
        pixmap v \<noteq> None \<and> drmmode_bo_import_id (create_fb_env env) = Some (framebuffer_id v) \<and>
        bo_width (framebuffer_bo v) = word_of_int w \<and> bo_height (framebuffer_bo v) = word_of_int h \<and>
        (props_ok (fb_prop_env (create_fb_env env))
           \<longrightarrow> published_fb_id s' (Suc (next_ptr s)) = Some (framebuffer_id v))"
    and bad: "\<not> framebuffer_can_be_built (create_fb_env env) \<longrightarrow>
        pixmap v = None \<and> dumb (framebuffer_bo v) = None \<and> gbm (framebuffer_bo v) = None \<and>
        published_fb_id s' (Suc (next_ptr s)) = None"
    by blast
  have "\<exists>v rr. xr_virtual_outputs s' = v # xr_virtual_outputs s \<and>
           width v = w \<and> height v = h \<and> refresh v = r \<and> randr_output v = Some rr \<and>
           (framebuffer_can_be_built (create_fb_env env) \<longrightarrow>
              pixmap v \<noteq> None \<and>
              drmmode_bo_import_id (create_fb_env env) = Some (framebuffer_id v) \<and>
              bo_width (framebuffer_bo v) = word_of_int w \<and>
              bo_height (framebuffer_bo v) = word_of_int h \<and>
              (props_ok (fb_prop_env (create_fb_env env))
                 \<longrightarrow> published_fb_id s' rr = Some (framebuffer_id v))) \<and>
           (\<not> framebuffer_can_be_built (create_fb_env env) \<longrightarrow>
              pixmap v = None \<and> dumb (framebuffer_bo v) = None \<and> gbm (framebuffer_bo v) = None \<and>
              published_fb_id s' rr = None)"
    by (rule exI [of _ v], rule exI [of _ "Suc (next_ptr s)"]) (use R v good bad in simp)
  with run True show ?thesis by simp
next
  case False
  from reachable_registry [OF reach] have ok: "registry_ok s" by simp
  have fresh: "\<forall>v \<in> set (xr_virtual_outputs s). output_ptr v \<noteq> Some (next_ptr s)"
    using registry_ok_fresh [OF ok] by blast
  from False have "drmmode_xr_find_virtual_output s n \<noteq> None \<or> \<not> objects_can_be_built env"
    by simp
  from create_failure [OF this fresh, of w h r] obtain s' where
    "drmmode_xr_create_virtual_output env n w h r s = (None, s')"
    "xr_virtual_outputs s' = xr_virtual_outputs s"
    by blast
  with False show ?thesis by simp
qed

theorem create_adds_record_once_objects_built_witness:
  "\<exists>v s'. drmmode_xr_create_virtual_output example_create_env ''XR-1'' 2560 1440 90 example_state
            = (Some 0, s') \<and>
     xr_virtual_outputs s' = [v, example_vout] \<and>
     width v = 2560 \<and> height v = 1440 \<and> refresh v = 90 \<and>
     pixmap v \<noteq> None \<and> framebuffer_id v = 42 \<and> bo_width (framebuffer_bo v) = 2560 \<and>
     bo_height (framebuffer_bo v) = 1440 \<and>
     (\<exists>rr. randr_output v = Some rr \<and> published_fb_id s' rr = Some 42)"
proof -
  have free: "drmmode_xr_find_virtual_output example_state ''XR-1'' = None"
    by (simp add: find_None_not_registered example_registered)
  have e: "create_fb_env example_create_env = example_fb_env"
    "drmmode_bo_import_id example_fb_env = Some 42" "fb_prop_env example_fb_env = example_props"
    "props_ok example_props"
    by (simp_all add: example_create_env_def example_fb_env_def props_ok_def example_props_def)
  from create_adds_record_once_objects_built [OF reachable_example_state free,
      of example_create_env 2560 1440 90]
  obtain v s' rr where
    "drmmode_xr_create_virtual_output example_create_env ''XR-1'' 2560 1440 90 example_state
            = (Some 0, s')"
    "xr_virtual_outputs s' = v # xr_virtual_outputs example_state"
    "width v = 2560" "height v = 1440" "refresh v = 90" "randr_output v = Some rr"
    "pixmap v \<noteq> None" "Some 42 = Some (framebuffer_id v)"
    "bo_width (framebuffer_bo v) = word_of_int 2560" "bo_height (framebuffer_bo v) = word_of_int 1440"
    "published_fb_id s' rr = Some (framebuffer_id v)"
    using example_objects(1) example_framebuffer e by auto
  then show ?thesis
    by (intro exI [of _ v] exI [of _ s']) (auto simp: example_state_sel)
qed

subsection \<open>Resize to another size\<close>

text \<open>
  Against claim C2 as it is worded: resizing the example output from 1920x1080 to
  3840x2160 succeeds and stores the new size, and the identifier published after the
  resize is 42, the identifier published before; the record keeps framebuffer 42 and
  its buffer of 1920x1080. \<open>drmmode_xr_resize_virtual_output\<close> (lines 742 to 788)
  never touches the buffer.
\<close>

theorem resize_keeps_published_identifier:
  "\<exists>s'. drmmode_xr_resize_virtual_output example_resize_env (Some 0) 3840 2160 60 example_state
          = (True, s') \<and>
        width (xr_virtual_outputs example_state ! 0) = 1920 \<and>
        height (xr_virtual_outputs example_state ! 0) = 1080 \<and>
        width (xr_virtual_outputs s' ! 0) = 3840 \<and> height (xr_virtual_outputs s' ! 0) = 2160 \<and>
        published_fb_id example_state 2 = Some 42 \<and> published_fb_id s' 2 = Some 42 \<and>
        framebuffer_id (xr_virtual_outputs s' ! 0) = 42 \<and>
        bo_width (framebuffer_bo (xr_virtual_outputs s' ! 0)) = 1920 \<and>
        bo_height (framebuffer_bo (xr_virtual_outputs s' ! 0)) = 1080"
proof -
  have "\<exists>s'. drmmode_xr_resize_virtual_output example_resize_env (Some 0) 3840 2160 60 example_state
          = (True, s') \<and>
     xr_virtual_outputs s' = (xr_virtual_outputs example_state)
       [0 := (xr_virtual_outputs example_state ! 0)\<lparr>width := 3840, height := 2160, refresh := 60\<rparr>] \<and>
     outputs s' = outputs example_state \<and> crtcs s' = crtcs example_state \<and>
     next_ptr s' = next_ptr example_state \<and> fb_prop s' = fb_prop example_state \<and>
     (\<exists>es. trace s' = trace example_state @ es \<and>
        set es \<subseteq> range E_RROutputSetModes \<union> {E_RROutputChanged 2, E_RRTellChanged})"
    by (rule resize_spec) (simp_all add: example_state_sel example_vout_sel)
  then obtain s' where
    "drmmode_xr_resize_virtual_output example_resize_env (Some 0) 3840 2160 60 example_state = (True, s')"
    "xr_virtual_outputs s' = [example_vout\<lparr>width := 3840, height := 2160, refresh := 60\<rparr>]"
    "fb_prop s' = fb_prop example_state"
    by (auto simp: example_state_sel)
  then show ?thesis
    using published_fb_id_cong [of s' example_state 2]
    by (intro exI [of _ s']) (simp add: example_published example_state_sel example_vout_def)
qed

text \<open>
  Claim C2, amended. In a state the driver reaches, writing a width or a height
  inside the bounds to the \<^verbatim>\<open>XR_WIDTH\<close> or \<^verbatim>\<open>XR_HEIGHT\<close> property of a registered
  output (the other stored values being inside the bounds too) succeeds and stores the
  new size in the record. The record's framebuffer identifier, buffer object and
  pixmap are the ones before, every RandR output publishes the identifier it published
  before, and the only calls made set the mode list and announce the change.
\<close>

theorem property_resize_keeps_framebuffer:
  assumes reach: "reachable s"
    and reg: "first_index (\<lambda>vout. output_ptr vout = Some out) (xr_virtual_outputs s) = Some i"
    and pn: "pn = ''XR_WIDTH'' \<or> pn = ''XR_HEIGHT''"
    and w': "w' = (if pn = ''XR_WIDTH'' then sint x else width (xr_virtual_outputs s ! i))"
    and h': "h' = (if pn = ''XR_HEIGHT'' then sint x else height (xr_virtual_outputs s ! i))"
    and bounds: "64 \<le> w'" "w' \<le> 16384" "64 \<le> h'" "h' \<le> 16384"
      "1 \<le> refresh (xr_virtual_outputs s ! i)" "refresh (xr_virtual_outputs s ! i) \<le> 1000"
  shows "\<exists>s' rr. drmmode_xr_virtual_set_property env out (Some pn)
                 \<lparr>ptype = XA_INTEGER, pdata = Data32 [x]\<rparr> s = (True, s') \<and>
     xr_virtual_outputs s' =
       (xr_virtual_outputs s)[i := (xr_virtual_outputs s ! i)\<lparr>width := w', height := h'\<rparr>] \<and>
     framebuffer_id (xr_virtual_outputs s' ! i) = framebuffer_id (xr_virtual_outputs s ! i) \<and>
     framebuffer_bo (xr_virtual_outputs s' ! i) = framebuffer_bo (xr_virtual_outputs s ! i) \<and>
     pixmap (xr_virtual_outputs s' ! i) = pixmap (xr_virtual_outputs s ! i) \<and>
     published_fb_id s' = published_fb_id s \<and>
     randr_output (xr_virtual_outputs s ! i) = Some rr \<and>
     set (new_events s s') \<subseteq> range E_RROutputSetModes \<union> {E_RROutputChanged rr, E_RRTellChanged}"
proof -
  let ?v = "xr_virtual_outputs s ! i"
  from first_index_Some_D [OF reg] have i: "i < length (xr_virtual_outputs s)"
    and out: "output_ptr ?v = Some out"
    by simp_all
  from i have mem: "?v \<in> set (xr_virtual_outputs s)" by simp
  from reachable_registry [OF reach] have ok: "registry_ok s" by simp
  from registry_ok_D(2) [OF ok mem] obtain rr where rr: "randr_output ?v = Some rr" by auto
  have call: "drmmode_xr_virtual_set_property env out (Some pn)
        \<lparr>ptype = XA_INTEGER, pdata = Data32 [x]\<rparr> s
      = drmmode_xr_resize_virtual_output env (Some i) w' h' (refresh ?v) s"
    using reg pn bounds w' h'
    by (auto simp: drmmode_xr_virtual_set_property_def pformat_def psize_def pint32_def Let_def)
  from resize_spec [OF i out rr, of env w' h' "refresh ?v"] obtain s' es where
    run: "drmmode_xr_resize_virtual_output env (Some i) w' h' (refresh ?v) s = (True, s')"
    and R: "xr_virtual_outputs s' =
       (xr_virtual_outputs s)[i := ?v\<lparr>width := w', height := h', refresh := refresh ?v\<rparr>]"
    and fp: "fb_prop s' = fb_prop s"
    and t: "trace s' = trace s @ es"
      "set es \<subseteq> range E_RROutputSetModes \<union> {E_RROutputChanged rr, E_RRTellChanged}"
    by blast
  have v: "?v\<lparr>width := w', height := h', refresh := refresh ?v\<rparr> = ?v\<lparr>width := w', height := h'\<rparr>"
    by simp
  have ne: "new_events s s' = es" by (rule new_events_append [OF t(1)])
  have pub: "published_fb_id s' = published_fb_id s"
    using published_fb_id_cong [OF fp] by (simp add: fun_eq_iff)
  show ?thesis
  proof (intro exI conjI)
    show "drmmode_xr_virtual_set_property env out (Some pn)
        \<lparr>ptype = XA_INTEGER, pdata = Data32 [x]\<rparr> s = (True, s')"
      using call run by simp
    show "xr_virtual_outputs s' = (xr_virtual_outputs s)[i := ?v\<lparr>width := w', height := h'\<rparr>]"
      using R by (simp only: v)
    show "framebuffer_id (xr_virtual_outputs s' ! i) = framebuffer_id ?v"
      "framebuffer_bo (xr_virtual_outputs s' ! i) = framebuffer_bo ?v"
      "pixmap (xr_virtual_outputs s' ! i) = pixmap ?v"
      using R i by simp_all
    show "published_fb_id s' = published_fb_id s" by (rule pub)
    show "randr_output ?v = Some rr" by (rule rr)
    show "set (new_events s s') \<subseteq> range E_RROutputSetModes \<union> {E_RROutputChanged rr, E_RRTellChanged}"
      using t(2) ne by simp
  qed
qed

theorem property_resize_keeps_framebuffer_witness:
  "\<exists>s'. drmmode_xr_virtual_set_property example_resize_env 1 (Some ''XR_WIDTH'')
           \<lparr>ptype = XA_INTEGER, pdata = Data32 [3840]\<rparr> example_state = (True, s') \<and>
        xr_virtual_outputs s' = [example_vout\<lparr>width := 3840\<rparr>] \<and>
        published_fb_id s' 2 = Some 42"
proof -
  have f: "first_index (\<lambda>vout. output_ptr vout = Some 1) (xr_virtual_outputs example_state) = Some 0"
    by (simp add: example_state_sel example_vout_sel)
  have x: "sint (3840 :: 32 word) = 3840" by simp
  from property_resize_keeps_framebuffer [OF reachable_example_state f, of "''XR_WIDTH''" 3840
      "3840 :: 32 word" 1080 example_resize_env]
  obtain s' where
    "drmmode_xr_virtual_set_property example_resize_env 1 (Some ''XR_WIDTH'')
           \<lparr>ptype = XA_INTEGER, pdata = Data32 [3840]\<rparr> example_state = (True, s')"
    "xr_virtual_outputs s' = (xr_virtual_outputs example_state)
        [0 := (xr_virtual_outputs example_state ! 0)\<lparr>width := 3840, height := 1080\<rparr>]"
    "published_fb_id s' = published_fb_id example_state"
    by (auto simp: example_state_sel example_vout_sel x)
  then show ?thesis
    by (intro exI [of _ s']) (simp add: example_published example_state_sel example_vout_def)
qed

subsection \<open>Create and the bounds\<close>

lemma parse_example: "parse_create_command ''XR-0:10:10:5000'' = (''XR-0'', 10, 10, 5000)"
  by (simp add: parse_create_command_def strtol_def strtol_digits_def isspace_def isdigit_def
      digit_val_def LONG_MAX_def LONG_MIN_def int_of_long_def Let_def)

text \<open>
  Claim C3. The create path does not check the bounds. The command
  \<^verbatim>\<open>XR-0:10:10:5000\<close>, written to \<^verbatim>\<open>CREATE_XR_OUTPUT\<close> in the initial state,
  succeeds and registers an output of width 10, height 10 and refresh 5000, all three
  outside the bounds; the property handler of an output (lines 969 to 971) does
  refuse these values.
\<close>

theorem create_accepts_out_of_bounds_size:
  "\<exists>v s'. drmmode_xr_manager_set_property example_manager_env (Some ''CREATE_XR_OUTPUT'')
              \<lparr>ptype = XA_STRING, pdata = Data8 ''XR-0:10:10:5000''\<rparr> (initial_state True True)
            = (True, s') \<and>
     xr_virtual_outputs s' = [v] \<and> name v = Some ''XR-0'' \<and>
     width v = 10 \<and> height v = 10 \<and> refresh v = 5000"
proof -
  from create_success [OF initial_find [of True True "''XR-0''"] example_objects(1), of 10 10 5000]
  obtain v s' where
    run: "drmmode_xr_create_virtual_output example_create_env ''XR-0'' 10 10 5000 (initial_state True True)
        = (Some 0, s')"
    and v: "xr_virtual_outputs s' = v # xr_virtual_outputs (initial_state True True)"
      "name v = (if strdup_ok example_create_env then Some ''XR-0'' else None)"
      "width v = 10" "height v = 10" "refresh v = 5000"
    by blast
  have "drmmode_xr_manager_set_property example_manager_env (Some ''CREATE_XR_OUTPUT'')
              \<lparr>ptype = XA_STRING, pdata = Data8 ''XR-0:10:10:5000''\<rparr> (initial_state True True)
            = (True, s')"
    using run parse_example
    by (simp add: drmmode_xr_manager_set_property_def pformat_def pbytes_def c_string_def
        example_manager_env_def)
  with v show ?thesis
    by (intro exI [of _ v] exI [of _ s']) (simp add: initial_state_sel example_create_env_def)
qed

theorem create_accepts_out_of_bounds_size_witness:
  "fst (drmmode_xr_manager_set_property example_manager_env (Some ''CREATE_XR_OUTPUT'')
          \<lparr>ptype = XA_STRING, pdata = Data8 ''XR-0:10:10:5000''\<rparr> (initial_state True True)) \<and>
   map width (xr_virtual_outputs (snd (drmmode_xr_manager_set_property example_manager_env
          (Some ''CREATE_XR_OUTPUT'')
          \<lparr>ptype = XA_STRING, pdata = Data8 ''XR-0:10:10:5000''\<rparr> (initial_state True True)))) = [10]"
  using create_accepts_out_of_bounds_size by auto

subsection \<open>Reads and the inactivity timer\<close>

lemma timer_run:
  "list_all is_timer es \<Longrightarrow>
   last_access_time (power_run p es) = last_access_time p \<and>
   power (power_run p es) =
     (if \<exists>t. Timer t \<in> set es \<and> last_access_time p + INACTIVITY_THRESHOLD \<le> t
      then Standby else power p)"
proof (induction es arbitrary: p)
  case Nil
  then show ?case by (simp add: power_run_def)
next
  case (Cons e es)
  then obtain t where e: "e = Timer t" by (cases e) auto
  from Cons.prems have "list_all is_timer es" by simp
  note IH = Cons.IH [OF this, of "inactivity_timer_callback t p"]
  have r: "power_run p (e # es) = power_run (inactivity_timer_callback t p) es"
    by (simp add: power_run_def e)
  have l: "last_access_time (inactivity_timer_callback t p) = last_access_time p"
    by (simp add: inactivity_timer_callback_def)
  have pw: "power (inactivity_timer_callback t p)
      = (if last_access_time p + INACTIVITY_THRESHOLD \<le> t then Standby else power p)"
    by (simp add: inactivity_timer_callback_def)
  from IH have la: "last_access_time (power_run p (e # es)) = last_access_time p"
    and po: "power (power_run p (e # es)) =
      (if \<exists>u. Timer u \<in> set es \<and> last_access_time p + INACTIVITY_THRESHOLD \<le> u
       then Standby
       else if last_access_time p + INACTIVITY_THRESHOLD \<le> t then Standby else power p)"
    unfolding r l pw by simp_all
  have ex: "(\<exists>u. Timer u \<in> set (e # es) \<and> last_access_time p + INACTIVITY_THRESHOLD \<le> u)
      \<longleftrightarrow> last_access_time p + INACTIVITY_THRESHOLD \<le> t \<or>
        (\<exists>u. Timer u \<in> set es \<and> last_access_time p + INACTIVITY_THRESHOLD \<le> u)"
    unfolding e by auto
  show ?case
    unfolding ex by (auto simp: la po)
qed

text \<open>
  Claim C4, for the controller as the specification words it. A read of the
  framebuffer identifier sets the time stamp to the time of the read and leaves the
  output Active, whatever it was before. The timer makes the output Standby when the
  time stamp is 5 or more time units old and changes nothing when it is younger. So
  after a read at time \<open>now\<close>, followed by runs of the timer only, the output is
  Standby exactly when the timer ran at a time \<open>now + 5\<close> or later.
\<close>

theorem read_activates_and_timer_suspends:
  "power (framebuffer_id_read now p) = Active \<and>
   last_access_time (framebuffer_id_read now p) = now \<and>
   (last_access_time p + 5 \<le> t \<longrightarrow> power (inactivity_timer_callback t p) = Standby) \<and>
   (t < last_access_time p + 5 \<longrightarrow> inactivity_timer_callback t p = p) \<and>
   (list_all is_timer es \<longrightarrow>
      power (power_run (framebuffer_id_read now p) es) =
        (if \<exists>t. Timer t \<in> set es \<and> now + 5 \<le> t then Standby else Active))"
proof -
  have a: "power (framebuffer_id_read now p) = Active"
    by (cases "power p") (simp_all add: framebuffer_id_read_def)
  have b: "last_access_time (framebuffer_id_read now p) = now"
    by (simp add: framebuffer_id_read_def)
  have c: "list_all is_timer es \<longrightarrow>
      power (power_run (framebuffer_id_read now p) es) =
        (if \<exists>t. Timer t \<in> set es \<and> now + 5 \<le> t then Standby else Active)"
  proof
    assume t: "list_all is_timer es"
    from timer_run [OF t, of "framebuffer_id_read now p"]
    have "power (power_run (framebuffer_id_read now p) es) =
       (if \<exists>t. Timer t \<in> set es \<and>
              last_access_time (framebuffer_id_read now p) + INACTIVITY_THRESHOLD \<le> t
        then Standby else power (framebuffer_id_read now p))"
      by (rule conjunct2)
    then show "power (power_run (framebuffer_id_read now p) es) =
        (if \<exists>t. Timer t \<in> set es \<and> now + 5 \<le> t then Standby else Active)"
      unfolding a b INACTIVITY_THRESHOLD_def .
  qed
  have d: "last_access_time p + 5 \<le> t \<longrightarrow> power (inactivity_timer_callback t p) = Standby"
    "t < last_access_time p + 5 \<longrightarrow> inactivity_timer_callback t p = p"
    by (simp_all add: inactivity_timer_callback_def INACTIVITY_THRESHOLD_def)
  from a b c d show ?thesis by blast
qed

theorem read_activates_and_timer_suspends_witness:
  "power (framebuffer_id_read 10 \<lparr>power = Standby, last_access_time = 2\<rparr>) = Active \<and>
   last_access_time (framebuffer_id_read 10 \<lparr>power = Standby, last_access_time = 2\<rparr>) = 10 \<and>
   power (inactivity_timer_callback 7 \<lparr>power = Active, last_access_time = 2\<rparr>) = Standby \<and>
   inactivity_timer_callback 6 \<lparr>power = Active, last_access_time = 2\<rparr>
     = \<lparr>power = Active, last_access_time = 2\<rparr> \<and>
   power (power_run (framebuffer_id_read 10 \<lparr>power = Standby, last_access_time = 2\<rparr>)
            [Timer 12, Timer 14]) = Active \<and>
   power (power_run (framebuffer_id_read 10 \<lparr>power = Standby, last_access_time = 2\<rparr>)
            [Timer 12, Timer 14, Timer 16]) = Standby"
proof -
  let ?p = "\<lparr>power = Standby, last_access_time = 2\<rparr>"
  let ?q = "\<lparr>power = Active, last_access_time = 2\<rparr>"
  have e1: "\<not> (\<exists>t. Timer t \<in> set [Timer 12, Timer 14] \<and> (10::nat) + 5 \<le> t)" by auto
  have e2: "\<exists>t. Timer t \<in> set [Timer 12, Timer 14, Timer 16] \<and> (10::nat) + 5 \<le> t"
    by (rule exI [of _ 16]) simp
  have t1: "list_all is_timer [Timer 12, Timer 14]"
    and t2: "list_all is_timer [Timer 12, Timer 14, Timer 16]" by simp_all
  note T = read_activates_and_timer_suspends [of 10 ?p 7]
  have A: "power (framebuffer_id_read 10 ?p) = Active"
    "last_access_time (framebuffer_id_read 10 ?p) = 10"
    using T [of "[]"] by blast+
  have "power (power_run (framebuffer_id_read 10 ?p) [Timer 12, Timer 14]) =
      (if \<exists>t. Timer t \<in> set [Timer 12, Timer 14] \<and> (10::nat) + 5 \<le> t then Standby else Active)"
    using T [of "[Timer 12, Timer 14]"] t1 by blast
  then have A3: "power (power_run (framebuffer_id_read 10 ?p) [Timer 12, Timer 14]) = Active"
    by (simp only: e1 if_False)
  have "power (power_run (framebuffer_id_read 10 ?p) [Timer 12, Timer 14, Timer 16]) =
      (if \<exists>t. Timer t \<in> set [Timer 12, Timer 14, Timer 16] \<and> (10::nat) + 5 \<le> t
       then Standby else Active)"
    using T [of "[Timer 12, Timer 14, Timer 16]"] t2 by blast
  then have B: "power (power_run (framebuffer_id_read 10 ?p) [Timer 12, Timer 14, Timer 16]) = Standby"
    by (simp only: e2 if_True)
  have "last_access_time ?q + 5 \<le> (7::nat)" by simp
  with read_activates_and_timer_suspends [of 10 ?q 7 "[]"]
  have C: "power (inactivity_timer_callback 7 ?q) = Standby" by blast
  have "(6::nat) < last_access_time ?q + 5" by simp
  with read_activates_and_timer_suspends [of 10 ?q 6 "[]"]
  have D: "inactivity_timer_callback 6 ?q = ?q" by blast
  from A A3 B C D show ?thesis by simp
qed

subsection \<open>Resize to the same size\<close>

lemma resize_events:
  assumes i: "i < length (xr_virtual_outputs s)"
    and out: "output_ptr (xr_virtual_outputs s ! i) = Some out"
    and rr: "randr_output (xr_virtual_outputs s ! i) = Some rr"
  shows "new_events s (snd (drmmode_xr_resize_virtual_output env (Some i) w h r s)) =
     new_events s (drmmode_xr_virtual_set_modes (resize_mode_get env) out w h r
        (s\<lparr>xr_virtual_outputs := (xr_virtual_outputs s)
              [i := (xr_virtual_outputs s ! i)\<lparr>width := w, height := h, refresh := r\<rparr>]\<rparr>))
     @ [E_RROutputChanged rr, E_RRTellChanged]"
proof -
  define s1 where "s1 = s\<lparr>xr_virtual_outputs :=
      (xr_virtual_outputs s)[i := (xr_virtual_outputs s ! i)\<lparr>width := w, height := h, refresh := r\<rparr>]\<rparr>"
  define s2 where "s2 = drmmode_xr_virtual_set_modes (resize_mode_get env) out w h r s1"
  define s5 where "s5 = change_only (resize_prop_env env) rr ''XR_REFRESH'' (PV_int r)
      (change_only (resize_prop_env env) rr ''XR_HEIGHT'' (PV_int h)
        (change_only (resize_prop_env env) rr ''XR_WIDTH'' (PV_int w) s2))"
  have run: "drmmode_xr_resize_virtual_output env (Some i) w h r s
      = (True, emit [E_RROutputChanged rr, E_RRTellChanged] s5)"
    using i out rr
    by (simp add: drmmode_xr_resize_virtual_output_def Let_def s1_def s2_def s5_def)
  obtain es where es: "trace s2 = trace s1 @ es"
    unfolding s2_def using set_modes_trace by blast
  have t1: "trace s1 = trace s" by (simp add: s1_def)
  have "new_events s (emit [E_RROutputChanged rr, E_RRTellChanged] s5)
      = es @ [E_RROutputChanged rr, E_RRTellChanged]"
    by (simp add: new_events_def s5_def es t1)
  moreover have "new_events s s2 = es"
    by (simp add: new_events_def es t1)
  ultimately show ?thesis
    by (simp add: run s2_def s1_def)
qed

lemma example_set_modes_events:
  "new_events example_state (drmmode_xr_virtual_set_modes example_mode_get (Suc 0) w h r
      (example_state\<lparr>xr_virtual_outputs := [v]\<rparr>)) = [E_RROutputSetModes 2]"
  by (simp add: new_events_def drmmode_xr_virtual_set_modes_def example_state_def Let_def
      xr_common_modes_def example_mode_get_def List.map_filter_def emit_def rr_upd_def
      split: option.splits)

text \<open>
  Claim C5. A resize of a record that has its output and its RandR output, to the
  width and height it has, succeeds and changes the record in the refresh only: its
  framebuffer identifier, buffer object and pixmap are the ones before, and every RandR
  output publishes the identifier it published before. The calls made are those of
  \<open>drmmode_xr_virtual_set_modes\<close> for the new refresh, which set the mode list, and
  then the announcement of the change; none of them creates or destroys a buffer.
\<close>

theorem resize_same_size_keeps_framebuffer:
  assumes i: "i < length (xr_virtual_outputs s)"
    and out: "output_ptr (xr_virtual_outputs s ! i) = Some out"
    and rr: "randr_output (xr_virtual_outputs s ! i) = Some rr"
    and w: "w = width (xr_virtual_outputs s ! i)" and h: "h = height (xr_virtual_outputs s ! i)"
  shows "\<exists>s'. drmmode_xr_resize_virtual_output env (Some i) w h r s = (True, s') \<and>
     xr_virtual_outputs s' = (xr_virtual_outputs s)[i := (xr_virtual_outputs s ! i)\<lparr>refresh := r\<rparr>] \<and>
     framebuffer_id (xr_virtual_outputs s' ! i) = framebuffer_id (xr_virtual_outputs s ! i) \<and>
     framebuffer_bo (xr_virtual_outputs s' ! i) = framebuffer_bo (xr_virtual_outputs s ! i) \<and>
     pixmap (xr_virtual_outputs s' ! i) = pixmap (xr_virtual_outputs s ! i) \<and>
     published_fb_id s' = published_fb_id s \<and>
     new_events s s' =
       new_events s (drmmode_xr_virtual_set_modes (resize_mode_get env) out w h r
          (s\<lparr>xr_virtual_outputs :=
               (xr_virtual_outputs s)[i := (xr_virtual_outputs s ! i)\<lparr>refresh := r\<rparr>]\<rparr>))
       @ [E_RROutputChanged rr, E_RRTellChanged] \<and>
     set (new_events s s') \<subseteq> range E_RROutputSetModes \<union> {E_RROutputChanged rr, E_RRTellChanged}"
proof -
  from resize_spec [OF i out rr, of env w h r] obtain s' es where
    run: "drmmode_xr_resize_virtual_output env (Some i) w h r s = (True, s')"
    and R: "xr_virtual_outputs s' =
       (xr_virtual_outputs s)[i := (xr_virtual_outputs s ! i)\<lparr>width := w, height := h, refresh := r\<rparr>]"
    and fp: "fb_prop s' = fb_prop s"
    and t: "trace s' = trace s @ es"
      "set es \<subseteq> range E_RROutputSetModes \<union> {E_RROutputChanged rr, E_RRTellChanged}"
    by blast
  have v: "(xr_virtual_outputs s ! i)\<lparr>width := w, height := h, refresh := r\<rparr>
      = (xr_virtual_outputs s ! i)\<lparr>refresh := r\<rparr>"
    by (simp add: w h)
  have ne: "new_events s s' = es" by (rule new_events_append [OF t(1)])
  have pub: "published_fb_id s' = published_fb_id s"
    using published_fb_id_cong [OF fp] by (simp add: fun_eq_iff)
  from resize_events [OF i out rr, of env w h r] run
  have ev: "new_events s s' =
       new_events s (drmmode_xr_virtual_set_modes (resize_mode_get env) out w h r
          (s\<lparr>xr_virtual_outputs :=
               (xr_virtual_outputs s)[i := (xr_virtual_outputs s ! i)\<lparr>refresh := r\<rparr>]\<rparr>))
       @ [E_RROutputChanged rr, E_RRTellChanged]"
    by (simp add: v)
  show ?thesis
  proof (intro exI conjI)
    show "drmmode_xr_resize_virtual_output env (Some i) w h r s = (True, s')" by (rule run)
    show "xr_virtual_outputs s' = (xr_virtual_outputs s)[i := (xr_virtual_outputs s ! i)\<lparr>refresh := r\<rparr>]"
      using R by (simp add: v)
    show "framebuffer_id (xr_virtual_outputs s' ! i) = framebuffer_id (xr_virtual_outputs s ! i)"
      "framebuffer_bo (xr_virtual_outputs s' ! i) = framebuffer_bo (xr_virtual_outputs s ! i)"
      "pixmap (xr_virtual_outputs s' ! i) = pixmap (xr_virtual_outputs s ! i)"
      using R i by simp_all
    show "published_fb_id s' = published_fb_id s" by (rule pub)
    show "new_events s s' =
       new_events s (drmmode_xr_virtual_set_modes (resize_mode_get env) out w h r
          (s\<lparr>xr_virtual_outputs :=
               (xr_virtual_outputs s)[i := (xr_virtual_outputs s ! i)\<lparr>refresh := r\<rparr>]\<rparr>))
       @ [E_RROutputChanged rr, E_RRTellChanged]" by (rule ev)
    show "set (new_events s s') \<subseteq> range E_RROutputSetModes \<union> {E_RROutputChanged rr, E_RRTellChanged}"
      using t(2) ne by simp
  qed
qed

theorem resize_same_size_keeps_framebuffer_witness:
  "\<exists>s'. drmmode_xr_resize_virtual_output example_resize_env (Some 0) 1920 1080 75 example_state
          = (True, s') \<and>
        xr_virtual_outputs s' = [example_vout\<lparr>refresh := 75\<rparr>] \<and>
        published_fb_id s' 2 = Some 42 \<and>
        new_events example_state s' = [E_RROutputSetModes 2, E_RROutputChanged 2, E_RRTellChanged]"
proof -
  have "\<exists>s'. drmmode_xr_resize_virtual_output example_resize_env (Some 0) 1920 1080 75 example_state
          = (True, s') \<and>
     xr_virtual_outputs s' = (xr_virtual_outputs example_state)
        [0 := (xr_virtual_outputs example_state ! 0)\<lparr>refresh := 75\<rparr>] \<and>
     framebuffer_id (xr_virtual_outputs s' ! 0) = framebuffer_id (xr_virtual_outputs example_state ! 0) \<and>
     framebuffer_bo (xr_virtual_outputs s' ! 0) = framebuffer_bo (xr_virtual_outputs example_state ! 0) \<and>
     pixmap (xr_virtual_outputs s' ! 0) = pixmap (xr_virtual_outputs example_state ! 0) \<and>
     published_fb_id s' = published_fb_id example_state \<and>
     new_events example_state s' =
       new_events example_state
         (drmmode_xr_virtual_set_modes (resize_mode_get example_resize_env) 1 1920 1080 75
          (example_state\<lparr>xr_virtual_outputs :=
               (xr_virtual_outputs example_state)
                 [0 := (xr_virtual_outputs example_state ! 0)\<lparr>refresh := 75\<rparr>]\<rparr>))
       @ [E_RROutputChanged 2, E_RRTellChanged] \<and>
     set (new_events example_state s') \<subseteq> range E_RROutputSetModes \<union> {E_RROutputChanged 2, E_RRTellChanged}"
    by (rule resize_same_size_keeps_framebuffer)
      (simp_all add: example_state_sel example_vout_sel)
  then obtain s' where
    "drmmode_xr_resize_virtual_output example_resize_env (Some 0) 1920 1080 75 example_state = (True, s')"
    "xr_virtual_outputs s' = [example_vout\<lparr>refresh := 75\<rparr>]"
    "published_fb_id s' = published_fb_id example_state"
    "new_events example_state s' =
       new_events example_state
         (drmmode_xr_virtual_set_modes example_mode_get 1 1920 1080 75
          (example_state\<lparr>xr_virtual_outputs := [example_vout\<lparr>refresh := 75\<rparr>]\<rparr>))
       @ [E_RROutputChanged 2, E_RRTellChanged]"
    by (auto simp: example_state_sel example_resize_env_def)
  then show ?thesis
    by (intro exI [of _ s']) (simp add: example_published example_set_modes_events)
qed

subsection \<open>Create with a registered name\<close>

lemma create_duplicate:
  "drmmode_xr_find_virtual_output s n \<noteq> None \<Longrightarrow>
   drmmode_xr_create_virtual_output env n w h r s = (None, s)"
  by (simp add: drmmode_xr_create_virtual_output_def)

text \<open>
  Claim C6. In every state the driver reaches the names in the list are pairwise
  different, and a create with a name in the list returns \<^verbatim>\<open>NULL\<close> and leaves the
  state as it is: the list, every record's width, height, refresh and framebuffer
  identifier, and every published property.
\<close>

theorem duplicate_name_rejected_names_unique:
  assumes "reachable s"
  shows "distinct (registered_names s) \<and>
         (\<forall>n \<in> set (registered_names s).
            drmmode_xr_find_virtual_output s n \<noteq> None \<and>
            drmmode_xr_create_virtual_output env n w h r s = (None, s))"
proof (intro conjI ballI)
  from reachable_registry [OF assms] show "distinct (registered_names s)" by simp
next
  fix n assume "n \<in> set (registered_names s)"
  then show "drmmode_xr_find_virtual_output s n \<noteq> None"
    by (simp add: find_None_not_registered)
  then show "drmmode_xr_create_virtual_output env n w h r s = (None, s)"
    by (rule create_duplicate)
qed

theorem duplicate_name_rejected_names_unique_witness:
  "reachable example_state \<and> registered_names example_state = [''XR-0''] \<and>
   drmmode_xr_create_virtual_output example_create_env ''XR-0'' 800 600 30 example_state
     = (None, example_state) \<and>
   xr_virtual_outputs example_state = [example_vout] \<and>
   published_fb_id example_state 2 = Some 42"
  using duplicate_name_rejected_names_unique [OF reachable_example_state, of example_create_env 800 600 30]
    reachable_example_state example_registered example_published
  by (simp add: example_state_sel)

subsection \<open>The order of a teardown\<close>

lemma example_delete_events:
  "delete_events example_state example_vout =
     [E_DestroyPixmap 6, E_drmModeRmFB 42, E_drmmode_bo_destroy, E_RRCrtcDestroy 4,
      E_xf86CrtcDestroy 3, E_RROutputSetConnection 2 RR_Disconnected, E_RROutputChanged 2,
      E_RRTellChanged, E_RROutputDestroy 2, E_free_output_private 1, E_xf86OutputDestroy 1,
      E_free_name, E_free_modes, E_free_vout]"
  by (simp add: delete_events_def example_destroy_events example_vout_sel)
    (simp add: example_state_def)

lemma example_delete:
  "\<exists>s'. drmmode_xr_delete_virtual_output ''XR-0'' example_state = (True, s') \<and>
        xr_virtual_outputs s' = [] \<and>
        new_events example_state s' = delete_events example_state example_vout"
proof -
  have f: "first_index (\<lambda>v. name v = Some ''XR-0'') (xr_virtual_outputs example_state) = Some 0"
    by (simp add: example_state_sel example_vout_sel)
  have d: "distinct (map output_ptr (xr_virtual_outputs example_state))"
    by (simp add: example_state_sel)
  have o: "output_ptr (xr_virtual_outputs example_state ! 0) = Some 1"
    "outputs example_state 1 = Some \<lparr>driver_private = True, out_randr_output = Some 2, out_crtc = Some 3\<rparr>"
    "driver_private \<lparr>driver_private = True, out_randr_output = Some 2, out_crtc = Some 3\<rparr>"
    by (simp_all add: example_state_sel example_vout_sel) (simp add: example_state_def)
  from delete_spec [OF f d o] obtain s' where
    "drmmode_xr_delete_virtual_output ''XR-0'' example_state = (True, s')"
    "xr_virtual_outputs s' = remove_nth 0 (xr_virtual_outputs example_state)"
    "trace s' = trace example_state @ delete_events example_state (xr_virtual_outputs example_state ! 0)"
    by blast
  then show ?thesis
    by (intro exI [of _ s']) (simp add: new_events_def example_state_sel remove_nth_def)
qed

text \<open>
  Against claim C8 as it is worded: deleting the example output makes the calls
  below. The buffer and the framebuffer are destroyed first and the CRTC second; the
  output is marked disconnected and the change announced only after both. In the order
  the specification gives, the stages of the calls are not ascending.
\<close>

theorem delete_destroys_buffer_before_disconnect:
  "\<exists>s'. drmmode_xr_delete_virtual_output ''XR-0'' example_state = (True, s') \<and>
     new_events example_state s' =
       [E_DestroyPixmap 6, E_drmModeRmFB 42, E_drmmode_bo_destroy, E_RRCrtcDestroy 4,
        E_xf86CrtcDestroy 3, E_RROutputSetConnection 2 RR_Disconnected, E_RROutputChanged 2,
        E_RRTellChanged, E_RROutputDestroy 2, E_free_output_private 1, E_xf86OutputDestroy 1,
        E_free_name, E_free_modes, E_free_vout] \<and>
     map specified_teardown_stage (new_events example_state s') =
       [2, 2, 2, 3, 3, 1, 1, 1, 4, 4, 4, 5, 5, 5] \<and>
     \<not> sorted (map specified_teardown_stage (new_events example_state s'))"
proof -
  from example_delete obtain s' where
    "drmmode_xr_delete_virtual_output ''XR-0'' example_state = (True, s')"
    "new_events example_state s' = delete_events example_state example_vout"
    by blast
  then show ?thesis
    by (intro exI [of _ s']) (simp add: example_delete_events specified_teardown_stage_def)
qed

lemma teardown_stage_simps [simp]:
  "teardown_stage (E_xf86CrtcDestroy c) = 2" "teardown_stage (E_RRCrtcDestroy rc) = 2"
  "teardown_stage (E_RROutputSetConnection rr k) = 3" "teardown_stage (E_RROutputChanged rr) = 3"
  "teardown_stage E_RRTellChanged = 3" "teardown_stage (E_RROutputDestroy rr) = 4"
  "teardown_stage (E_free_output_private out) = 4" "teardown_stage (E_xf86OutputDestroy out) = 4"
  "teardown_stage E_free_name = 5" "teardown_stage E_free_modes = 5" "teardown_stage E_free_vout = 5"
  by (simp_all add: teardown_stage_def)

lemma sorted_const: "\<forall>e \<in> set xs. f e = (k::nat) \<Longrightarrow> sorted (map f xs)"
  by (induction xs) auto

lemma sorted_stage_append:
  assumes "list_all (\<lambda>e. f e = (1::nat)) xs" and "list_all (\<lambda>e. f e = 2) ys"
    and "sorted (map f zs)" and "list_all (\<lambda>e. 2 \<le> f e) zs"
  shows "sorted (map f (xs @ ys @ zs))"
  using assms sorted_const [of xs f 1] sorted_const [of ys f 2]
  by (auto simp: sorted_append list_all_iff)

text \<open>
  Claim C8, amended. In a state the driver reaches, deleting a registered name
  succeeds, takes the record out of the list and makes its calls in this order: the
  calls that destroy the pixmap, the framebuffer and the buffer object; the CRTC
  (its RandR CRTC, if it has one, then \<^verbatim>\<open>xf86CrtcDestroy\<close>); the output marked
  disconnected and the change announced; the RandR output, the private block and the
  xf86 output destroyed; the name, the mode list and the record freed.
\<close>

theorem delete_teardown_order:
  assumes reach: "reachable s" and reg: "n \<in> set (registered_names s)"
  shows "\<exists>i out rr c fb cs s'.
     drmmode_xr_find_virtual_output s n = Some i \<and>
     output_ptr (xr_virtual_outputs s ! i) = Some out \<and>
     randr_output (xr_virtual_outputs s ! i) = Some rr \<and>
     crtc (xr_virtual_outputs s ! i) = Some c \<and>
     drmmode_xr_delete_virtual_output n s = (True, s') \<and>
     xr_virtual_outputs s' = remove_nth i (xr_virtual_outputs s) \<and>
     new_events s s' =
       fb @ cs @
       [E_xf86CrtcDestroy c,
        E_RROutputSetConnection rr RR_Disconnected, E_RROutputChanged rr, E_RRTellChanged,
        E_RROutputDestroy rr, E_free_output_private out, E_xf86OutputDestroy out,
        E_free_name, E_free_modes, E_free_vout] \<and>
     fb = snd (drmmode_xr_destroy_offscreen_framebuffer s (xr_virtual_outputs s ! i)) \<and>
     list_all (\<lambda>e. teardown_stage e = 1) fb \<and>
     set cs \<subseteq> range E_RRCrtcDestroy \<and>
     sorted (map teardown_stage (new_events s s'))"
proof -
  from reachable_registry [OF reach] have ok: "registry_ok s" by simp
  from reg have "drmmode_xr_find_virtual_output s n \<noteq> None"
    by (simp add: find_None_not_registered)
  then obtain i where find: "drmmode_xr_find_virtual_output s n = Some i" by auto
  then have f: "first_index (\<lambda>v. name v = Some n) (xr_virtual_outputs s) = Some i"
    by (simp add: drmmode_xr_find_virtual_output_def)
  let ?v = "xr_virtual_outputs s ! i"
  from first_index_Some_D [OF f] have i: "i < length (xr_virtual_outputs s)"
    and nm: "name ?v = Some n"
    by simp_all
  from i have mem: "?v \<in> set (xr_virtual_outputs s)" by simp
  from registry_ok_D [OF ok mem] obtain out ob rr c where
    out: "output_ptr ?v = Some out" "outputs s out = Some ob" "driver_private ob"
    and rr: "randr_output ?v = Some rr" and c: "crtc ?v = Some c"
    by auto
  from ok have d: "distinct (map output_ptr (xr_virtual_outputs s))"
    by (simp add: registry_ok_def)
  from delete_spec [OF f d out] obtain s' where
    run: "drmmode_xr_delete_virtual_output n s = (True, s')"
    and R: "xr_virtual_outputs s' = remove_nth i (xr_virtual_outputs s)"
    and t: "trace s' = trace s @ delete_events s ?v"
    by blast
  define fb where "fb = snd (drmmode_xr_destroy_offscreen_framebuffer s ?v)"
  define cs where "cs = (case crtcs s c of
               None \<Rightarrow> []
             | Some cr \<Rightarrow> (case randr_crtc cr of None \<Rightarrow> [] | Some rc \<Rightarrow> [E_RRCrtcDestroy rc]))"
  let ?tail = "[E_xf86CrtcDestroy c,
        E_RROutputSetConnection rr RR_Disconnected, E_RROutputChanged rr, E_RRTellChanged,
        E_RROutputDestroy rr, E_free_output_private out, E_xf86OutputDestroy out,
        E_free_name, E_free_modes, E_free_vout]"
  have ev: "new_events s s' = fb @ cs @ ?tail"
    using new_events_append [OF t]
    by (simp add: delete_events_def out rr c nm fb_def cs_def)
  obtain v1 where "drmmode_xr_destroy_offscreen_framebuffer s ?v = (v1, fb)"
    by (cases "drmmode_xr_destroy_offscreen_framebuffer s ?v") (simp add: fb_def)
  from destroy_fb_record [OF this] have fb1: "list_all (\<lambda>e. teardown_stage e = 1) fb" by blast
  have cs2: "set cs \<subseteq> range E_RRCrtcDestroy"
    by (auto simp: cs_def split: option.splits)
  then have cs2': "list_all (\<lambda>e. teardown_stage e = 2) cs"
    by (auto simp: list_all_iff)
  have "sorted (map teardown_stage (fb @ cs @ ?tail))"
    by (rule sorted_stage_append [OF fb1 cs2']) simp_all
  with ev have srt: "sorted (map teardown_stage (new_events s s'))" by simp
  show ?thesis
    by (rule exI [of _ i], rule exI [of _ out], rule exI [of _ rr], rule exI [of _ c],
        rule exI [of _ fb], rule exI [of _ cs], rule exI [of _ s'])
      (use find out(1) rr c run R ev fb1 cs2 srt in \<open>simp add: fb_def\<close>)
qed

theorem delete_teardown_order_witness:
  "\<exists>s'. drmmode_xr_delete_virtual_output ''XR-0'' example_state = (True, s') \<and>
        xr_virtual_outputs s' = [] \<and>
        map teardown_stage (new_events example_state s') = [1, 1, 1, 2, 2, 3, 3, 3, 4, 4, 4, 5, 5, 5] \<and>
        sorted (map teardown_stage (new_events example_state s'))"
proof -
  have reg: "''XR-0'' \<in> set (registered_names example_state)"
    by (simp add: example_registered)
  from delete_teardown_order [OF reachable_example_state reg] obtain s' where
    a: "drmmode_xr_delete_virtual_output ''XR-0'' example_state = (True, s')"
    "sorted (map teardown_stage (new_events example_state s'))"
    by blast
  from example_delete a(1) have
    "xr_virtual_outputs s' = []"
    "new_events example_state s' = delete_events example_state example_vout"
    by auto
  with a show ?thesis
    by (intro exI [of _ s']) (simp add: example_delete_events teardown_stage_def)
qed

subsection \<open>Mode-set and the framebuffer\<close>

text \<open>
  Claim C9. A mode-set with a mode returns \<^verbatim>\<open>TRUE\<close> and stores the mode, x, y
  and the rotation in the CRTC. When a record owns the CRTC and the mode's size is not
  the record's, the calls made start with those that destroy the record's buffer, and
  a new one is built: if the host can build it, the record has a pixmap, a buffer of
  the mode's size and the kernel's identifier, and the mode's width and height; if the
  host cannot, the record has no pixmap and no buffer object and keeps its width and
  height, and the mode-set has returned \<^verbatim>\<open>TRUE\<close> all the same. When no record
  owns the CRTC, or the size is the record's, the list is unchanged and no call is
  made.
\<close>

theorem mode_set_stores_mode_and_reports_success:
  "\<exists>s'. drmmode_xr_virtual_crtc_set_mode_major env c (Some m) rotation x y s = (True, s') \<and>
     crtcs s' c = map_option (\<lambda>cr. cr\<lparr>crtc_mode := Some m, crtc_x := x, crtc_y := y,
                                          crtc_rotation := rotation\<rparr>) (crtcs s c) \<and>
     (\<forall>i. drmmode_xr_find_virtual_output_by_crtc s c = Some i \<and>
          (width (xr_virtual_outputs s ! i) \<noteq> HDisplay m \<or>
           height (xr_virtual_outputs s ! i) \<noteq> VDisplay m) \<longrightarrow>
        (\<exists>v' es. xr_virtual_outputs s' = (xr_virtual_outputs s)[i := v'] \<and>
           new_events s s'
             = snd (drmmode_xr_destroy_offscreen_framebuffer s (xr_virtual_outputs s ! i)) @ es \<and>
           (framebuffer_can_be_built env \<longrightarrow>
              width v' = HDisplay m \<and> height v' = VDisplay m \<and> pixmap v' \<noteq> None \<and>
              drmmode_bo_import_id env = Some (framebuffer_id v') \<and>
              bo_width (framebuffer_bo v') = word_of_int (HDisplay m) \<and>
              bo_height (framebuffer_bo v') = word_of_int (VDisplay m)) \<and>
           (\<not> framebuffer_can_be_built env \<longrightarrow>
              width v' = width (xr_virtual_outputs s ! i) \<and>
              height v' = height (xr_virtual_outputs s ! i) \<and> pixmap v' = None \<and>
              dumb (framebuffer_bo v') = None \<and> gbm (framebuffer_bo v') = None))) \<and>
     ((drmmode_xr_find_virtual_output_by_crtc s c = None \<or>
       (\<exists>i. drmmode_xr_find_virtual_output_by_crtc s c = Some i \<and>
            width (xr_virtual_outputs s ! i) = HDisplay m \<and>
            height (xr_virtual_outputs s ! i) = VDisplay m)) \<longrightarrow>
        xr_virtual_outputs s' = xr_virtual_outputs s \<and> new_events s s' = [])"
proof -
  define s1 where "s1 = set_mode_resize_framebuffer env c m s"
  define s' where "s' = crtc_upd c (\<lambda>cr. cr\<lparr>crtc_mode := Some m, crtc_x := x, crtc_y := y,
                                crtc_rotation := rotation\<rparr>) s1"
  have run: "drmmode_xr_virtual_crtc_set_mode_major env c (Some m) rotation x y s = (True, s')"
    by (simp add: drmmode_xr_virtual_crtc_set_mode_major_def s'_def s1_def)
  have sel: "xr_virtual_outputs s' = xr_virtual_outputs s1" "trace s' = trace s1"
    "crtcs s' c = map_option (\<lambda>cr. cr\<lparr>crtc_mode := Some m, crtc_x := x, crtc_y := y,
                                          crtc_rotation := rotation\<rparr>) (crtcs s1 c)"
    by (simp_all add: s'_def)
  have ne: "new_events s s' = new_events s s1"
    by (simp add: new_events_def sel)
  have c1: "crtcs s1 = crtcs s"
  proof (cases "\<exists>i. drmmode_xr_find_virtual_output_by_crtc s c = Some i \<and>
      (width (xr_virtual_outputs s ! i) \<noteq> HDisplay m \<or> height (xr_virtual_outputs s ! i) \<noteq> VDisplay m)")
    case True
    then obtain i where "drmmode_xr_find_virtual_output_by_crtc s c = Some i"
      "width (xr_virtual_outputs s ! i) \<noteq> HDisplay m \<or> height (xr_virtual_outputs s ! i) \<noteq> VDisplay m"
      by blast
    from set_mode_resize_spec [OF this, of env] show ?thesis unfolding s1_def by blast
  next
    case False
    then have "set_mode_resize_framebuffer env c m s = s"
      by (intro set_mode_resize_skip) (cases "drmmode_xr_find_virtual_output_by_crtc s c", auto)
    then show ?thesis by (simp add: s1_def)
  qed
  have A: "\<exists>v' es. xr_virtual_outputs s' = (xr_virtual_outputs s)[i := v'] \<and>
           new_events s s'
             = snd (drmmode_xr_destroy_offscreen_framebuffer s (xr_virtual_outputs s ! i)) @ es \<and>
           (framebuffer_can_be_built env \<longrightarrow>
              width v' = HDisplay m \<and> height v' = VDisplay m \<and> pixmap v' \<noteq> None \<and>
              drmmode_bo_import_id env = Some (framebuffer_id v') \<and>
              bo_width (framebuffer_bo v') = word_of_int (HDisplay m) \<and>
              bo_height (framebuffer_bo v') = word_of_int (VDisplay m)) \<and>
           (\<not> framebuffer_can_be_built env \<longrightarrow>
              width v' = width (xr_virtual_outputs s ! i) \<and>
              height v' = height (xr_virtual_outputs s ! i) \<and> pixmap v' = None \<and>
              dumb (framebuffer_bo v') = None \<and> gbm (framebuffer_bo v') = None)"
    if own: "drmmode_xr_find_virtual_output_by_crtc s c = Some i"
      and diff: "width (xr_virtual_outputs s ! i) \<noteq> HDisplay m \<or>
                 height (xr_virtual_outputs s ! i) \<noteq> VDisplay m" for i
  proof -
    from set_mode_resize_spec [OF own diff, of env] obtain v' es2 where
      R: "xr_virtual_outputs s1 = (xr_virtual_outputs s)[i := v']"
      and t: "trace s1 = trace s @ snd (drmmode_xr_destroy_offscreen_framebuffer s (xr_virtual_outputs s ! i)) @ es2"
      and good: "framebuffer_can_be_built env \<longrightarrow>
        width v' = HDisplay m \<and> height v' = VDisplay m \<and> pixmap v' \<noteq> None \<and>
        drmmode_bo_import_id env = Some (framebuffer_id v') \<and>
        bo_width (framebuffer_bo v') = word_of_int (HDisplay m) \<and>
        bo_height (framebuffer_bo v') = word_of_int (VDisplay m)"
      and bad: "\<not> framebuffer_can_be_built env \<longrightarrow>
        width v' = width (xr_virtual_outputs s ! i) \<and>
        height v' = height (xr_virtual_outputs s ! i) \<and> pixmap v' = None \<and>
        dumb (framebuffer_bo v') = None \<and> gbm (framebuffer_bo v') = None"
      unfolding s1_def by blast
    from new_events_append [OF t] ne have n: "new_events s s'
        = snd (drmmode_xr_destroy_offscreen_framebuffer s (xr_virtual_outputs s ! i)) @ es2"
      by simp
    from R sel(1) have R': "xr_virtual_outputs s' = (xr_virtual_outputs s)[i := v']" by simp
    show ?thesis
      by (rule exI [of _ v'], rule exI [of _ es2]) (use R' n good bad in simp)
  qed
  have B: "xr_virtual_outputs s' = xr_virtual_outputs s \<and> new_events s s' = []"
    if "drmmode_xr_find_virtual_output_by_crtc s c = None \<or>
       (\<exists>i. drmmode_xr_find_virtual_output_by_crtc s c = Some i \<and>
            width (xr_virtual_outputs s ! i) = HDisplay m \<and>
            height (xr_virtual_outputs s ! i) = VDisplay m)"
  proof -
    from set_mode_resize_skip [OF that] have "s1 = s" by (simp add: s1_def)
    then show ?thesis using sel ne by (simp add: new_events_def)
  qed
  from run sel(3) c1 A B show ?thesis by (intro exI [of _ s']) simp
qed

theorem mode_set_stores_mode_and_reports_success_witness:
  "\<exists>s' v' es.
     drmmode_xr_virtual_crtc_set_mode_major example_fb_env_no_memory 3
        (Some \<lparr>HDisplay = 3840, VDisplay = 2160, VRefresh = 60\<rparr>) 1 10 20 example_state = (True, s') \<and>
     crtcs s' 3 = Some \<lparr>randr_crtc = Some 4, crtc_private = True, dpms_mode = 0,
        crtc_mode = Some \<lparr>HDisplay = 3840, VDisplay = 2160, VRefresh = 60\<rparr>,
        crtc_x = 10, crtc_y = 20, crtc_rotation = 1\<rparr> \<and>
     xr_virtual_outputs s' = [v'] \<and> width v' = 1920 \<and> height v' = 1080 \<and> pixmap v' = None \<and>
     new_events example_state s' = [E_DestroyPixmap 6, E_drmModeRmFB 42, E_drmmode_bo_destroy] @ es"
proof -
  have f: "drmmode_xr_find_virtual_output_by_crtc example_state 3 = Some 0"
    by (simp add: drmmode_xr_find_virtual_output_by_crtc_def example_state_sel example_vout_sel)
  have c: "crtcs example_state 3 = Some \<lparr>randr_crtc = Some 4, crtc_private = True, dpms_mode = 0,
        crtc_mode = None, crtc_x = 0, crtc_y = 0, crtc_rotation = 1\<rparr>"
    by (simp add: example_state_def)
  from mode_set_stores_mode_and_reports_success [of example_fb_env_no_memory 3
      "\<lparr>HDisplay = 3840, VDisplay = 2160, VRefresh = 60\<rparr>" 1 10 20 example_state]
  obtain s' where s':
    "drmmode_xr_virtual_crtc_set_mode_major example_fb_env_no_memory 3
        (Some \<lparr>HDisplay = 3840, VDisplay = 2160, VRefresh = 60\<rparr>) 1 10 20 example_state = (True, s')"
    "crtcs s' 3 = Some \<lparr>randr_crtc = Some 4, crtc_private = True, dpms_mode = 0,
        crtc_mode = Some \<lparr>HDisplay = 3840, VDisplay = 2160, VRefresh = 60\<rparr>,
        crtc_x = 10, crtc_y = 20, crtc_rotation = 1\<rparr>"
    "\<exists>v' es. xr_virtual_outputs s' = (xr_virtual_outputs example_state)[0 := v'] \<and>
        new_events example_state s'
          = snd (drmmode_xr_destroy_offscreen_framebuffer example_state
                   (xr_virtual_outputs example_state ! 0)) @ es \<and>
        width v' = width (xr_virtual_outputs example_state ! 0) \<and>
        height v' = height (xr_virtual_outputs example_state ! 0) \<and> pixmap v' = None"
    using f c example_no_memory
    by (auto simp: example_state_sel example_vout_sel)
  from s'(3) obtain v' es where
    "xr_virtual_outputs s' = [v']" "width v' = 1920" "height v' = 1080" "pixmap v' = None"
    "new_events example_state s' = [E_DestroyPixmap 6, E_drmModeRmFB 42, E_drmmode_bo_destroy] @ es"
    by (auto simp: example_state_sel example_vout_sel example_destroy_events)
  with s'(1,2) show ?thesis by blast
qed

subsection \<open>Create with a name only\<close>

lemma parse_name_only:
  "CHR '':'' \<notin> set n \<Longrightarrow> parse_create_command n = (n, 1920, 1080, 60)"
proof -
  assume a: "CHR '':'' \<notin> set n"
  then have tw: "takeWhile (\<lambda>c. c \<noteq> CHR '':'') n = n"
    and dw: "dropWhile (\<lambda>c. c \<noteq> CHR '':'') n = []"
    by (auto simp: takeWhile_eq_all_conv dropWhile_eq_Nil_conv)
  show ?thesis
    unfolding parse_create_command_def Let_def dw tw by simp
qed

text \<open>
  Claim C10. A \<^verbatim>\<open>CREATE_XR_OUTPUT\<close> command that holds a name and no colon,
  the name not empty and not registered, succeeds when the host builds the objects of
  an output, and the new record has width 1920, height 1080 and refresh 60.
\<close>

theorem create_name_only_uses_defaults:
  assumes "c_string bytes = n" and "CHR '':'' \<notin> set n" and "n \<noteq> []"
    and "drmmode_xr_find_virtual_output s n = None"
    and "strndup_ok env" and "objects_can_be_built (manager_create_env env)"
  shows "\<exists>v s'. drmmode_xr_manager_set_property env (Some ''CREATE_XR_OUTPUT'')
                   \<lparr>ptype = XA_STRING, pdata = Data8 bytes\<rparr> s = (True, s') \<and>
     xr_virtual_outputs s' = v # xr_virtual_outputs s \<and>
     name v = (if strdup_ok (manager_create_env env) then Some n else None) \<and>
     width v = 1920 \<and> height v = 1080 \<and> refresh v = 60"
proof -
  from create_success [OF assms(4,6), of 1920 1080 60] obtain v s' where
    run: "drmmode_xr_create_virtual_output (manager_create_env env) n 1920 1080 60 s = (Some 0, s')"
    and v: "xr_virtual_outputs s' = v # xr_virtual_outputs s"
      "name v = (if strdup_ok (manager_create_env env) then Some n else None)"
      "width v = 1920" "height v = 1080" "refresh v = 60"
    by blast
  have "drmmode_xr_manager_set_property env (Some ''CREATE_XR_OUTPUT'')
          \<lparr>ptype = XA_STRING, pdata = Data8 bytes\<rparr> s = (True, s')"
    using assms(1,3,5) parse_name_only [OF assms(2)] run
    by (simp add: drmmode_xr_manager_set_property_def pformat_def pbytes_def)
  with v show ?thesis by blast
qed

theorem create_name_only_uses_defaults_witness:
  "\<exists>v s'. drmmode_xr_manager_set_property example_manager_env (Some ''CREATE_XR_OUTPUT'')
              \<lparr>ptype = XA_STRING, pdata = Data8 ''XR-0''\<rparr> (initial_state True True) = (True, s') \<and>
     xr_virtual_outputs s' = [v] \<and> name v = Some ''XR-0'' \<and>
     width v = 1920 \<and> height v = 1080 \<and> refresh v = 60"
proof -
  have e: "c_string ''XR-0'' = ''XR-0''" "CHR '':'' \<notin> set ''XR-0''" "''XR-0'' \<noteq> []"
    "strndup_ok example_manager_env" "objects_can_be_built (manager_create_env example_manager_env)"
    "strdup_ok (manager_create_env example_manager_env)"
    using example_objects(1)
    by (simp_all add: c_string_def example_manager_env_def example_create_env_def)
  from create_name_only_uses_defaults [OF e(1,2,3) initial_find [of True True] e(4,5)]
  show ?thesis
    by (simp add: e(6) initial_state_sel)
qed

subsection \<open>Deleting a name that is not registered\<close>

text \<open>
  Claim C7. A delete whose name is not registered fails and changes nothing: the
  call returns \<^verbatim>\<open>FALSE\<close> and the state after it, the list and every record in it
  included, is the state before. The same holds when the name arrives as a
  \<^verbatim>\<open>DELETE_XR_OUTPUT\<close> command at the manager.
\<close>

theorem delete_unknown_name_is_noop:
  assumes "drmmode_xr_find_virtual_output s n = None"
  shows "drmmode_xr_delete_virtual_output n s = (False, s) \<and>
         (strndup_ok env \<and> c_string bytes = n \<longrightarrow>
            drmmode_xr_manager_set_property env (Some ''DELETE_XR_OUTPUT'')
              \<lparr>ptype = XA_STRING, pdata = Data8 bytes\<rparr> s = (False, s))"
proof -
  have d: "drmmode_xr_delete_virtual_output n s = (False, s)"
    using assms
    by (simp add: drmmode_xr_find_virtual_output_def drmmode_xr_delete_virtual_output_def)
  then show ?thesis
    by (simp add: drmmode_xr_manager_set_property_def pformat_def pbytes_def)
qed

theorem delete_unknown_name_is_noop_witness:
  "drmmode_xr_find_virtual_output example_state ''XR-1'' = None \<and>
   drmmode_xr_delete_virtual_output ''XR-1'' example_state = (False, example_state) \<and>
   drmmode_xr_manager_set_property example_manager_env (Some ''DELETE_XR_OUTPUT'')
     \<lparr>ptype = XA_STRING, pdata = Data8 ''XR-1''\<rparr> example_state = (False, example_state)"
proof -
  have h: "drmmode_xr_find_virtual_output example_state ''XR-1'' = None"
    by (simp add: drmmode_xr_find_virtual_output_def example_state_def example_vout_def)
  have e: "strndup_ok example_manager_env \<and> c_string ''XR-1'' = ''XR-1''"
    by (simp add: example_manager_env_def c_string_def)
  from delete_unknown_name_is_noop [OF h, of example_manager_env "''XR-1''"] h e
  show ?thesis by simp
qed

end
